theory Spec2Isabelle
  imports Complex_Main
begin

section \<open>Data model\<close>

text \<open>
  The geometry of the \<open>Scene\<close> component: three fixed anchors, one movable point, the
  circle in which the first two spheres meet and the points common to all three spheres.
  JavaScript numbers are read in two ways. In the first they are exact reals: the
  statements are about the arithmetic the code writes down, with IEEE rounding idealised
  away; this reading carries the statements that allow for floating tolerance or
  describe which branch is taken. In the second, given for the circle block, they are
  binary64 doubles and every operation rounds; this reading carries the statements that
  turn on rounding: the test for the circle, the sign of its radius and the place of its
  center.
\<close>

text \<open>
  Modelled from the spec: the interface \<open>Point3D\<close> is imported from \<open>./types\<close>, a file that
  is not part of the sources; the code reads its fields \<open>x\<close>, \<open>y\<close> and \<open>z\<close>.
\<close>

record Point3D =
  x :: real
  y :: real
  z :: real

text \<open>\<open>THREE.Vector3\<close> as a value; the selectors stand for the fields \<open>x\<close>, \<open>y\<close>, \<open>z\<close>.\<close>

datatype Vector3 = Vector3 (vx: real) (vy: real) (vz: real)

text \<open>\<open>THREE.Quaternion\<close> as a value, fields \<open>x\<close>, \<open>y\<close>, \<open>z\<close>, \<open>w\<close>.\<close>

datatype Quaternion = Quaternion (qx: real) (qy: real) (qz: real) (qw: real)

record CircleResult =
  exists :: bool
  center :: Vector3
  radius :: real
  quaternion :: Quaternion

record GeometryResult =
  radiusTop :: real
  radiusLeft :: real
  radiusFront :: real
  intersectionCircle :: CircleResult
  intersectionPoints :: "Vector3 list"

section \<open>The vector operations the scene calls\<close>

text \<open>
  The methods of \<open>THREE.Vector3\<close> and \<open>THREE.Quaternion\<close> used by the scene, on values.
  A method that overwrites its receiver returns the receiver's new value here.
\<close>

definition lengthSq :: "Vector3 \<Rightarrow> real" where
  "lengthSq v = vx v * vx v + vy v * vy v + vz v * vz v"

definition length_v :: "Vector3 \<Rightarrow> real" where
  "length_v v = sqrt (vx v * vx v + vy v * vy v + vz v * vz v)"

definition dot :: "Vector3 \<Rightarrow> Vector3 \<Rightarrow> real" where
  "dot v w = vx v * vx w + vy v * vy w + vz v * vz w"

definition distanceToSquared :: "Vector3 \<Rightarrow> Vector3 \<Rightarrow> real" where
  "distanceToSquared v w =
     (let dx = vx v - vx w; dy = vy v - vy w; dz = vz v - vz w
      in dx * dx + dy * dy + dz * dz)"

definition distanceTo :: "Vector3 \<Rightarrow> Vector3 \<Rightarrow> real" where
  "distanceTo v w = sqrt (distanceToSquared v w)"

definition subVectors :: "Vector3 \<Rightarrow> Vector3 \<Rightarrow> Vector3" where
  "subVectors a b = Vector3 (vx a - vx b) (vy a - vy b) (vz a - vz b)"

definition addVectors :: "Vector3 \<Rightarrow> Vector3 \<Rightarrow> Vector3" where
  "addVectors a b = Vector3 (vx a + vx b) (vy a + vy b) (vz a + vz b)"

definition add :: "Vector3 \<Rightarrow> Vector3 \<Rightarrow> Vector3" where
  "add this v = Vector3 (vx this + vx v) (vy this + vy v) (vz this + vz v)"

definition multiplyScalar :: "Vector3 \<Rightarrow> real \<Rightarrow> Vector3" where
  "multiplyScalar this s = Vector3 (vx this * s) (vy this * s) (vz this * s)"

definition divideScalar :: "Vector3 \<Rightarrow> real \<Rightarrow> Vector3" where
  "divideScalar this s = multiplyScalar this (1 / s)"

text \<open>\<open>normalize\<close> divides by \<open>this.length() || 1\<close>: a zero length is replaced by 1.\<close>

definition normalize_v :: "Vector3 \<Rightarrow> Vector3" where
  "normalize_v this = divideScalar this (if length_v this = 0 then 1 else length_v this)"

definition crossVectors :: "Vector3 \<Rightarrow> Vector3 \<Rightarrow> Vector3" where
  "crossVectors a b =
     Vector3 (vy a * vz b - vz a * vy b) (vz a * vx b - vx a * vz b) (vx a * vy b - vy a * vx b)"

definition addScaledVector :: "Vector3 \<Rightarrow> Vector3 \<Rightarrow> real \<Rightarrow> Vector3" where
  "addScaledVector this v s = Vector3 (vx this + vx v * s) (vy this + vy v * s) (vz this + vz v * s)"

definition q_normalize :: "Quaternion \<Rightarrow> Quaternion" where
  "q_normalize q =
     (let l = sqrt (qx q * qx q + qy q * qy q + qz q * qz q + qw q * qw q)
      in if l = 0 then Quaternion 0 0 0 1
         else Quaternion (qx q * (1 / l)) (qy q * (1 / l)) (qz q * (1 / l)) (qw q * (1 / l)))"

text \<open>
  \<open>setFromUnitVectors\<close>: the rotation taking the unit vector \<open>vFrom\<close> to the unit vector
  \<open>vTo\<close>; opposite vectors (\<open>r\<close> below the library's epsilon, here \<open>Number.EPSILON\<close>)
  get a perpendicular axis. The scene calls it with \<open>r = 1\<close>.
\<close>

definition setFromUnitVectors :: "Vector3 \<Rightarrow> Vector3 \<Rightarrow> Quaternion" where
  "setFromUnitVectors vFrom vTo =
     (let r = dot vFrom vTo + 1
      in if r < 1 / 2 ^ 52 then
           (if \<bar>vx vFrom\<bar> > \<bar>vz vFrom\<bar>
            then q_normalize (Quaternion (- vy vFrom) (vx vFrom) 0 0)
            else q_normalize (Quaternion 0 (- vz vFrom) (vy vFrom) 0))
         else q_normalize (Quaternion
                (vy vFrom * vz vTo - vz vFrom * vy vTo)
                (vz vFrom * vx vTo - vx vFrom * vz vTo)
                (vx vFrom * vy vTo - vy vFrom * vx vTo) r))"

section \<open>The scene's computation\<close>

definition TOP_POINT_POS :: Vector3 where
  "TOP_POINT_POS = Vector3 0 8 0"

definition LEFT_POINT_POS :: Vector3 where
  "LEFT_POINT_POS = Vector3 (- 8) 0 0"

definition FRONT_POINT_POS :: Vector3 where
  "FRONT_POINT_POS = Vector3 0 0 8"

definition movablePointVec :: "Point3D \<Rightarrow> Vector3" where
  "movablePointVec movablePoint = Vector3 (x movablePoint) (y movablePoint) (z movablePoint)"

subsection \<open>Sphere-sphere intersection (the circle)\<close>

text \<open>
  The locals of the block, as functions of the locals \<open>c1\<close>, \<open>c2\<close>, \<open>r1\<close>, \<open>r2\<close> they are
  computed from, in exact arithmetic. The same block with every operation rounded to a
  double is given further down, with the suffix \<open>_d\<close>.
\<close>

definition d_12 :: "Vector3 \<Rightarrow> Vector3 \<Rightarrow> real" where
  "d_12 c1 c2 = distanceTo c1 c2"

definition circle_a :: "Vector3 \<Rightarrow> Vector3 \<Rightarrow> real \<Rightarrow> real \<Rightarrow> real" where
  "circle_a c1 c2 r1 r2 = (r1 * r1 - r2 * r2 + d_12 c1 c2 * d_12 c1 c2) / (2 * d_12 c1 c2)"

definition circle_h :: "Vector3 \<Rightarrow> Vector3 \<Rightarrow> real \<Rightarrow> real \<Rightarrow> real" where
  "circle_h c1 c2 r1 r2 =
     sqrt (max 0 (r1 * r1 - circle_a c1 c2 r1 r2 * circle_a c1 c2 r1 r2))"

definition circleResult :: "Vector3 \<Rightarrow> Vector3 \<Rightarrow> real \<Rightarrow> real \<Rightarrow> CircleResult" where
  "circleResult c1 c2 r1 r2 =
     (if d_12 c1 c2 < r1 + r2 \<and> d_12 c1 c2 > \<bar>r1 - r2\<bar> then
        (let a = circle_a c1 c2 r1 r2;
             h = circle_h c1 c2 r1 r2;
             direction = normalize_v (subVectors c2 c1);
             center = add c1 (multiplyScalar direction a);
             defaultNormal = Vector3 0 0 1;
             planeNormal = normalize_v (subVectors c2 c1);
             quaternion = setFromUnitVectors defaultNormal planeNormal
         in \<lparr>exists = True, center = center, radius = h, quaternion = quaternion\<rparr>)
      else \<lparr>exists = False, center = Vector3 0 0 0, radius = 0,
             quaternion = Quaternion 0 0 0 1\<rparr>)"

subsection \<open>Three-sphere intersection (the points)\<close>

definition n_A :: "Vector3 \<Rightarrow> Vector3 \<Rightarrow> Vector3" where
  "n_A c1 c2 = subVectors c2 c1"

definition d_A :: "Vector3 \<Rightarrow> Vector3 \<Rightarrow> real \<Rightarrow> real \<Rightarrow> real" where
  "d_A c1 c2 r1 r2 = (r1 * r1 - r2 * r2 - lengthSq c1 + lengthSq c2) / 2"

definition n_B :: "Vector3 \<Rightarrow> Vector3 \<Rightarrow> Vector3" where
  "n_B c1 c3 = subVectors c3 c1"

definition d_B :: "Vector3 \<Rightarrow> Vector3 \<Rightarrow> real \<Rightarrow> real \<Rightarrow> real" where
  "d_B c1 c3 r1 r3 = (r1 * r1 - r3 * r3 - lengthSq c1 + lengthSq c3) / 2"

definition L_dir :: "Vector3 \<Rightarrow> Vector3 \<Rightarrow> Vector3 \<Rightarrow> Vector3" where
  "L_dir c1 c2 c3 = crossVectors (n_A c1 c2) (n_B c1 c3)"

definition L_dir_sq :: "Vector3 \<Rightarrow> Vector3 \<Rightarrow> Vector3 \<Rightarrow> real" where
  "L_dir_sq c1 c2 c3 = lengthSq (L_dir c1 c2 c3)"

definition L_p0 :: "Vector3 \<Rightarrow> Vector3 \<Rightarrow> Vector3 \<Rightarrow> real \<Rightarrow> real \<Rightarrow> real \<Rightarrow> Vector3" where
  "L_p0 c1 c2 c3 r1 r2 r3 =
     (let tmp1 = multiplyScalar (crossVectors (n_B c1 c3) (L_dir c1 c2 c3)) (d_A c1 c2 r1 r2);
          tmp2 = multiplyScalar (crossVectors (L_dir c1 c2 c3) (n_A c1 c2)) (d_B c1 c3 r1 r3)
      in divideScalar (addVectors tmp1 tmp2) (L_dir_sq c1 c2 c3))"

definition delta_p :: "Vector3 \<Rightarrow> Vector3 \<Rightarrow> Vector3 \<Rightarrow> real \<Rightarrow> real \<Rightarrow> real \<Rightarrow> Vector3" where
  "delta_p c1 c2 c3 r1 r2 r3 = subVectors (L_p0 c1 c2 c3 r1 r2 r3) c1"

text \<open>The coefficients \<open>A\<close>, \<open>B\<close>, \<open>C\<close> of the line-sphere quadratic.\<close>

definition coeff_A :: "Vector3 \<Rightarrow> Vector3 \<Rightarrow> Vector3 \<Rightarrow> real" where
  "coeff_A c1 c2 c3 = L_dir_sq c1 c2 c3"

definition coeff_B :: "Vector3 \<Rightarrow> Vector3 \<Rightarrow> Vector3 \<Rightarrow> real \<Rightarrow> real \<Rightarrow> real \<Rightarrow> real" where
  "coeff_B c1 c2 c3 r1 r2 r3 = 2 * dot (delta_p c1 c2 c3 r1 r2 r3) (L_dir c1 c2 c3)"

definition coeff_C :: "Vector3 \<Rightarrow> Vector3 \<Rightarrow> Vector3 \<Rightarrow> real \<Rightarrow> real \<Rightarrow> real \<Rightarrow> real" where
  "coeff_C c1 c2 c3 r1 r2 r3 = lengthSq (delta_p c1 c2 c3 r1 r2 r3) - r1 * r1"

definition discriminant :: "Vector3 \<Rightarrow> Vector3 \<Rightarrow> Vector3 \<Rightarrow> real \<Rightarrow> real \<Rightarrow> real \<Rightarrow> real" where
  "discriminant c1 c2 c3 r1 r2 r3 =
     coeff_B c1 c2 c3 r1 r2 r3 * coeff_B c1 c2 c3 r1 r2 r3
       - 4 * coeff_A c1 c2 c3 * coeff_C c1 c2 c3 r1 r2 r3"

definition sqrt_disc :: "Vector3 \<Rightarrow> Vector3 \<Rightarrow> Vector3 \<Rightarrow> real \<Rightarrow> real \<Rightarrow> real \<Rightarrow> real" where
  "sqrt_disc c1 c2 c3 r1 r2 r3 = sqrt (discriminant c1 c2 c3 r1 r2 r3)"

definition t1 :: "Vector3 \<Rightarrow> Vector3 \<Rightarrow> Vector3 \<Rightarrow> real \<Rightarrow> real \<Rightarrow> real \<Rightarrow> real" where
  "t1 c1 c2 c3 r1 r2 r3 =
     (- coeff_B c1 c2 c3 r1 r2 r3 + sqrt_disc c1 c2 c3 r1 r2 r3) / (2 * coeff_A c1 c2 c3)"

definition t2 :: "Vector3 \<Rightarrow> Vector3 \<Rightarrow> Vector3 \<Rightarrow> real \<Rightarrow> real \<Rightarrow> real \<Rightarrow> real" where
  "t2 c1 c2 c3 r1 r2 r3 =
     (- coeff_B c1 c2 c3 r1 r2 r3 - sqrt_disc c1 c2 c3 r1 r2 r3) / (2 * coeff_A c1 c2 c3)"

definition p1 :: "Vector3 \<Rightarrow> Vector3 \<Rightarrow> Vector3 \<Rightarrow> real \<Rightarrow> real \<Rightarrow> real \<Rightarrow> Vector3" where
  "p1 c1 c2 c3 r1 r2 r3 =
     addScaledVector (L_p0 c1 c2 c3 r1 r2 r3) (L_dir c1 c2 c3) (t1 c1 c2 c3 r1 r2 r3)"

definition p2 :: "Vector3 \<Rightarrow> Vector3 \<Rightarrow> Vector3 \<Rightarrow> real \<Rightarrow> real \<Rightarrow> real \<Rightarrow> Vector3" where
  "p2 c1 c2 c3 r1 r2 r3 =
     addScaledVector (L_p0 c1 c2 c3 r1 r2 r3) (L_dir c1 c2 c3) (t2 c1 c2 c3 r1 r2 r3)"

text \<open>
  \<open>pointsResult\<close> starts empty; \<open>p1\<close> is pushed when the discriminant is not negative,
  \<open>p2\<close> after it when the discriminant exceeds \<open>1e-6\<close>; nothing is pushed when
  \<open>L_dir_sq\<close> is at most \<open>1e-6\<close>.
\<close>

definition pointsResult :: "Vector3 \<Rightarrow> Vector3 \<Rightarrow> Vector3 \<Rightarrow> real \<Rightarrow> real \<Rightarrow> real \<Rightarrow> Vector3 list" where
  "pointsResult c1 c2 c3 r1 r2 r3 =
     (if L_dir_sq c1 c2 c3 > 1 / 10 ^ 6 then
        (if discriminant c1 c2 c3 r1 r2 r3 \<ge> 0 then
           [p1 c1 c2 c3 r1 r2 r3]
             @ (if discriminant c1 c2 c3 r1 r2 r3 > 1 / 10 ^ 6 then [p2 c1 c2 c3 r1 r2 r3] else [])
         else [])
      else [])"

subsection \<open>The memoised result\<close>

text \<open>
  The callback of the second \<open>useMemo\<close> of \<open>Scene\<close>, which the specification calls
  \<open>computeGeometry\<close>: the radii, then the two blocks on \<open>c1\<close>, \<open>c2\<close>, \<open>c3\<close> and the radii.
\<close>

definition computeGeometry :: "Point3D \<Rightarrow> GeometryResult" where
  "computeGeometry movablePoint =
     (let rTop = distanceTo TOP_POINT_POS (movablePointVec movablePoint);
          rLeft = distanceTo LEFT_POINT_POS (movablePointVec movablePoint);
          rFront = distanceTo FRONT_POINT_POS (movablePointVec movablePoint);
          c1 = TOP_POINT_POS;
          c2 = LEFT_POINT_POS;
          r1 = rTop;
          r2 = rLeft;
          c3 = FRONT_POINT_POS;
          r3 = rFront
      in \<lparr>radiusTop = rTop,
          radiusLeft = rLeft,
          radiusFront = rFront,
          intersectionCircle = circleResult c1 c2 r1 r2,
          intersectionPoints = pointsResult c1 c2 c3 r1 r2 r3\<rparr>)"

section \<open>The scene on a store of vector objects\<close>

text \<open>
  A \<open>THREE.Vector3\<close> is a mutable object and most of its methods overwrite their receiver.
  The three anchors are objects created once, when the module is loaded, and shared by every
  run of the memoised computation. To see that no run changes them, the computation is
  written a second time, statement by statement, on a store of vector objects: a reference
  is a number, \<open>new THREE.Vector3\<close> takes the next unused one, and a method that overwrites
  its receiver updates the store at the receiver's reference.
\<close>

record store =
  vecs :: "nat \<Rightarrow> Vector3"
  fresh :: nat

definition new_Vector3 :: "real \<Rightarrow> real \<Rightarrow> real \<Rightarrow> store \<Rightarrow> nat \<times> store" where
  "new_Vector3 a b c s =
     (fresh s, \<lparr>vecs = (vecs s)(fresh s := Vector3 a b c), fresh = Suc (fresh s)\<rparr>)"

definition set_vec :: "nat \<Rightarrow> Vector3 \<Rightarrow> store \<Rightarrow> store" where
  "set_vec this v s = s\<lparr>vecs := (vecs s)(this := v)\<rparr>"

text \<open>The overwriting methods; each returns its receiver, which the caller already holds.\<close>

definition m_copy :: "nat \<Rightarrow> nat \<Rightarrow> store \<Rightarrow> store" where
  "m_copy this v s = set_vec this (vecs s v) s"

definition m_subVectors :: "nat \<Rightarrow> nat \<Rightarrow> nat \<Rightarrow> store \<Rightarrow> store" where
  "m_subVectors this a b s = set_vec this (subVectors (vecs s a) (vecs s b)) s"

definition m_addVectors :: "nat \<Rightarrow> nat \<Rightarrow> nat \<Rightarrow> store \<Rightarrow> store" where
  "m_addVectors this a b s = set_vec this (addVectors (vecs s a) (vecs s b)) s"

definition m_crossVectors :: "nat \<Rightarrow> nat \<Rightarrow> nat \<Rightarrow> store \<Rightarrow> store" where
  "m_crossVectors this a b s = set_vec this (crossVectors (vecs s a) (vecs s b)) s"

definition m_add :: "nat \<Rightarrow> nat \<Rightarrow> store \<Rightarrow> store" where
  "m_add this v s = set_vec this (add (vecs s this) (vecs s v)) s"

definition m_addScaledVector :: "nat \<Rightarrow> nat \<Rightarrow> real \<Rightarrow> store \<Rightarrow> store" where
  "m_addScaledVector this v k s = set_vec this (addScaledVector (vecs s this) (vecs s v) k) s"

definition m_multiplyScalar :: "nat \<Rightarrow> real \<Rightarrow> store \<Rightarrow> store" where
  "m_multiplyScalar this k s = set_vec this (multiplyScalar (vecs s this) k) s"

definition m_divideScalar :: "nat \<Rightarrow> real \<Rightarrow> store \<Rightarrow> store" where
  "m_divideScalar this k s = set_vec this (divideScalar (vecs s this) k) s"

definition m_normalize :: "nat \<Rightarrow> store \<Rightarrow> store" where
  "m_normalize this s = set_vec this (normalize_v (vecs s this)) s"

text \<open>
  The module's constants: the anchors are the first three objects, and a store in which
  the module is loaded holds their initial coordinates there.
\<close>

definition TOP_REF :: nat where "TOP_REF = 0"

definition LEFT_REF :: nat where "LEFT_REF = 1"

definition FRONT_REF :: nat where "FRONT_REF = 2"

definition module_loaded :: "store \<Rightarrow> bool" where
  "module_loaded s \<longleftrightarrow>
     vecs s TOP_REF = TOP_POINT_POS \<and> vecs s LEFT_REF = LEFT_POINT_POS
     \<and> vecs s FRONT_REF = FRONT_POINT_POS \<and> 3 \<le> fresh s"

definition module_store :: store where
  "module_store =
     snd (new_Vector3 0 0 8 (snd (new_Vector3 (- 8) 0 0 (snd (new_Vector3 0 8 0
       \<lparr>vecs = (\<lambda>_. Vector3 0 0 0), fresh = 0\<rparr>)))))"

text \<open>The results hold references where the source's results hold vector objects.\<close>

record CircleRefs =
  exists_r :: bool
  center_r :: nat
  radius_r :: real
  quaternion_r :: Quaternion

record GeometryRefs =
  radiusTop_r :: real
  radiusLeft_r :: real
  radiusFront_r :: real
  intersectionCircle_r :: CircleRefs
  intersectionPoints_r :: "nat list"

text \<open>The sphere-sphere block, from \<open>const c1\<close> to the end of its \<open>if\<close>.\<close>

definition st_circle :: "nat \<Rightarrow> nat \<Rightarrow> real \<Rightarrow> real \<Rightarrow> store \<Rightarrow> CircleRefs \<times> store" where
  "st_circle c1 c2 r1 r2 s0 =
     (let d_12 = distanceTo (vecs s0 c1) (vecs s0 c2);
          (center0, s1) = new_Vector3 0 0 0 s0
      in if d_12 < r1 + r2 \<and> d_12 > \<bar>r1 - r2\<bar> then
           (let a = (r1 * r1 - r2 * r2 + d_12 * d_12) / (2 * d_12);
                h = sqrt (max 0 (r1 * r1 - a * a));
                (direction, s2) = new_Vector3 0 0 0 s1;
                s3 = m_normalize direction (m_subVectors direction c2 c1 s2);
                (center, s4) = new_Vector3 0 0 0 s3;
                s5 = m_copy center c1 s4;
                s6 = m_multiplyScalar direction a s5;
                s7 = m_add center direction s6;
                (defaultNormal, s8) = new_Vector3 0 0 1 s7;
                (planeNormal, s9) = new_Vector3 0 0 0 s8;
                s10 = m_normalize planeNormal (m_subVectors planeNormal c2 c1 s9);
                quaternion = setFromUnitVectors (vecs s10 defaultNormal) (vecs s10 planeNormal)
            in (\<lparr>exists_r = True, center_r = center, radius_r = h, quaternion_r = quaternion\<rparr>,
                s10))
         else (\<lparr>exists_r = False, center_r = center0, radius_r = 0,
                 quaternion_r = Quaternion 0 0 0 1\<rparr>, s1))"

text \<open>
  The three-sphere block in three parts, innermost first: the \<open>if\<close> on the discriminant,
  the body of the \<open>if\<close> on \<open>L_dir_sq\<close>, and the block from \<open>const c3\<close> on. A parameter
  that stands for a local of the enclosing part carries its name, with \<open>_r\<close> for the
  reference of a vector object and \<open>_v\<close> for a number.
\<close>

definition st_roots :: "nat \<Rightarrow> nat \<Rightarrow> real \<Rightarrow> real \<Rightarrow> real \<Rightarrow> store \<Rightarrow> nat list \<times> store" where
  "st_roots L_p0_r L_dir_r A B C s0 =
     (let discriminant = B * B - 4 * A * C
      in if discriminant \<ge> 0 then
           (let sqrt_disc = sqrt discriminant;
                t1 = (- B + sqrt_disc) / (2 * A);
                t2 = (- B - sqrt_disc) / (2 * A);
                (p1, s1) = new_Vector3 0 0 0 s0;
                s2 = m_addScaledVector p1 L_dir_r t1 (m_copy p1 L_p0_r s1)
            in if discriminant > 1 / 10 ^ 6 then
                 (let (p2, s3) = new_Vector3 0 0 0 s2;
                      s4 = m_addScaledVector p2 L_dir_r t2 (m_copy p2 L_p0_r s3)
                  in ([p1, p2], s4))
               else ([p1], s2))
         else ([], s0))"

definition st_line ::
    "nat \<Rightarrow> nat \<Rightarrow> nat \<Rightarrow> nat \<Rightarrow> real \<Rightarrow> real \<Rightarrow> real \<Rightarrow> real \<Rightarrow> store \<Rightarrow> nat list \<times> store" where
  "st_line c1 n_A_r n_B_r L_dir_r d_A_v d_B_v L_dir_sq_v r1 s0 =
     (let (tmp1, s1) = new_Vector3 0 0 0 s0;
          s2 = m_multiplyScalar tmp1 d_A_v (m_crossVectors tmp1 n_B_r L_dir_r s1);
          (tmp2, s3) = new_Vector3 0 0 0 s2;
          s4 = m_multiplyScalar tmp2 d_B_v (m_crossVectors tmp2 L_dir_r n_A_r s3);
          (L_p0, s5) = new_Vector3 0 0 0 s4;
          s6 = m_divideScalar L_p0 L_dir_sq_v (m_addVectors L_p0 tmp1 tmp2 s5);
          (delta_p, s7) = new_Vector3 0 0 0 s6;
          s8 = m_subVectors delta_p L_p0 c1 s7;
          A = L_dir_sq_v;
          B = 2 * dot (vecs s8 delta_p) (vecs s8 L_dir_r);
          C = lengthSq (vecs s8 delta_p) - r1 * r1
      in st_roots L_p0 L_dir_r A B C s8)"

definition st_points ::
    "nat \<Rightarrow> nat \<Rightarrow> nat \<Rightarrow> real \<Rightarrow> real \<Rightarrow> real \<Rightarrow> store \<Rightarrow> nat list \<times> store" where
  "st_points c1 c2 c3 r1 r2 r3 s0 =
     (let (n_A, s1) = new_Vector3 0 0 0 s0;
          s2 = m_subVectors n_A c2 c1 s1;
          d_A = (r1 * r1 - r2 * r2 - lengthSq (vecs s2 c1) + lengthSq (vecs s2 c2)) / 2;
          (n_B, s3) = new_Vector3 0 0 0 s2;
          s4 = m_subVectors n_B c3 c1 s3;
          d_B = (r1 * r1 - r3 * r3 - lengthSq (vecs s4 c1) + lengthSq (vecs s4 c3)) / 2;
          (L_dir, s5) = new_Vector3 0 0 0 s4;
          s6 = m_crossVectors L_dir n_A n_B s5;
          L_dir_sq = lengthSq (vecs s6 L_dir)
      in if L_dir_sq > 1 / 10 ^ 6 then st_line c1 n_A n_B L_dir d_A d_B L_dir_sq r1 s6
         else ([], s6))"

text \<open>The body of the memoised computation, given the movable point's vector object.\<close>

definition st_memo :: "nat \<Rightarrow> store \<Rightarrow> GeometryRefs \<times> store" where
  "st_memo movablePointVec_r s0 =
     (let rTop = distanceTo (vecs s0 TOP_REF) (vecs s0 movablePointVec_r);
          rLeft = distanceTo (vecs s0 LEFT_REF) (vecs s0 movablePointVec_r);
          rFront = distanceTo (vecs s0 FRONT_REF) (vecs s0 movablePointVec_r);
          (circleResult, s1) = st_circle TOP_REF LEFT_REF rTop rLeft s0;
          (pointsResult, s2) = st_points TOP_REF LEFT_REF FRONT_REF rTop rLeft rFront s1
      in (\<lparr>radiusTop_r = rTop, radiusLeft_r = rLeft, radiusFront_r = rFront,
           intersectionCircle_r = circleResult, intersectionPoints_r = pointsResult\<rparr>, s2))"

text \<open>One run of \<open>Scene\<close>: the movable point's vector object is created, then the body runs.\<close>

definition st_Scene :: "Point3D \<Rightarrow> store \<Rightarrow> GeometryRefs \<times> store" where
  "st_Scene movablePoint s0 =
     (let (movablePointVec_r, s1) =
            new_Vector3 (x movablePoint) (y movablePoint) (z movablePoint) s0
      in st_memo movablePointVec_r s1)"

text \<open>What a result says once its references are read in a store.\<close>

definition read_result :: "store \<Rightarrow> GeometryRefs \<Rightarrow> GeometryResult" where
  "read_result s g =
     \<lparr>radiusTop = radiusTop_r g, radiusLeft = radiusLeft_r g, radiusFront = radiusFront_r g,
      intersectionCircle =
        \<lparr>exists = exists_r (intersectionCircle_r g),
         center = vecs s (center_r (intersectionCircle_r g)),
         radius = radius_r (intersectionCircle_r g),
         quaternion = quaternion_r (intersectionCircle_r g)\<rparr>,
      intersectionPoints = map (vecs s) (intersectionPoints_r g)\<rparr>"

section \<open>The circle block in double precision\<close>

text \<open>
  A JavaScript number is an IEEE 754 binary64 value and every arithmetic operation rounds
  its exact result to the nearest such value, ties to the even significand. Where a
  property turns on that rounding, as the test for the circle does at tangency, the block is
  read a second time with every operation rounded. A double is the real number it stands
  for; \<open>fl\<close> rounds a real to the nearest double, with 53 significant bits and gradual
  underflow (the unit in the last place never goes below \<open>2\<^sup>-\<^sup>1\<^sup>0\<^sup>7\<^sup>4\<close>). Overflow to
  \<open>Infinity\<close> and \<open>NaN\<close> are not modelled: the scene's numbers stay far from that range.
\<close>

definition rne :: "real \<Rightarrow> int" where
  "rne w = (let n = \<lfloor>w\<rfloor>; f = w - of_int n
            in if f < 1 / 2 then n else if f > 1 / 2 then n + 1
               else if even n then n else n + 1)"

definition ulp_exp :: "real \<Rightarrow> int" where
  "ulp_exp u = max (\<lfloor>log 2 \<bar>u\<bar>\<rfloor> - 52) (- 1074)"

definition fl :: "real \<Rightarrow> real" where
  "fl u = (if u = 0 then 0
           else sgn u * (of_int (rne (\<bar>u\<bar> / 2 powr of_int (ulp_exp u))) * 2 powr of_int (ulp_exp u)))"

definition representable :: "real \<Rightarrow> bool" where
  "representable u \<longleftrightarrow> (\<exists>M e. u = of_int M * 2 powr of_int e \<and> \<bar>M\<bar> < 2 ^ 53 \<and> - 1074 \<le> e)"

text \<open>The operators \<open>+\<close>, \<open>-\<close>, \<open>*\<close>, \<open>/\<close> and \<open>Math.sqrt\<close> on doubles.\<close>

definition f_add :: "real \<Rightarrow> real \<Rightarrow> real" where
  "f_add a b = fl (a + b)"

definition f_sub :: "real \<Rightarrow> real \<Rightarrow> real" where
  "f_sub a b = fl (a - b)"

definition f_mul :: "real \<Rightarrow> real \<Rightarrow> real" where
  "f_mul a b = fl (a * b)"

definition f_div :: "real \<Rightarrow> real \<Rightarrow> real" where
  "f_div a b = fl (a / b)"

definition f_sqrt :: "real \<Rightarrow> real" where
  "f_sqrt a = fl (sqrt a)"

text \<open>The vector methods of the circle block, with each operation rounded.\<close>

definition subVectors_d :: "Vector3 \<Rightarrow> Vector3 \<Rightarrow> Vector3" where
  "subVectors_d a b = Vector3 (f_sub (vx a) (vx b)) (f_sub (vy a) (vy b)) (f_sub (vz a) (vz b))"

definition add_d :: "Vector3 \<Rightarrow> Vector3 \<Rightarrow> Vector3" where
  "add_d this v = Vector3 (f_add (vx this) (vx v)) (f_add (vy this) (vy v)) (f_add (vz this) (vz v))"

definition multiplyScalar_d :: "Vector3 \<Rightarrow> real \<Rightarrow> Vector3" where
  "multiplyScalar_d this s = Vector3 (f_mul (vx this) s) (f_mul (vy this) s) (f_mul (vz this) s)"

definition divideScalar_d :: "Vector3 \<Rightarrow> real \<Rightarrow> Vector3" where
  "divideScalar_d this s = multiplyScalar_d this (f_div 1 s)"

definition length_d :: "Vector3 \<Rightarrow> real" where
  "length_d v =
     f_sqrt (f_add (f_add (f_mul (vx v) (vx v)) (f_mul (vy v) (vy v))) (f_mul (vz v) (vz v)))"

definition normalize_d :: "Vector3 \<Rightarrow> Vector3" where
  "normalize_d this = divideScalar_d this (if length_d this = 0 then 1 else length_d this)"

definition dot_d :: "Vector3 \<Rightarrow> Vector3 \<Rightarrow> real" where
  "dot_d v w = f_add (f_add (f_mul (vx v) (vx w)) (f_mul (vy v) (vy w))) (f_mul (vz v) (vz w))"

definition distanceToSquared_d :: "Vector3 \<Rightarrow> Vector3 \<Rightarrow> real" where
  "distanceToSquared_d v w =
     (let dx = f_sub (vx v) (vx w); dy = f_sub (vy v) (vy w); dz = f_sub (vz v) (vz w)
      in f_add (f_add (f_mul dx dx) (f_mul dy dy)) (f_mul dz dz))"

definition distanceTo_d :: "Vector3 \<Rightarrow> Vector3 \<Rightarrow> real" where
  "distanceTo_d v w = f_sqrt (distanceToSquared_d v w)"

definition q_normalize_d :: "Quaternion \<Rightarrow> Quaternion" where
  "q_normalize_d q =
     (let l = f_sqrt (f_add (f_add (f_add (f_mul (qx q) (qx q)) (f_mul (qy q) (qy q)))
                (f_mul (qz q) (qz q))) (f_mul (qw q) (qw q)))
      in if l = 0 then Quaternion 0 0 0 1
         else Quaternion (f_mul (qx q) (f_div 1 l)) (f_mul (qy q) (f_div 1 l))
                (f_mul (qz q) (f_div 1 l)) (f_mul (qw q) (f_div 1 l)))"

definition setFromUnitVectors_d :: "Vector3 \<Rightarrow> Vector3 \<Rightarrow> Quaternion" where
  "setFromUnitVectors_d vFrom vTo =
     (let r = f_add (dot_d vFrom vTo) 1
      in if r < 1 / 2 ^ 52 then
           (if \<bar>vx vFrom\<bar> > \<bar>vz vFrom\<bar>
            then q_normalize_d (Quaternion (- vy vFrom) (vx vFrom) 0 0)
            else q_normalize_d (Quaternion 0 (- vz vFrom) (vy vFrom) 0))
         else q_normalize_d (Quaternion
                (f_sub (f_mul (vy vFrom) (vz vTo)) (f_mul (vz vFrom) (vy vTo)))
                (f_sub (f_mul (vz vFrom) (vx vTo)) (f_mul (vx vFrom) (vz vTo)))
                (f_sub (f_mul (vx vFrom) (vy vTo)) (f_mul (vy vFrom) (vx vTo))) r))"

text \<open>The locals \<open>d_12\<close>, \<open>a\<close>, \<open>h\<close> and the block, as in the exact reading above.\<close>

definition d_12_d :: "Vector3 \<Rightarrow> Vector3 \<Rightarrow> real" where
  "d_12_d c1 c2 = distanceTo_d c1 c2"

definition circle_a_d :: "Vector3 \<Rightarrow> Vector3 \<Rightarrow> real \<Rightarrow> real \<Rightarrow> real" where
  "circle_a_d c1 c2 r1 r2 =
     f_div (f_add (f_sub (f_mul r1 r1) (f_mul r2 r2)) (f_mul (d_12_d c1 c2) (d_12_d c1 c2)))
       (f_mul 2 (d_12_d c1 c2))"

definition circle_h_d :: "Vector3 \<Rightarrow> Vector3 \<Rightarrow> real \<Rightarrow> real \<Rightarrow> real" where
  "circle_h_d c1 c2 r1 r2 =
     f_sqrt (max 0 (f_sub (f_mul r1 r1)
       (f_mul (circle_a_d c1 c2 r1 r2) (circle_a_d c1 c2 r1 r2))))"

definition circleResult_d :: "Vector3 \<Rightarrow> Vector3 \<Rightarrow> real \<Rightarrow> real \<Rightarrow> CircleResult" where
  "circleResult_d c1 c2 r1 r2 =
     (if d_12_d c1 c2 < f_add r1 r2 \<and> d_12_d c1 c2 > \<bar>f_sub r1 r2\<bar> then
        (let a = circle_a_d c1 c2 r1 r2;
             h = circle_h_d c1 c2 r1 r2;
             direction = normalize_d (subVectors_d c2 c1);
             center = add_d c1 (multiplyScalar_d direction a);
             defaultNormal = Vector3 0 0 1;
             planeNormal = normalize_d (subVectors_d c2 c1);
             quaternion = setFromUnitVectors_d defaultNormal planeNormal
         in \<lparr>exists = True, center = center, radius = h, quaternion = quaternion\<rparr>)
      else \<lparr>exists = False, center = Vector3 0 0 0, radius = 0,
             quaternion = Quaternion 0 0 0 1\<rparr>)"

text \<open>
  The radii and the circle that \<open>Scene\<close> computes for a movable point, in doubles. The
  coordinates of the movable point are taken as they are given; in the program they are
  doubles already.
\<close>

definition rTop_d :: "Point3D \<Rightarrow> real" where
  "rTop_d movablePoint = distanceTo_d TOP_POINT_POS (movablePointVec movablePoint)"

definition rLeft_d :: "Point3D \<Rightarrow> real" where
  "rLeft_d movablePoint = distanceTo_d LEFT_POINT_POS (movablePointVec movablePoint)"

definition intersectionCircle_d :: "Point3D \<Rightarrow> CircleResult" where
  "intersectionCircle_d movablePoint =
     circleResult_d TOP_POINT_POS LEFT_POINT_POS (rTop_d movablePoint) (rLeft_d movablePoint)"

section \<open>Vector algebra\<close>

lemmas vec_defs = lengthSq_def length_v_def dot_def distanceToSquared_def distanceTo_def
  subVectors_def addVectors_def add_def multiplyScalar_def divideScalar_def normalize_v_def
  crossVectors_def addScaledVector_def

lemmas scene_defs = TOP_POINT_POS_def LEFT_POINT_POS_def FRONT_POINT_POS_def movablePointVec_def

lemmas tri_defs = n_A_def d_A_def n_B_def d_B_def L_dir_def L_dir_sq_def L_p0_def delta_p_def
  coeff_A_def coeff_B_def coeff_C_def discriminant_def sqrt_disc_def t1_def t2_def p1_def p2_def
  pointsResult_def


lemma dot_cross_self1: "dot a (crossVectors a b) = 0"
  by (cases a; cases b) (simp add: dot_def crossVectors_def algebra_simps)

lemma dot_cross_self2: "dot b (crossVectors a b) = 0"
  by (cases a; cases b) (simp add: dot_def crossVectors_def algebra_simps)

lemma triple_A: "dot a (crossVectors b (crossVectors a b)) = lengthSq (crossVectors a b)"
  by (cases a; cases b) (simp add: dot_def crossVectors_def lengthSq_def algebra_simps)

lemma triple_A0: "dot a (crossVectors (crossVectors a b) a) = 0"
  by (cases a; cases b) (simp add: dot_def crossVectors_def lengthSq_def algebra_simps)

lemma triple_B: "dot b (crossVectors (crossVectors a b) a) = lengthSq (crossVectors a b)"
  by (cases a; cases b) (simp add: dot_def crossVectors_def lengthSq_def algebra_simps)

lemma triple_B0: "dot b (crossVectors b (crossVectors a b)) = 0"
  by (cases a; cases b) (simp add: dot_def crossVectors_def lengthSq_def algebra_simps)

lemma dot_addVectors: "dot a (addVectors u v) = dot a u + dot a v"
  by (simp add: dot_def addVectors_def algebra_simps)

lemma dot_multiplyScalar: "dot a (multiplyScalar u s) = s * dot a u"
  by (simp add: dot_def multiplyScalar_def algebra_simps)

lemma dot_divideScalar: "dot a (divideScalar u s) = dot a u / s"
  by (simp add: dot_def divideScalar_def multiplyScalar_def algebra_simps add_divide_distrib)

lemma dot_addScaledVector: "dot a (addScaledVector u v s) = dot a u + s * dot a v"
  by (simp add: dot_def addScaledVector_def algebra_simps)

lemma L_p0_on_plane_A:
  assumes "L_dir_sq c1 c2 c3 \<noteq> 0"
  shows "dot (n_A c1 c2) (L_p0 c1 c2 c3 r1 r2 r3) = d_A c1 c2 r1 r2"
  using assms
  by (simp add: L_p0_def Let_def dot_divideScalar dot_addVectors dot_multiplyScalar
      L_dir_def L_dir_sq_def triple_A triple_A0)

lemma L_p0_on_plane_B:
  assumes "L_dir_sq c1 c2 c3 \<noteq> 0"
  shows "dot (n_B c1 c3) (L_p0 c1 c2 c3 r1 r2 r3) = d_B c1 c3 r1 r3"
  using assms
  by (simp add: L_p0_def Let_def dot_divideScalar dot_addVectors dot_multiplyScalar
      L_dir_def L_dir_sq_def triple_B triple_B0)


lemma distanceToSquared_line:
  "distanceToSquared (addScaledVector u v t) c =
     lengthSq (subVectors u c) + t * (2 * dot (subVectors u c) v) + t * t * lengthSq v"
  by (cases u; cases v; cases c)
     (simp add: distanceToSquared_def addScaledVector_def lengthSq_def subVectors_def dot_def
       Let_def algebra_simps)

lemma distanceToSquared_shift:
  "distanceToSquared q c2 =
     distanceToSquared q c1 - 2 * dot (subVectors c2 c1) q + lengthSq c2 - lengthSq c1"
  by (cases q; cases c1; cases c2)
     (simp add: distanceToSquared_def lengthSq_def subVectors_def dot_def Let_def algebra_simps)

lemma quadratic_root_plus:
  fixes a b c :: real
  assumes "a \<noteq> 0" and "0 \<le> b * b - 4 * a * c"
  shows "a * ((- b + sqrt (b * b - 4 * a * c)) / (2 * a)) * ((- b + sqrt (b * b - 4 * a * c)) / (2 * a))
         + b * ((- b + sqrt (b * b - 4 * a * c)) / (2 * a)) + c = 0"
proof -
  define s where "s = sqrt (b * b - 4 * a * c)"
  have ss: "s * s = b * b - 4 * a * c"
    using assms(2) by (simp add: s_def)
  have "a * ((- b + s) / (2 * a)) * ((- b + s) / (2 * a)) + b * ((- b + s) / (2 * a)) + c
        = (s * s - (b * b - 4 * a * c)) / (4 * a)"
    using assms(1) by (simp add: field_simps)
  then show ?thesis
    unfolding s_def [symmetric] using ss by simp
qed

lemma quadratic_root_minus:
  fixes a b c :: real
  assumes "a \<noteq> 0" and "0 \<le> b * b - 4 * a * c"
  shows "a * ((- b - sqrt (b * b - 4 * a * c)) / (2 * a)) * ((- b - sqrt (b * b - 4 * a * c)) / (2 * a))
         + b * ((- b - sqrt (b * b - 4 * a * c)) / (2 * a)) + c = 0"
proof -
  define s where "s = sqrt (b * b - 4 * a * c)"
  have ss: "s * s = b * b - 4 * a * c"
    using assms(2) by (simp add: s_def)
  have "a * ((- b - s) / (2 * a)) * ((- b - s) / (2 * a)) + b * ((- b - s) / (2 * a)) + c
        = (s * s - (b * b - 4 * a * c)) / (4 * a)"
    using assms(1) by (simp add: field_simps)
  then show ?thesis
    unfolding s_def [symmetric] using ss by simp
qed

lemma p1_on_sphere1:
  assumes "L_dir_sq c1 c2 c3 \<noteq> 0" and "0 \<le> discriminant c1 c2 c3 r1 r2 r3"
  shows "distanceToSquared (p1 c1 c2 c3 r1 r2 r3) c1 = r1 * r1"
proof -
  have "coeff_A c1 c2 c3 * t1 c1 c2 c3 r1 r2 r3 * t1 c1 c2 c3 r1 r2 r3
        + coeff_B c1 c2 c3 r1 r2 r3 * t1 c1 c2 c3 r1 r2 r3 + coeff_C c1 c2 c3 r1 r2 r3 = 0"
    unfolding t1_def sqrt_disc_def discriminant_def
    using assms by (intro quadratic_root_plus) (simp_all add: coeff_A_def discriminant_def)
  then show ?thesis
    by (simp add: p1_def distanceToSquared_line coeff_A_def coeff_B_def coeff_C_def delta_p_def
        L_dir_sq_def algebra_simps)
qed

lemma p2_on_sphere1:
  assumes "L_dir_sq c1 c2 c3 \<noteq> 0" and "0 \<le> discriminant c1 c2 c3 r1 r2 r3"
  shows "distanceToSquared (p2 c1 c2 c3 r1 r2 r3) c1 = r1 * r1"
proof -
  have "coeff_A c1 c2 c3 * t2 c1 c2 c3 r1 r2 r3 * t2 c1 c2 c3 r1 r2 r3
        + coeff_B c1 c2 c3 r1 r2 r3 * t2 c1 c2 c3 r1 r2 r3 + coeff_C c1 c2 c3 r1 r2 r3 = 0"
    unfolding t2_def sqrt_disc_def discriminant_def
    using assms by (intro quadratic_root_minus) (simp_all add: coeff_A_def discriminant_def)
  then show ?thesis
    by (simp add: p2_def distanceToSquared_line coeff_A_def coeff_B_def coeff_C_def delta_p_def
        L_dir_sq_def algebra_simps)
qed

lemma line_on_plane_A:
  assumes "L_dir_sq c1 c2 c3 \<noteq> 0"
  shows "dot (n_A c1 c2) (addScaledVector (L_p0 c1 c2 c3 r1 r2 r3) (L_dir c1 c2 c3) t)
         = d_A c1 c2 r1 r2"
  using L_p0_on_plane_A [OF assms]
  by (simp add: dot_addScaledVector L_dir_def dot_cross_self1)

lemma line_on_plane_B:
  assumes "L_dir_sq c1 c2 c3 \<noteq> 0"
  shows "dot (n_B c1 c3) (addScaledVector (L_p0 c1 c2 c3 r1 r2 r3) (L_dir c1 c2 c3) t)
         = d_B c1 c3 r1 r3"
  using L_p0_on_plane_B [OF assms]
  by (simp add: dot_addScaledVector L_dir_def dot_cross_self2)

lemma line_point_all_spheres:
  assumes nz: "L_dir_sq c1 c2 c3 \<noteq> 0"
    and s1: "distanceToSquared (addScaledVector (L_p0 c1 c2 c3 r1 r2 r3) (L_dir c1 c2 c3) t) c1 = r1 * r1"
  shows "distanceToSquared (addScaledVector (L_p0 c1 c2 c3 r1 r2 r3) (L_dir c1 c2 c3) t) c2 = r2 * r2"
    and "distanceToSquared (addScaledVector (L_p0 c1 c2 c3 r1 r2 r3) (L_dir c1 c2 c3) t) c3 = r3 * r3"
proof -
  let ?q = "addScaledVector (L_p0 c1 c2 c3 r1 r2 r3) (L_dir c1 c2 c3) t"
  have "distanceToSquared ?q c2 = r1 * r1 - 2 * d_A c1 c2 r1 r2 + lengthSq c2 - lengthSq c1"
    using distanceToSquared_shift [of ?q c2 c1] line_on_plane_A [OF nz, of r1 r2 r3 t] s1
    by (simp add: n_A_def)
  then show "distanceToSquared ?q c2 = r2 * r2"
    by (simp add: d_A_def field_simps)
  have "distanceToSquared ?q c3 = r1 * r1 - 2 * d_B c1 c3 r1 r3 + lengthSq c3 - lengthSq c1"
    using distanceToSquared_shift [of ?q c3 c1] line_on_plane_B [OF nz, of r1 r2 r3 t] s1
    by (simp add: n_B_def)
  then show "distanceToSquared ?q c3 = r3 * r3"
    by (simp add: d_B_def field_simps)
qed

lemma pointsResult_cases:
  assumes "q \<in> set (pointsResult c1 c2 c3 r1 r2 r3)"
  shows "L_dir_sq c1 c2 c3 \<noteq> 0 \<and> 0 \<le> discriminant c1 c2 c3 r1 r2 r3
         \<and> (q = p1 c1 c2 c3 r1 r2 r3 \<or> q = p2 c1 c2 c3 r1 r2 r3)"
  using assms by (auto simp: pointsResult_def split: if_splits)

lemma pointsResult_on_spheres:
  assumes "q \<in> set (pointsResult c1 c2 c3 r1 r2 r3)"
  shows "distanceToSquared q c1 = r1 * r1 \<and> distanceToSquared q c2 = r2 * r2
         \<and> distanceToSquared q c3 = r3 * r3"
proof -
  from pointsResult_cases [OF assms]
  have nz: "L_dir_sq c1 c2 c3 \<noteq> 0" and d: "0 \<le> discriminant c1 c2 c3 r1 r2 r3"
    and q: "q = p1 c1 c2 c3 r1 r2 r3 \<or> q = p2 c1 c2 c3 r1 r2 r3"
    by simp_all
  from q show ?thesis
  proof
    assume q1: "q = p1 c1 c2 c3 r1 r2 r3"
    have s1: "distanceToSquared q c1 = r1 * r1"
      using p1_on_sphere1 [OF nz d] q1 by simp
    with line_point_all_spheres [OF nz, of r1 r2 r3 "t1 c1 c2 c3 r1 r2 r3"] q1
    show ?thesis by (simp add: p1_def)
  next
    assume q2: "q = p2 c1 c2 c3 r1 r2 r3"
    have s1: "distanceToSquared q c1 = r1 * r1"
      using p2_on_sphere1 [OF nz d] q2 by simp
    with line_point_all_spheres [OF nz, of r1 r2 r3 "t2 c1 c2 c3 r1 r2 r3"] q2
    show ?thesis by (simp add: p2_def)
  qed
qed

lemma distanceTo_nonneg: "0 \<le> distanceTo a b"
  by (simp add: distanceTo_def distanceToSquared_def Let_def)

lemma distanceTo_of_square:
  assumes "distanceToSquared q c = r * r" and "0 \<le> r"
  shows "distanceTo q c = r"
  using assms by (simp add: distanceTo_def)

section \<open>The scene at the origin\<close>

lemma origin_points:
  "intersectionPoints (computeGeometry \<lparr>x = 0, y = 0, z = 0\<rparr>)
     = [Vector3 (- 16 / 3) (16 / 3) (16 / 3), Vector3 0 0 0]"
  by (simp add: computeGeometry_def Let_def tri_defs vec_defs scene_defs)

lemma origin_radii:
  "radiusTop (computeGeometry \<lparr>x = 0, y = 0, z = 0\<rparr>) = 8"
  "radiusLeft (computeGeometry \<lparr>x = 0, y = 0, z = 0\<rparr>) = 8"
  "radiusFront (computeGeometry \<lparr>x = 0, y = 0, z = 0\<rparr>) = 8"
  by (simp_all add: computeGeometry_def Let_def vec_defs scene_defs)

section \<open>Trilateration membership\<close>

text \<open>
  Claim C1. Every point the three-sphere block returns lies on all three sphere surfaces:
  its distance to each anchor is that anchor's computed radius. In exact arithmetic the
  equality is exact.
\<close>

theorem trilateration_points_on_all_spheres:
  assumes "q \<in> set (intersectionPoints (computeGeometry movablePoint))"
  shows "distanceTo q TOP_POINT_POS = radiusTop (computeGeometry movablePoint)
       \<and> distanceTo q LEFT_POINT_POS = radiusLeft (computeGeometry movablePoint)
       \<and> distanceTo q FRONT_POINT_POS = radiusFront (computeGeometry movablePoint)"
proof -
  let ?m = "movablePointVec movablePoint"
  from assms have "q \<in> set (pointsResult TOP_POINT_POS LEFT_POINT_POS FRONT_POINT_POS
      (distanceTo TOP_POINT_POS ?m) (distanceTo LEFT_POINT_POS ?m) (distanceTo FRONT_POINT_POS ?m))"
    by (simp add: computeGeometry_def Let_def)
  from pointsResult_on_spheres [OF this] show ?thesis
    by (simp add: computeGeometry_def Let_def distanceTo_of_square distanceTo_nonneg)
qed

theorem trilateration_points_on_all_spheres_witness:
  "intersectionPoints (computeGeometry \<lparr>x = 0, y = 0, z = 0\<rparr>)
     = [Vector3 (- 16 / 3) (16 / 3) (16 / 3), Vector3 0 0 0]
   \<and> distanceTo (Vector3 (- 16 / 3) (16 / 3) (16 / 3)) TOP_POINT_POS = 8
   \<and> distanceTo (Vector3 (- 16 / 3) (16 / 3) (16 / 3)) LEFT_POINT_POS = 8
   \<and> distanceTo (Vector3 (- 16 / 3) (16 / 3) (16 / 3)) FRONT_POINT_POS = 8"
  using trilateration_points_on_all_spheres
    [of "Vector3 (- 16 / 3) (16 / 3) (16 / 3)" "\<lparr>x = 0, y = 0, z = 0\<rparr>"]
  by (simp add: origin_points origin_radii)

section \<open>Rounding to the nearest double\<close>

lemma rne_near: "\<bar>of_int (rne w) - w\<bar> \<le> 1 / 2"
  unfolding rne_def Let_def by (auto simp: abs_if) linarith+

lemma rne_unique:
  assumes "\<bar>w - of_int m\<bar> < 1 / 2"
  shows "rne w = m"
proof -
  have "\<bar>of_int (rne w) - w\<bar> \<le> 1 / 2" by (rule rne_near)
  with assms have "\<bar>(of_int (rne w) :: real) - of_int m\<bar> < 1" by linarith
  then have "\<bar>rne w - m\<bar> < 1"
    by (metis of_int_diff of_int_abs of_int_less_1_iff)
  then show ?thesis by linarith
qed

lemma rne_of_int: "rne (of_int n) = n"
  by (rule rne_unique) simp

lemma rne_mono:
  assumes "a \<le> b"
  shows "rne a \<le> rne b"
proof (rule ccontr)
  assume "\<not> rne a \<le> rne b"
  then have "rne b + 1 \<le> rne a" by simp
  then have "(of_int (rne b) :: real) + 1 \<le> of_int (rne a)"
    by (metis of_int_1 of_int_add of_int_le_iff)
  moreover have "\<bar>of_int (rne a) - a\<bar> \<le> 1 / 2" "\<bar>of_int (rne b) - b\<bar> \<le> 1 / 2"
    by (rule rne_near)+
  ultimately have "b \<le> a" by linarith
  with assms have "a = b" by simp
  with \<open>\<not> rne a \<le> rne b\<close> show False by simp
qed

lemma rne_nonneg: "0 \<le> w \<Longrightarrow> 0 \<le> rne w"
  using rne_mono [of 0 w] rne_of_int [of 0] by simp

lemma pow2_pos: "0 < 2 powr (a::real)"
  by simp

lemma pow2_int_nonneg:
  assumes "0 \<le> n"
  shows "2 powr of_int n = (of_int (2 ^ nat n) :: real)"
proof -
  have "2 powr of_int n = (2::real) powr real (nat n)"
    using assms by simp
  also have "\<dots> = 2 ^ nat n"
    by (rule powr_realpow) simp
  finally show ?thesis by simp
qed

lemma log2_bounds:
  assumes "0 < u"
  shows "2 powr of_int \<lfloor>log 2 u\<rfloor> \<le> u" and "u < 2 powr of_int (\<lfloor>log 2 u\<rfloor> + 1)"
proof -
  show "2 powr of_int \<lfloor>log 2 u\<rfloor> \<le> u"
    using assms le_log_iff [of 2 u "of_int \<lfloor>log 2 u\<rfloor>"] by simp
  have "log 2 u < of_int (\<lfloor>log 2 u\<rfloor> + 1)" by simp
  then show "u < 2 powr of_int (\<lfloor>log 2 u\<rfloor> + 1)"
    using assms log_less_iff [of 2 u "of_int (\<lfloor>log 2 u\<rfloor> + 1)"] by simp
qed

lemma floor_log2_eq:
  assumes "2 powr of_int E \<le> u" and "u < 2 powr of_int (E + 1)"
  shows "\<lfloor>log 2 u\<rfloor> = E"
proof -
  have pos: "0 < u" using assms(1) pow2_pos [of "of_int E"] by linarith
  have "of_int E \<le> log 2 u"
    using assms(1) pos le_log_iff [of 2 u "of_int E"] by simp
  moreover have "log 2 u < of_int (E + 1)"
    using assms(2) pos log_less_iff [of 2 u "of_int (E + 1)"] by simp
  ultimately show ?thesis by (simp add: floor_eq_iff)
qed

lemma fl_zero: "fl 0 = 0"
  by (simp add: fl_def)

lemma ulp_exp_minus: "ulp_exp (- u) = ulp_exp u"
  by (simp add: ulp_exp_def)

lemma fl_minus: "fl (- u) = - fl u"
  by (simp add: fl_def ulp_exp_minus sgn_minus)

lemma fl_pos:
  assumes "0 < u"
  shows "fl u = of_int (rne (u / 2 powr of_int (ulp_exp u))) * 2 powr of_int (ulp_exp u)"
  using assms by (simp add: fl_def)

lemma fl_nonneg:
  assumes "0 \<le> u"
  shows "0 \<le> fl u"
proof (cases "u = 0")
  case True
  then show ?thesis by (simp add: fl_zero)
next
  case False
  with assms have "0 < u" by simp
  then have "0 \<le> u / 2 powr of_int (ulp_exp u)" by simp
  then have "0 \<le> rne (u / 2 powr of_int (ulp_exp u))" by (rule rne_nonneg)
  then show ?thesis
    using \<open>0 < u\<close> by (simp add: fl_pos)
qed

lemma ulp_exp_mono:
  assumes "0 < u" and "u \<le> w"
  shows "ulp_exp u \<le> ulp_exp w"
proof -
  have "log 2 u \<le> log 2 w" using assms by simp
  then have "\<lfloor>log 2 u\<rfloor> \<le> \<lfloor>log 2 w\<rfloor>" by (rule floor_mono)
  then show ?thesis using assms by (simp add: ulp_exp_def)
qed

lemma ulp_exp_lower: "\<lfloor>log 2 \<bar>u\<bar>\<rfloor> - 52 \<le> ulp_exp u"
  by (simp add: ulp_exp_def)

lemma scaled_less:
  assumes "0 < u"
  shows "u / 2 powr of_int (ulp_exp u) < 2 ^ 53"
proof -
  let ?E = "\<lfloor>log 2 u\<rfloor>"
  have "u < 2 powr of_int (?E + 1)" using assms by (rule log2_bounds)
  also have "\<dots> \<le> 2 powr of_int (ulp_exp u + 53)"
    using ulp_exp_lower [of u] assms by simp
  also have "\<dots> = 2 powr of_int (ulp_exp u) * 2 ^ 53"
    by (simp add: powr_add)
  finally show ?thesis
    by (simp add: pos_divide_less_eq mult.commute)
qed

lemma fl_mono_pos:
  assumes "0 < u" and "u \<le> w"
  shows "fl u \<le> fl w"
proof -
  have w: "0 < w" using assms by simp
  let ?ux = "ulp_exp u" and ?uy = "ulp_exp w"
  have le: "?ux \<le> ?uy" using assms by (rule ulp_exp_mono)
  show ?thesis
  proof (cases "?ux = ?uy")
    case True
    have "u / 2 powr of_int ?uy \<le> w / 2 powr of_int ?uy"
      using assms(2) by (simp add: divide_right_mono)
    then have "rne (u / 2 powr of_int ?uy) \<le> rne (w / 2 powr of_int ?uy)"
      by (rule rne_mono)
    then show ?thesis
      using assms(1) w True by (simp add: fl_pos)
  next
    case False
    with le have lt: "?ux < ?uy" by simp
    let ?B = "2 powr of_int (?uy + 52) :: real"
    have uy: "?uy = \<lfloor>log 2 w\<rfloor> - 52"
      using lt w by (simp add: ulp_exp_def max_def split: if_splits)
    have "\<lfloor>log 2 u\<rfloor> - 52 < ?uy"
      using lt ulp_exp_lower [of u] assms(1) by simp
    then have "\<lfloor>log 2 u\<rfloor> + 1 \<le> ?uy + 52" by simp
    then have "2 powr of_int (\<lfloor>log 2 u\<rfloor> + 1) \<le> ?B" by simp
    with log2_bounds(2) [OF assms(1)] have xB: "u \<le> ?B" by linarith
    have By: "?B \<le> w"
      using log2_bounds(1) [OF w] uy by simp
    have "?B / 2 powr of_int ?ux = 2 powr of_int (?uy + 52 - ?ux)"
      by (simp add: powr_diff)
    also have "\<dots> = of_int (2 ^ nat (?uy + 52 - ?ux))"
      using lt by (intro pow2_int_nonneg) simp
    finally have Bx: "?B / 2 powr of_int ?ux = of_int (2 ^ nat (?uy + 52 - ?ux))" .
    have "rne (u / 2 powr of_int ?ux) \<le> rne (?B / 2 powr of_int ?ux)"
      using xB by (intro rne_mono) (simp add: divide_right_mono)
    also have "\<dots> = 2 ^ nat (?uy + 52 - ?ux)"
      unfolding Bx by (rule rne_of_int)
    finally have "of_int (rne (u / 2 powr of_int ?ux)) \<le> (of_int (2 ^ nat (?uy + 52 - ?ux)) :: real)"
      by (simp only: of_int_le_iff)
    then have "fl u \<le> of_int (2 ^ nat (?uy + 52 - ?ux)) * 2 powr of_int ?ux"
      using assms(1) by (simp add: fl_pos)
    also have "\<dots> = ?B"
      using Bx by (simp add: field_simps)
    finally have flx: "fl u \<le> ?B" .
    have "?B / 2 powr of_int ?uy = 2 powr 52"
      by (simp add: powr_add)
    also have "\<dots> = of_int (2 ^ 52)"
      by simp
    finally have Buy: "?B / 2 powr of_int ?uy = of_int (2 ^ 52)" .
    have "rne (?B / 2 powr of_int ?uy) \<le> rne (w / 2 powr of_int ?uy)"
      using By by (intro rne_mono) (simp add: divide_right_mono)
    then have "2 ^ 52 \<le> rne (w / 2 powr of_int ?uy)"
      unfolding Buy by (simp only: rne_of_int)
    then have "(of_int (2 ^ 52) :: real) \<le> of_int (rne (w / 2 powr of_int ?uy))"
      by (simp only: of_int_le_iff)
    then have "of_int (2 ^ 52) * 2 powr of_int ?uy \<le> fl w"
      using w by (simp add: fl_pos)
    moreover have "of_int (2 ^ 52) * 2 powr of_int ?uy = ?B"
      using Buy by (simp add: field_simps)
    ultimately have "?B \<le> fl w" by simp
    with flx show ?thesis by simp
  qed
qed

lemma fl_mono:
  assumes "u \<le> w"
  shows "fl u \<le> fl w"
proof -
  consider "0 < u" | "u \<le> 0" "0 \<le> w" | "w < 0" by linarith
  then show ?thesis
  proof cases
    case 1
    then show ?thesis using assms by (rule fl_mono_pos)
  next
    case 2
    have "fl u = - fl (- u)" by (simp add: fl_minus)
    moreover have "0 \<le> fl (- u)" using 2(1) by (intro fl_nonneg) simp
    moreover have "0 \<le> fl w" using 2(2) by (rule fl_nonneg)
    ultimately show ?thesis by simp
  next
    case 3
    then have "fl (- w) \<le> fl (- u)" using assms by (intro fl_mono_pos) simp_all
    then show ?thesis by (simp add: fl_minus)
  qed
qed

lemma fl_exact_pos:
  assumes u: "u = of_int M * 2 powr of_int e" and M: "0 < M" "M < 2 ^ 53" and e: "- 1074 \<le> e"
  shows "fl u = u"
proof -
  have pos: "0 < u" using u M(1) by simp
  have "u < of_int (2 ^ 53) * 2 powr of_int e"
    unfolding u using M(2) by (simp only: mult_less_cancel_right_pos pow2_pos of_int_less_iff)
  also have "\<dots> = 2 powr of_int (e + 53)"
    by (simp add: powr_add)
  finally have "u < 2 powr of_int (e + 53)" .
  then have "log 2 u < of_int (e + 53)"
    using pos log_less_iff [of 2 u "of_int (e + 53)"] by simp
  then have "\<lfloor>log 2 u\<rfloor> < e + 53"
    by (simp only: floor_less_iff)
  then have ue: "ulp_exp u \<le> e"
    using e pos by (simp add: ulp_exp_def)
  have "u / 2 powr of_int (ulp_exp u) = of_int M * 2 powr of_int (e - ulp_exp u)"
    unfolding u by (simp add: powr_diff)
  also have "2 powr of_int (e - ulp_exp u) = (of_int (2 ^ nat (e - ulp_exp u)) :: real)"
    using ue by (intro pow2_int_nonneg) simp
  finally have sc: "u / 2 powr of_int (ulp_exp u) = of_int (M * 2 ^ nat (e - ulp_exp u))"
    by simp
  have "fl u = of_int (M * 2 ^ nat (e - ulp_exp u)) * 2 powr of_int (ulp_exp u)"
    using pos by (simp only: fl_pos sc rne_of_int)
  also have "\<dots> = u / 2 powr of_int (ulp_exp u) * 2 powr of_int (ulp_exp u)"
    by (simp only: sc)
  finally show ?thesis by simp
qed

lemma fl_exact:
  assumes "u = of_int M * 2 powr of_int e" and "\<bar>M\<bar> < 2 ^ 53" and "- 1074 \<le> e"
  shows "fl u = u"
proof -
  consider "M = 0" | "0 < M" | "M < 0" by linarith
  then show ?thesis
  proof cases
    case 1
    with assms(1) show ?thesis by (simp add: fl_zero)
  next
    case 2
    with assms show ?thesis by (intro fl_exact_pos [of u M e]) simp_all
  next
    case 3
    with assms have "fl (- u) = - u" by (intro fl_exact_pos [of "- u" "- M" e]) simp_all
    then show ?thesis by (simp add: fl_minus)
  qed
qed

lemma fl_representable: "representable u \<Longrightarrow> fl u = u"
  unfolding representable_def using fl_exact by blast

lemma representable_fl_pos:
  assumes "0 < u"
  shows "representable (fl u)"
proof -
  let ?u = "ulp_exp u" and ?R = "rne (u / 2 powr of_int (ulp_exp u))"
  have u: "- 1074 \<le> ?u" by (simp add: ulp_exp_def)
  have "?R \<le> rne (of_int (2 ^ 53))"
    using scaled_less [OF assms] by (intro rne_mono) simp
  then have R53: "?R \<le> 2 ^ 53" by (simp only: rne_of_int)
  have R0: "0 \<le> ?R" using assms by (intro rne_nonneg) simp
  show ?thesis
  proof (cases "?R = 2 ^ 53")
    case False
    with R53 R0 have "\<bar>?R\<bar> < 2 ^ 53" by simp
    with u show ?thesis
      unfolding representable_def fl_pos [OF assms] by blast
  next
    case True
    have "fl u = of_int (2 ^ 52) * 2 powr of_int (?u + 1)"
      by (simp add: fl_pos [OF assms] True powr_add)
    moreover have "\<bar>(2 ^ 52 :: int)\<bar> < 2 ^ 53" by simp
    moreover have "- 1074 \<le> ?u + 1" using u by simp
    ultimately show ?thesis
      unfolding representable_def by blast
  qed
qed

lemma representable_minus:
  assumes "representable u"
  shows "representable (- u)"
proof -
  from assms obtain M e where "u = of_int M * 2 powr of_int e" "\<bar>M\<bar> < 2 ^ 53" "- 1074 \<le> e"
    unfolding representable_def by blast
  then have "- u = of_int (- M) * 2 powr of_int e \<and> \<bar>- M\<bar> < 2 ^ 53 \<and> - 1074 \<le> e"
    by simp
  then show ?thesis
    unfolding representable_def by blast
qed

lemma representable_zero: "representable 0"
  unfolding representable_def by (rule exI [of _ 0], rule exI [of _ 0]) simp

lemma representable_fl: "representable (fl u)"
proof -
  consider "u = 0" | "0 < u" | "u < 0" by linarith
  then show ?thesis
  proof cases
    case 1
    then show ?thesis by (simp add: fl_zero representable_zero)
  next
    case 2
    then show ?thesis by (rule representable_fl_pos)
  next
    case 3
    then have "representable (fl (- u))" by (intro representable_fl_pos) simp
    then have "representable (- fl (- u))" by (rule representable_minus)
    then show ?thesis by (simp add: fl_minus)
  qed
qed

lemma fl_idem: "fl (fl u) = fl u"
  by (rule fl_representable) (rule representable_fl)

lemma fl_le_representable:
  assumes "u \<le> c" and "fl c = c"
  shows "fl u \<le> c"
  using fl_mono [OF assms(1)] assms(2) by simp

lemma fl_ge_representable:
  assumes "c \<le> u" and "fl c = c"
  shows "c \<le> fl u"
  using fl_mono [OF assms(1)] assms(2) by simp

lemma fl_eq_normal:
  assumes M: "2 ^ 52 < M" "M < 2 ^ 53" and e: "- 1074 \<le> e"
    and lo: "(of_int M - 1 / 2) * 2 powr of_int e < u"
    and hi: "u < (of_int M + 1 / 2) * 2 powr of_int e"
  shows "fl u = of_int M * 2 powr of_int e"
proof -
  have M': "(of_int (2 ^ 52 + 1) :: real) \<le> of_int M" "(of_int M :: real) \<le> of_int (2 ^ 53 - 1)"
    using M by (simp_all only: of_int_le_iff)
  have "(2 ^ 52) * 2 powr of_int e \<le> (of_int M - 1 / 2) * (2 powr of_int e :: real)"
    using M'(1) by (intro mult_right_mono) simp_all
  moreover have "2 powr of_int (e + 52) = (2 ^ 52) * (2 powr of_int e :: real)"
    by (simp add: powr_add)
  ultimately have l: "2 powr of_int (e + 52) \<le> u"
    using lo by linarith
  then have pos: "0 < u" using pow2_pos [of "of_int (e + 52)"] by linarith
  have "(of_int M + 1 / 2) * 2 powr of_int e \<le> (2 ^ 53) * (2 powr of_int e :: real)"
    using M'(2) by (intro mult_right_mono) simp_all
  moreover have "2 powr of_int (e + 52 + 1) = (2 ^ 53) * (2 powr of_int e :: real)"
    by (simp add: powr_add)
  ultimately have h: "u < 2 powr of_int (e + 52 + 1)"
    using hi by linarith
  have "\<lfloor>log 2 u\<rfloor> = e + 52" using l h by (rule floor_log2_eq)
  then have ue: "ulp_exp u = e" using e pos by (simp add: ulp_exp_def)
  have "of_int M - 1 / 2 < u / 2 powr of_int e"
    using lo by (simp add: pos_less_divide_eq)
  moreover have "u / 2 powr of_int e < of_int M + 1 / 2"
    using hi by (simp add: pos_divide_less_eq)
  ultimately have "\<bar>u / 2 powr of_int e - of_int M\<bar> < 1 / 2"
    by linarith
  then have "rne (u / 2 powr of_int e) = M" by (rule rne_unique)
  then show ?thesis
    using pos by (simp add: fl_pos ue)
qed

lemma sqrt_gt:
  assumes "0 \<le> a" and "a * a < q"
  shows "a < sqrt q"
proof -
  have "sqrt (a * a) < sqrt q" using assms(2) by (simp only: real_sqrt_less_iff)
  then show ?thesis using assms(1) by simp
qed

lemma sqrt_lt:
  assumes "0 \<le> b" and "q < b * b"
  shows "sqrt q < b"
proof -
  have "sqrt q < sqrt (b * b)" using assms(2) by (simp only: real_sqrt_less_iff)
  then show ?thesis using assms(1) by simp
qed

lemma fl_of_int:
  assumes "\<bar>M\<bar> < 2 ^ 53"
  shows "fl (of_int M) = of_int M"
  using assms by (intro fl_exact [of _ M 0]) simp_all

lemma fl_dyadic:
  assumes "\<bar>M\<bar> < 2 ^ 53" and "k \<le> 1074"
  shows "fl (of_int M / 2 ^ k) = of_int M / 2 ^ k"
proof -
  have "2 powr of_int (- int k) = (1 / 2 ^ k :: real)"
    by (simp add: powr_minus_divide powr_realpow)
  then show ?thesis
    using assms by (intro fl_exact [of _ M "- int k"]) simp_all
qed

lemma fl_eq_dyadic:
  assumes "2 ^ 52 < M" and "M < 2 ^ 53" and "k \<le> 1074"
    and "(of_int M - 1 / 2) / 2 ^ k < t" and "t < (of_int M + 1 / 2) / 2 ^ k"
  shows "fl t = of_int M / 2 ^ k"
proof -
  have p: "2 powr of_int (- int k) = (1 / 2 ^ k :: real)"
    by (simp add: powr_minus_divide powr_realpow)
  have "(of_int M - 1 / 2) * 2 powr of_int (- int k) < t"
    using assms(4) by (simp only: p) simp
  moreover have "t < (of_int M + 1 / 2) * 2 powr of_int (- int k)"
    using assms(5) by (simp only: p) simp
  moreover have "- 1074 \<le> - int k" using assms(3) by simp
  ultimately have "fl t = of_int M * 2 powr of_int (- int k)"
    using assms(1,2) by (intro fl_eq_normal)
  then show ?thesis by (simp only: p) simp
qed

section \<open>The intersection circle in exact arithmetic\<close>

lemma sqrt128_bounds: "11 < sqrt 128" "sqrt 128 < 12"
  by (rule real_less_rsqrt, simp) (rule real_less_lsqrt, simp_all)

lemma sqrt164_bounds: "12 < sqrt 164" "sqrt 164 < 13"
  by (rule real_less_rsqrt, simp) (rule real_less_lsqrt, simp_all)

lemma d_12_scene: "d_12 TOP_POINT_POS LEFT_POINT_POS = sqrt 128"
  by (simp add: d_12_def vec_defs scene_defs)

lemma lengthSq_normalize:
  assumes "length_v v \<noteq> 0"
  shows "lengthSq (normalize_v v) = 1"
proof -
  have pos: "0 \<le> vx v * vx v + vy v * vy v + vz v * vz v" by simp
  have "lengthSq (normalize_v v) = (vx v * vx v + vy v * vy v + vz v * vz v) / (length_v v * length_v v)"
    using assms
    by (simp add: lengthSq_def normalize_v_def divideScalar_def multiplyScalar_def field_simps)
  also have "length_v v * length_v v = vx v * vx v + vy v * vy v + vz v * vz v"
    using pos by (simp add: length_v_def)
  finally show ?thesis using assms by (simp add: length_v_def)
qed

lemma length_v_subVectors: "length_v (subVectors c2 c1) = d_12 c1 c2"
  by (simp add: length_v_def subVectors_def d_12_def distanceTo_def distanceToSquared_def Let_def
      algebra_simps)

lemma c2_from_direction:
  assumes "d_12 c1 c2 \<noteq> 0"
  shows "c2 = add c1 (multiplyScalar (normalize_v (subVectors c2 c1)) (d_12 c1 c2))"
  using assms
  by (cases c1; cases c2)
     (simp add: normalize_v_def length_v_subVectors divideScalar_def multiplyScalar_def add_def,
      simp add: subVectors_def)

lemma circle_point_dist:
  "distanceToSquared (addScaledVector (add c (multiplyScalar e a)) u h) (add c (multiplyScalar e d))
     = (a - d) * (a - d) * lengthSq e + 2 * (a - d) * h * dot u e + h * h * dot u u"
  by (cases c; cases e; cases u)
     (simp add: distanceToSquared_def addScaledVector_def add_def multiplyScalar_def lengthSq_def
       dot_def Let_def algebra_simps)

lemma circle_point_dist0:
  "distanceToSquared (addScaledVector (add c (multiplyScalar e a)) u h) c
     = a * a * lengthSq e + 2 * a * h * dot u e + h * h * dot u u"
  by (cases c; cases e; cases u)
     (simp add: distanceToSquared_def addScaledVector_def add_def multiplyScalar_def lengthSq_def
       dot_def Let_def algebra_simps)

lemma exists_iff:
  "exists (circleResult c1 c2 r1 r2) \<longleftrightarrow> d_12 c1 c2 < r1 + r2 \<and> d_12 c1 c2 > \<bar>r1 - r2\<bar>"
  by (simp add: circleResult_def Let_def)

lemma normalize_v_scale:
  assumes "d_12 c1 c2 \<noteq> 0"
  shows "multiplyScalar (normalize_v (subVectors c2 c1)) a
         = multiplyScalar (subVectors c2 c1) (a / d_12 c1 c2)"
  using assms
  by (simp add: normalize_v_def length_v_subVectors divideScalar_def multiplyScalar_def)

lemma radius_simps:
  "radiusTop (computeGeometry p) = distanceTo TOP_POINT_POS (movablePointVec p)"
  "radiusLeft (computeGeometry p) = distanceTo LEFT_POINT_POS (movablePointVec p)"
  "radiusFront (computeGeometry p) = distanceTo FRONT_POINT_POS (movablePointVec p)"
  "intersectionCircle (computeGeometry p) =
     circleResult TOP_POINT_POS LEFT_POINT_POS (distanceTo TOP_POINT_POS (movablePointVec p))
       (distanceTo LEFT_POINT_POS (movablePointVec p))"
  "intersectionPoints (computeGeometry p) =
     pointsResult TOP_POINT_POS LEFT_POINT_POS FRONT_POINT_POS
       (distanceTo TOP_POINT_POS (movablePointVec p))
       (distanceTo LEFT_POINT_POS (movablePointVec p))
       (distanceTo FRONT_POINT_POS (movablePointVec p))"
  by (simp_all add: computeGeometry_def Let_def)

lemma circle_formula_geometry:
  assumes d: "0 < d_12 c1 c2"
    and sq: "0 \<le> r1 * r1 - circle_a c1 c2 r1 r2 * circle_a c1 c2 r1 r2"
    and u: "dot u u = 1 \<and> dot u (normalize_v (subVectors c2 c1)) = 0"
  shows "distanceToSquared
           (addScaledVector (add c1 (multiplyScalar (normalize_v (subVectors c2 c1))
              (circle_a c1 c2 r1 r2))) u (circle_h c1 c2 r1 r2)) c1 = r1 * r1"
    and "distanceToSquared
           (addScaledVector (add c1 (multiplyScalar (normalize_v (subVectors c2 c1))
              (circle_a c1 c2 r1 r2))) u (circle_h c1 c2 r1 r2)) c2 = r2 * r2"
proof -
  let ?d = "d_12 c1 c2" and ?a = "circle_a c1 c2 r1 r2" and ?h = "circle_h c1 c2 r1 r2"
  let ?e = "normalize_v (subVectors c2 c1)"
  have hh: "?h * ?h = r1 * r1 - ?a * ?a"
    using sq by (simp add: circle_h_def max_def)
  have unit: "lengthSq ?e = 1"
    using d by (intro lengthSq_normalize) (simp add: length_v_subVectors)
  have c2: "c2 = add c1 (multiplyScalar ?e ?d)"
    using d by (intro c2_from_direction) simp
  show "distanceToSquared (addScaledVector (add c1 (multiplyScalar ?e ?a)) u ?h) c1 = r1 * r1"
    using u unit hh by (simp add: circle_point_dist0)
  have "distanceToSquared (addScaledVector (add c1 (multiplyScalar ?e ?a)) u ?h)
          (add c1 (multiplyScalar ?e ?d)) = (?a - ?d) * (?a - ?d) + ?h * ?h"
    using u unit by (simp add: circle_point_dist)
  also have "\<dots> = r1 * r1 + ?d * ?d - 2 * ?a * ?d"
    by (simp add: hh algebra_simps)
  also have "2 * ?a * ?d = r1 * r1 - r2 * r2 + ?d * ?d"
    using d by (simp add: circle_a_def)
  finally show "distanceToSquared (addScaledVector (add c1 (multiplyScalar ?e ?a)) u ?h) c2
      = r2 * r2"
    using c2 by simp
qed

text \<open>
  For the scene, \<open>r1\<^sup>2 - a\<^sup>2\<close> is the squared distance of the movable point from the line
  through the first two anchors, a sum of squares.
\<close>

lemma distanceToSquared_nonneg: "0 \<le> distanceToSquared a b"
  by (simp add: distanceToSquared_def Let_def)

lemma distanceTo_square: "distanceTo a b * distanceTo a b = distanceToSquared a b"
  by (simp add: distanceTo_def distanceToSquared_nonneg)

lemma scene_circle_a:
  "circle_a TOP_POINT_POS LEFT_POINT_POS (distanceTo TOP_POINT_POS m) (distanceTo LEFT_POINT_POS m)
     = (128 - 16 * (vx m + vy m)) / (2 * sqrt 128)"
proof -
  have "distanceTo TOP_POINT_POS m * distanceTo TOP_POINT_POS m
        - distanceTo LEFT_POINT_POS m * distanceTo LEFT_POINT_POS m = - 16 * (vx m + vy m)"
    unfolding distanceTo_square
    by (simp add: distanceToSquared_def Let_def scene_defs algebra_simps)
  then show ?thesis
    by (simp add: circle_a_def d_12_scene)
qed

lemma scene_h_square:
  "distanceTo TOP_POINT_POS m * distanceTo TOP_POINT_POS m
     - circle_a TOP_POINT_POS LEFT_POINT_POS (distanceTo TOP_POINT_POS m) (distanceTo LEFT_POINT_POS m)
       * circle_a TOP_POINT_POS LEFT_POINT_POS (distanceTo TOP_POINT_POS m) (distanceTo LEFT_POINT_POS m)
   = (vx m - vy m + 8) * (vx m - vy m + 8) / 2 + vz m * vz m"
proof -
  define s where "s = vx m + vy m"
  have q: "sqrt 128 * sqrt 128 = 128" by simp
  have "(128 - 16 * s) / (2 * sqrt 128) * ((128 - 16 * s) / (2 * sqrt 128))
        = (128 - 16 * s) * (128 - 16 * s) / (4 * (sqrt 128 * sqrt 128))"
    by simp
  also have "\<dots> = (8 - s) * (8 - s) / 2"
    unfolding q by (simp add: field_simps)
  finally have a: "(128 - 16 * (vx m + vy m)) / (2 * sqrt 128)
        * ((128 - 16 * (vx m + vy m)) / (2 * sqrt 128))
        = (8 - (vx m + vy m)) * (8 - (vx m + vy m)) / 2"
    unfolding s_def .
  have "distanceTo TOP_POINT_POS m * distanceTo TOP_POINT_POS m
        = vx m * vx m + (vy m - 8) * (vy m - 8) + vz m * vz m"
    unfolding distanceTo_square
    by (simp add: distanceToSquared_def Let_def scene_defs algebra_simps)
  then show ?thesis
    unfolding scene_circle_a a by (simp add: field_simps)
qed

lemma scene_circle_formula:
  assumes "dot u u = 1 \<and> dot u (normalize_v (subVectors LEFT_POINT_POS TOP_POINT_POS)) = 0"
  shows "distanceTo
           (addScaledVector (add TOP_POINT_POS
              (multiplyScalar (normalize_v (subVectors LEFT_POINT_POS TOP_POINT_POS))
                 (circle_a TOP_POINT_POS LEFT_POINT_POS
                    (distanceTo TOP_POINT_POS m) (distanceTo LEFT_POINT_POS m))))
              u (circle_h TOP_POINT_POS LEFT_POINT_POS
                    (distanceTo TOP_POINT_POS m) (distanceTo LEFT_POINT_POS m)))
           TOP_POINT_POS = distanceTo TOP_POINT_POS m"
    and "distanceTo
           (addScaledVector (add TOP_POINT_POS
              (multiplyScalar (normalize_v (subVectors LEFT_POINT_POS TOP_POINT_POS))
                 (circle_a TOP_POINT_POS LEFT_POINT_POS
                    (distanceTo TOP_POINT_POS m) (distanceTo LEFT_POINT_POS m))))
              u (circle_h TOP_POINT_POS LEFT_POINT_POS
                    (distanceTo TOP_POINT_POS m) (distanceTo LEFT_POINT_POS m)))
           LEFT_POINT_POS = distanceTo LEFT_POINT_POS m"
proof -
  have d: "0 < d_12 TOP_POINT_POS LEFT_POINT_POS"
    by (simp add: d_12_scene)
  have sq: "0 \<le> distanceTo TOP_POINT_POS m * distanceTo TOP_POINT_POS m
     - circle_a TOP_POINT_POS LEFT_POINT_POS (distanceTo TOP_POINT_POS m) (distanceTo LEFT_POINT_POS m)
       * circle_a TOP_POINT_POS LEFT_POINT_POS (distanceTo TOP_POINT_POS m) (distanceTo LEFT_POINT_POS m)"
    unfolding scene_h_square by simp
  note g = circle_formula_geometry [OF d sq assms]
  show "distanceTo
           (addScaledVector (add TOP_POINT_POS
              (multiplyScalar (normalize_v (subVectors LEFT_POINT_POS TOP_POINT_POS))
                 (circle_a TOP_POINT_POS LEFT_POINT_POS
                    (distanceTo TOP_POINT_POS m) (distanceTo LEFT_POINT_POS m))))
              u (circle_h TOP_POINT_POS LEFT_POINT_POS
                    (distanceTo TOP_POINT_POS m) (distanceTo LEFT_POINT_POS m)))
           TOP_POINT_POS = distanceTo TOP_POINT_POS m"
    using g(1) by (rule distanceTo_of_square) (rule distanceTo_nonneg)
  show "distanceTo
           (addScaledVector (add TOP_POINT_POS
              (multiplyScalar (normalize_v (subVectors LEFT_POINT_POS TOP_POINT_POS))
                 (circle_a TOP_POINT_POS LEFT_POINT_POS
                    (distanceTo TOP_POINT_POS m) (distanceTo LEFT_POINT_POS m))))
              u (circle_h TOP_POINT_POS LEFT_POINT_POS
                    (distanceTo TOP_POINT_POS m) (distanceTo LEFT_POINT_POS m)))
           LEFT_POINT_POS = distanceTo LEFT_POINT_POS m"
    using g(2) by (rule distanceTo_of_square) (rule distanceTo_nonneg)
qed

subsection \<open>The exact circle at \<open>(0, 10, 0)\<close>\<close>

lemma up_dist:
  "distanceTo TOP_POINT_POS (movablePointVec \<lparr>x = 0, y = 10, z = 0\<rparr>) = 2"
  "distanceTo LEFT_POINT_POS (movablePointVec \<lparr>x = 0, y = 10, z = 0\<rparr>) = sqrt 164"
  by (simp_all add: vec_defs scene_defs)

lemma up_radii:
  "radiusTop (computeGeometry \<lparr>x = 0, y = 10, z = 0\<rparr>) = 2"
  "radiusLeft (computeGeometry \<lparr>x = 0, y = 10, z = 0\<rparr>) = sqrt 164"
  by (simp_all add: radius_simps up_dist)

lemma up_circle_result:
  "intersectionCircle (computeGeometry \<lparr>x = 0, y = 10, z = 0\<rparr>)
     = circleResult TOP_POINT_POS LEFT_POINT_POS 2 (sqrt 164)"
  by (simp add: radius_simps up_dist)

lemma up_circle: "exists (intersectionCircle (computeGeometry \<lparr>x = 0, y = 10, z = 0\<rparr>))"
  using sqrt128_bounds sqrt164_bounds
  by (simp add: up_circle_result exists_iff d_12_scene)

lemma up_offset: "circle_a TOP_POINT_POS LEFT_POINT_POS 2 (sqrt 164) = - 16 / sqrt 128"
  by (simp add: circle_a_def d_12_scene)

lemma up_center:
  "center (intersectionCircle (computeGeometry \<lparr>x = 0, y = 10, z = 0\<rparr>)) = Vector3 1 9 0"
proof -
  have "exists (circleResult TOP_POINT_POS LEFT_POINT_POS 2 (sqrt 164))"
    using up_circle by (simp add: up_circle_result)
  then have "center (circleResult TOP_POINT_POS LEFT_POINT_POS 2 (sqrt 164))
        = add TOP_POINT_POS (multiplyScalar (subVectors LEFT_POINT_POS TOP_POINT_POS)
            ((- 16 / sqrt 128) / sqrt 128))"
    by (simp add: circleResult_def Let_def exists_iff normalize_v_scale up_offset d_12_scene
        split: if_splits)
  then show ?thesis
    by (simp add: up_circle_result vec_defs scene_defs)
qed

subsection \<open>Exact values at the tangent position and at the origin\<close>

lemma tangent_exact:
  "distanceTo TOP_POINT_POS (movablePointVec \<lparr>x = - 17 / 2, y = - 1 / 2, z = 0\<rparr>)
     - distanceTo LEFT_POINT_POS (movablePointVec \<lparr>x = - 17 / 2, y = - 1 / 2, z = 0\<rparr>)
   = distanceTo TOP_POINT_POS LEFT_POINT_POS"
proof -
  have a: "sqrt (289 / 2) = 17 * sqrt (1 / 2)"
    using real_sqrt_mult [of "17 * 17" "1 / 2"] by simp
  have b: "sqrt 128 = 16 * sqrt (1 / 2)"
    using real_sqrt_mult [of "16 * 16" "1 / 2"] by simp
  have "distanceTo TOP_POINT_POS (movablePointVec \<lparr>x = - 17 / 2, y = - 1 / 2, z = 0\<rparr>)
      = sqrt (289 / 2)"
    by (simp add: vec_defs scene_defs)
  moreover have "distanceTo LEFT_POINT_POS (movablePointVec \<lparr>x = - 17 / 2, y = - 1 / 2, z = 0\<rparr>)
      = sqrt (1 / 2)"
    by (simp add: vec_defs scene_defs)
  moreover have "distanceTo TOP_POINT_POS LEFT_POINT_POS = sqrt 128"
    by (simp add: vec_defs scene_defs)
  ultimately show ?thesis
    by (simp only: a b)
qed

lemma origin_exact:
  "distanceTo TOP_POINT_POS (movablePointVec \<lparr>x = 0, y = 0, z = 0\<rparr>) = 8"
  "distanceTo LEFT_POINT_POS (movablePointVec \<lparr>x = 0, y = 0, z = 0\<rparr>) = 8"
  "add TOP_POINT_POS (multiplyScalar (normalize_v (subVectors LEFT_POINT_POS TOP_POINT_POS))
      (circle_a TOP_POINT_POS LEFT_POINT_POS 8 8)) = Vector3 (- 4) 4 0"
  "circle_h TOP_POINT_POS LEFT_POINT_POS 8 8 = sqrt 32"
proof -
  show "distanceTo TOP_POINT_POS (movablePointVec \<lparr>x = 0, y = 0, z = 0\<rparr>) = 8"
    "distanceTo LEFT_POINT_POS (movablePointVec \<lparr>x = 0, y = 0, z = 0\<rparr>) = 8"
    by (simp_all add: vec_defs scene_defs)
  have a: "circle_a TOP_POINT_POS LEFT_POINT_POS 8 8 = 64 / sqrt 128"
    by (simp add: circle_a_def d_12_scene)
  have d: "d_12 TOP_POINT_POS LEFT_POINT_POS \<noteq> 0"
    by (simp add: d_12_scene)
  show "add TOP_POINT_POS (multiplyScalar (normalize_v (subVectors LEFT_POINT_POS TOP_POINT_POS))
      (circle_a TOP_POINT_POS LEFT_POINT_POS 8 8)) = Vector3 (- 4) 4 0"
    unfolding normalize_v_scale [OF d] a d_12_scene
    by (simp add: vec_defs scene_defs)
  have "64 / sqrt 128 * (64 / sqrt 128) = 64 * 64 / (sqrt 128 * sqrt 128)"
    by simp
  also have "\<dots> = 32" by simp
  finally show "circle_h TOP_POINT_POS LEFT_POINT_POS 8 8 = sqrt 32"
    by (simp add: circle_h_def a)
qed

subsection \<open>Radii\<close>

text \<open>
  Claim C3. Each of the three radii is nonnegative and is the Euclidean distance from its
  anchor, \<open>(0, 8, 0)\<close>, \<open>(-8, 0, 0)\<close> or \<open>(0, 0, 8)\<close>, to the movable point.
\<close>

theorem radii_are_distances:
  "0 \<le> radiusTop (computeGeometry p)
   \<and> 0 \<le> radiusLeft (computeGeometry p)
   \<and> 0 \<le> radiusFront (computeGeometry p)
   \<and> radiusTop (computeGeometry p) = sqrt ((x p - 0)\<^sup>2 + (y p - 8)\<^sup>2 + (z p - 0)\<^sup>2)
   \<and> radiusLeft (computeGeometry p) = sqrt ((x p - (- 8))\<^sup>2 + (y p - 0)\<^sup>2 + (z p - 0)\<^sup>2)
   \<and> radiusFront (computeGeometry p) = sqrt ((x p - 0)\<^sup>2 + (y p - 0)\<^sup>2 + (z p - 8)\<^sup>2)"
  by (simp add: radius_simps distanceTo_nonneg)
     (simp add: vec_defs scene_defs Let_def power2_eq_square algebra_simps)

section \<open>The circle block in doubles\<close>

subsection \<open>What holds for every input\<close>

lemma circleResult_d_fields:
  assumes "exists (circleResult_d c1 c2 r1 r2)"
  shows "radius (circleResult_d c1 c2 r1 r2) = circle_h_d c1 c2 r1 r2"
    and "center (circleResult_d c1 c2 r1 r2)
         = add_d c1 (multiplyScalar_d (normalize_d (subVectors_d c2 c1)) (circle_a_d c1 c2 r1 r2))"
    and "d_12_d c1 c2 < f_add r1 r2" and "\<bar>f_sub r1 r2\<bar> < d_12_d c1 c2"
  using assms by (simp_all add: circleResult_d_def Let_def split: if_splits)

lemma distanceToSquared_d_nonneg: "0 \<le> distanceToSquared_d v w"
  by (simp add: distanceToSquared_d_def Let_def f_add_def f_mul_def fl_nonneg)

lemma distanceTo_d_nonneg: "0 \<le> distanceTo_d v w"
  by (simp add: distanceTo_d_def f_sqrt_def fl_nonneg distanceToSquared_d_nonneg)

lemma distanceTo_d_fl: "fl (distanceTo_d v w) = distanceTo_d v w"
  by (simp add: distanceTo_d_def f_sqrt_def fl_idem)

lemma circle_exists_d_strict:
  assumes "exists (circleResult_d c1 c2 r1 r2)"
  shows "\<bar>r1 - r2\<bar> < d_12_d c1 c2" and "d_12_d c1 c2 < r1 + r2"
proof -
  let ?d = "d_12_d c1 c2"
  have d: "fl ?d = ?d" by (simp add: d_12_d_def distanceTo_d_fl)
  have md: "fl (- ?d) = - ?d" by (simp add: fl_minus d)
  note t = circleResult_d_fields(3,4) [OF assms]
  show "?d < r1 + r2"
  proof (rule ccontr)
    assume "\<not> ?d < r1 + r2"
    then have "fl (r1 + r2) \<le> ?d" by (intro fl_le_representable d) simp
    with t(1) show False by (simp add: f_add_def)
  qed
  show "\<bar>r1 - r2\<bar> < ?d"
  proof (rule ccontr)
    assume "\<not> \<bar>r1 - r2\<bar> < ?d"
    then consider "?d \<le> r1 - r2" | "r1 - r2 \<le> - ?d" by linarith
    then have "?d \<le> \<bar>fl (r1 - r2)\<bar>"
    proof cases
      case 1
      then have "?d \<le> fl (r1 - r2)" by (intro fl_ge_representable d)
      then show ?thesis by simp
    next
      case 2
      then have "fl (r1 - r2) \<le> - ?d" by (intro fl_le_representable md)
      then show ?thesis by simp
    qed
    with t(2) show False by (simp add: f_sub_def)
  qed
qed

lemma circle_h_d_nonneg: "0 \<le> circle_h_d c1 c2 r1 r2"
  by (simp add: circle_h_d_def f_sqrt_def fl_nonneg)

lemma circle_a_d_nonneg:
  assumes "0 \<le> r2" and "r2 \<le> d_12_d c1 c2"
  shows "0 \<le> circle_a_d c1 c2 r1 r2"
proof -
  let ?d = "d_12_d c1 c2"
  let ?dd = "fl (?d * ?d)"
  have "r2 * r2 \<le> ?d * ?d" using assms by (intro mult_mono) simp_all
  then have r2: "fl (r2 * r2) \<le> ?dd" by (rule fl_mono)
  have "0 \<le> fl (r1 * r1)" by (intro fl_nonneg) simp
  with r2 have "- ?dd \<le> fl (r1 * r1) - fl (r2 * r2)" by simp
  then have "fl (- ?dd) \<le> fl (fl (r1 * r1) - fl (r2 * r2))" by (rule fl_mono)
  then have "0 \<le> fl (fl (r1 * r1) - fl (r2 * r2)) + ?dd"
    by (simp add: fl_minus fl_idem)
  then have n: "0 \<le> fl (fl (fl (r1 * r1) - fl (r2 * r2)) + ?dd)" by (rule fl_nonneg)
  have "0 \<le> ?d" by (simp add: d_12_d_def distanceTo_d_nonneg)
  then have "0 \<le> fl (2 * ?d)" by (intro fl_nonneg) simp
  with n have "0 \<le> fl (fl (fl (r1 * r1) - fl (r2 * r2)) + ?dd) / fl (2 * ?d)"
    by (rule divide_nonneg_nonneg)
  then show ?thesis
    by (simp add: circle_a_d_def f_div_def f_add_def f_sub_def f_mul_def fl_nonneg)
qed

subsection \<open>Roundings of the constants the scene meets\<close>

lemma fl_small_consts:
  "fl 1 = 1" "fl 2 = 2" "fl 4 = 4" "fl 8 = 8" "fl 64 = 64" "fl 128 = 128" "fl 16 = 16"
  "fl (17 / 2) = 17 / 2" "fl (289 / 4) = 289 / 4" "fl (289 / 2) = 289 / 2"
  "fl (1 / 2) = 1 / 2" "fl (1 / 4) = 1 / 4" "fl 272 = 272" "fl 100 = 100" "fl 164 = 164"
  using fl_of_int [of 1] fl_of_int [of 2] fl_of_int [of 4] fl_of_int [of 8] fl_of_int [of 64]
    fl_of_int [of 128] fl_of_int [of 16] fl_of_int [of 272] fl_of_int [of 100] fl_of_int [of 164]
    fl_dyadic [of 17 1] fl_dyadic [of 289 2] fl_dyadic [of 289 1] fl_dyadic [of 1 1]
    fl_dyadic [of 1 2]
  by simp_all

lemma fl_more_consts: "fl 10 = 10" "fl 160 = 160" "fl 288 = 288" "fl 12 = 12"
  using fl_of_int [of 10] fl_of_int [of 160] fl_of_int [of 288] fl_of_int [of 12]
  by simp_all

lemma fl_sqrt_1_2: "fl (sqrt (1 / 2)) = 6369051672525773 / 2 ^ 53"
proof -
  have "(6369051672525773 - 1 / 2) / 2 ^ 53 < sqrt (1 / 2)"
    by (rule sqrt_gt) simp_all
  moreover have "sqrt (1 / 2) < (6369051672525773 + 1 / 2) / 2 ^ 53"
    by (rule sqrt_lt) simp_all
  ultimately show ?thesis
    using fl_eq_dyadic [of 6369051672525773 53 "sqrt (1 / 2)"] by simp
qed

lemma fl_sqrt_128: "fl (sqrt 128) = 6369051672525773 / 2 ^ 49"
proof -
  have "(6369051672525773 - 1 / 2) / 2 ^ 49 < sqrt 128"
    by (rule sqrt_gt) simp_all
  moreover have "sqrt 128 < (6369051672525773 + 1 / 2) / 2 ^ 49"
    by (rule sqrt_lt) simp_all
  ultimately show ?thesis
    using fl_eq_dyadic [of 6369051672525773 49 "sqrt 128"] by simp
qed

lemma fl_sqrt_289_2: "fl (sqrt (289 / 2)) = 6767117402058633 / 2 ^ 49"
proof -
  have "(6767117402058633 - 1 / 2) / 2 ^ 49 < sqrt (289 / 2)"
    by (rule sqrt_gt) simp_all
  moreover have "sqrt (289 / 2) < (6767117402058633 + 1 / 2) / 2 ^ 49"
    by (rule sqrt_lt) simp_all
  ultimately show ?thesis
    using fl_eq_dyadic [of 6767117402058633 49 "sqrt (289 / 2)"] by simp
qed

lemma fl_sqrt_164: "fl (sqrt 164) = 7209276982427392 / 2 ^ 49"
proof -
  have "(7209276982427392 - 1 / 2) / 2 ^ 49 < sqrt 164"
    by (rule sqrt_gt) simp_all
  moreover have "sqrt 164 < (7209276982427392 + 1 / 2) / 2 ^ 49"
    by (rule sqrt_lt) simp_all
  ultimately show ?thesis
    using fl_eq_dyadic [of 7209276982427392 49 "sqrt 164"] by simp
qed

lemma scene_d_12_d: "d_12_d TOP_POINT_POS LEFT_POINT_POS = 6369051672525773 / 2 ^ 49"
proof -
  have "distanceToSquared_d TOP_POINT_POS LEFT_POINT_POS = 128"
    by (simp add: distanceToSquared_d_def f_sub_def f_mul_def f_add_def scene_defs Let_def
        fl_small_consts fl_zero)
  then show ?thesis
    by (simp only: d_12_d_def distanceTo_d_def f_sqrt_def fl_sqrt_128)
qed

subsection \<open>The movable point where the exact spheres are tangent\<close>

text \<open>At \<open>(-8.5, -0.5, 0)\<close>, a position of the sliders, every rounding is followed by hand.\<close>

lemma tangent_rTop: "rTop_d \<lparr>x = - 17 / 2, y = - 1 / 2, z = 0\<rparr> = 6767117402058633 / 2 ^ 49"
proof -
  have "distanceToSquared_d TOP_POINT_POS (movablePointVec \<lparr>x = - 17 / 2, y = - 1 / 2, z = 0\<rparr>)
        = 289 / 2"
    by (simp add: distanceToSquared_d_def f_sub_def f_mul_def f_add_def scene_defs Let_def
        fl_small_consts fl_zero)
  then show ?thesis
    by (simp only: rTop_d_def distanceTo_d_def f_sqrt_def fl_sqrt_289_2)
qed

lemma tangent_rLeft: "rLeft_d \<lparr>x = - 17 / 2, y = - 1 / 2, z = 0\<rparr> = 6369051672525773 / 2 ^ 53"
proof -
  have "distanceToSquared_d LEFT_POINT_POS (movablePointVec \<lparr>x = - 17 / 2, y = - 1 / 2, z = 0\<rparr>)
        = 1 / 2"
    by (simp add: distanceToSquared_d_def f_sub_def f_mul_def f_add_def scene_defs Let_def
        fl_small_consts fl_zero)
  then show ?thesis
    by (simp only: rLeft_d_def distanceTo_d_def f_sqrt_def fl_sqrt_1_2)
qed

lemma tangent_sub:
  "f_sub (6767117402058633 / 2 ^ 49) (6369051672525773 / 2 ^ 53) = 6369051672525772 / 2 ^ 49"
  unfolding f_sub_def
  using fl_eq_dyadic [of 6369051672525772 49 "6767117402058633 / 2 ^ 49 - 6369051672525773 / 2 ^ 53"]
  by simp

lemma tangent_add:
  "f_add (6767117402058633 / 2 ^ 49) (6369051672525773 / 2 ^ 53) = 7165183131591494 / 2 ^ 49"
  unfolding f_add_def
  using fl_eq_dyadic [of 7165183131591494 49 "6767117402058633 / 2 ^ 49 + 6369051672525773 / 2 ^ 53"]
  by simp

lemma tangent_r1r1:
  "f_mul (6767117402058633 / 2 ^ 49) (6767117402058633 / 2 ^ 49) = 5084141766836223 / 2 ^ 45"
  unfolding f_mul_def
  using fl_eq_dyadic [of 5084141766836223 45 "6767117402058633 / 2 ^ 49 * (6767117402058633 / 2 ^ 49)"]
  by simp

lemma tangent_r2r2:
  "f_mul (6369051672525773 / 2 ^ 53) (6369051672525773 / 2 ^ 53) = 4503599627370497 / 2 ^ 53"
  unfolding f_mul_def
  using fl_eq_dyadic [of 4503599627370497 53 "6369051672525773 / 2 ^ 53 * (6369051672525773 / 2 ^ 53)"]
  by simp

lemma tangent_dd:
  "f_mul (6369051672525773 / 2 ^ 49) (6369051672525773 / 2 ^ 49) = 4503599627370497 / 2 ^ 45"
  unfolding f_mul_def
  using fl_eq_dyadic [of 4503599627370497 45 "6369051672525773 / 2 ^ 49 * (6369051672525773 / 2 ^ 49)"]
  by simp

lemma tangent_n1:
  "f_sub (5084141766836223 / 2 ^ 45) (4503599627370497 / 2 ^ 53) = 5066549580791807 / 2 ^ 45"
  unfolding f_sub_def
  using fl_eq_dyadic [of 5066549580791807 45 "5084141766836223 / 2 ^ 45 - 4503599627370497 / 2 ^ 53"]
  by simp

lemma tangent_n2:
  "f_add (5066549580791807 / 2 ^ 45) (4503599627370497 / 2 ^ 45) = 272"
  unfolding f_add_def using fl_small_consts by simp

lemma tangent_den:
  "f_mul 2 (6369051672525773 / 2 ^ 49) = 6369051672525773 / 2 ^ 48"
  unfolding f_mul_def using fl_dyadic [of 6369051672525773 48] by simp

lemma tangent_quot:
  "f_div 272 (6369051672525773 / 2 ^ 48) = 6767117402058633 / 2 ^ 49"
  unfolding f_div_def
  using fl_eq_dyadic [of 6767117402058633 49 "272 / (6369051672525773 / 2 ^ 48)"]
  by simp

lemma tangent_a:
  "circle_a_d TOP_POINT_POS LEFT_POINT_POS (6767117402058633 / 2 ^ 49) (6369051672525773 / 2 ^ 53)
     = 6767117402058633 / 2 ^ 49"
  by (simp only: circle_a_d_def scene_d_12_d tangent_r1r1 tangent_r2r2 tangent_dd tangent_n1
      tangent_n2 tangent_den tangent_quot)

lemma tangent_h:
  "circle_h_d TOP_POINT_POS LEFT_POINT_POS (6767117402058633 / 2 ^ 49) (6369051672525773 / 2 ^ 53)
     = 0"
  by (simp only: circle_h_d_def tangent_a tangent_r1r1) (simp add: f_sub_def f_sqrt_def fl_zero)

lemma tangent_exists:
  "exists (intersectionCircle_d \<lparr>x = - 17 / 2, y = - 1 / 2, z = 0\<rparr>)"
  by (simp only: intersectionCircle_d_def circleResult_d_def tangent_rTop tangent_rLeft
      scene_d_12_d tangent_sub tangent_add) simp

lemma tangent_radius:
  "radius (intersectionCircle_d \<lparr>x = - 17 / 2, y = - 1 / 2, z = 0\<rparr>) = 0"
  using circleResult_d_fields(1) [OF tangent_exists [unfolded intersectionCircle_d_def]]
  by (simp only: intersectionCircle_d_def tangent_rTop tangent_rLeft tangent_h)

subsection \<open>Four more movable points\<close>

text \<open>The origin, the anchor \<open>(0, 8, 0)\<close>, \<open>(0, 10, 0)\<close> and \<open>(-10, 0, 0)\<close>.\<close>

lemma origin_r_d:
  "rTop_d \<lparr>x = 0, y = 0, z = 0\<rparr> = 8" "rLeft_d \<lparr>x = 0, y = 0, z = 0\<rparr> = 8"
  by (simp_all add: rTop_d_def rLeft_d_def distanceTo_d_def distanceToSquared_d_def f_sub_def
      f_mul_def f_add_def f_sqrt_def scene_defs Let_def fl_small_consts fl_zero fl_minus)

lemma origin_exists_d: "exists (intersectionCircle_d \<lparr>x = 0, y = 0, z = 0\<rparr>)"
  by (simp add: intersectionCircle_d_def circleResult_d_def origin_r_d scene_d_12_d f_add_def
      f_sub_def fl_small_consts fl_zero)

lemma top_r_d:
  "rTop_d \<lparr>x = 0, y = 8, z = 0\<rparr> = 0"
  "rLeft_d \<lparr>x = 0, y = 8, z = 0\<rparr> = 6369051672525773 / 2 ^ 49"
proof -
  show "rTop_d \<lparr>x = 0, y = 8, z = 0\<rparr> = 0"
    by (simp add: rTop_d_def distanceTo_d_def distanceToSquared_d_def f_sub_def
      f_mul_def f_add_def f_sqrt_def scene_defs Let_def fl_zero)
  have "distanceToSquared_d LEFT_POINT_POS (movablePointVec \<lparr>x = 0, y = 8, z = 0\<rparr>) = 128"
    by (simp add: distanceToSquared_d_def f_sub_def f_mul_def f_add_def scene_defs Let_def
        fl_small_consts fl_zero fl_minus)
  then show "rLeft_d \<lparr>x = 0, y = 8, z = 0\<rparr> = 6369051672525773 / 2 ^ 49"
    by (simp only: rLeft_d_def distanceTo_d_def f_sqrt_def fl_sqrt_128)
qed

lemma top_not_exists_d: "\<not> exists (intersectionCircle_d \<lparr>x = 0, y = 8, z = 0\<rparr>)"
proof -
  have "f_add 0 (6369051672525773 / 2 ^ 49) = 6369051672525773 / 2 ^ 49"
    unfolding f_add_def using fl_dyadic [of 6369051672525773 49] by simp
  then show ?thesis
    by (simp only: intersectionCircle_d_def circleResult_d_def top_r_d scene_d_12_d) simp
qed

lemma up_r_d:
  "rTop_d \<lparr>x = 0, y = 10, z = 0\<rparr> = 2"
  "rLeft_d \<lparr>x = 0, y = 10, z = 0\<rparr> = 7209276982427392 / 2 ^ 49"
proof -
  show "rTop_d \<lparr>x = 0, y = 10, z = 0\<rparr> = 2"
    by (simp add: rTop_d_def distanceTo_d_def distanceToSquared_d_def f_sub_def
      f_mul_def f_add_def f_sqrt_def scene_defs Let_def fl_zero fl_small_consts fl_minus)
  have "distanceToSquared_d LEFT_POINT_POS (movablePointVec \<lparr>x = 0, y = 10, z = 0\<rparr>) = 164"
    by (simp add: distanceToSquared_d_def f_sub_def f_mul_def f_add_def scene_defs Let_def
        fl_small_consts fl_more_consts fl_zero fl_minus)
  then show "rLeft_d \<lparr>x = 0, y = 10, z = 0\<rparr> = 7209276982427392 / 2 ^ 49"
    by (simp only: rLeft_d_def distanceTo_d_def f_sqrt_def fl_sqrt_164)
qed

lemma far_r_d:
  "rTop_d \<lparr>x = - 10, y = 0, z = 0\<rparr> = 7209276982427392 / 2 ^ 49"
  "rLeft_d \<lparr>x = - 10, y = 0, z = 0\<rparr> = 2"
proof -
  show "rLeft_d \<lparr>x = - 10, y = 0, z = 0\<rparr> = 2"
    by (simp add: rLeft_d_def distanceTo_d_def distanceToSquared_d_def f_sub_def
      f_mul_def f_add_def f_sqrt_def scene_defs Let_def fl_zero fl_small_consts fl_minus)
  have "distanceToSquared_d TOP_POINT_POS (movablePointVec \<lparr>x = - 10, y = 0, z = 0\<rparr>) = 164"
    by (simp add: distanceToSquared_d_def f_sub_def f_mul_def f_add_def scene_defs Let_def
        fl_small_consts fl_more_consts fl_zero fl_minus)
  then show "rTop_d \<lparr>x = - 10, y = 0, z = 0\<rparr> = 7209276982427392 / 2 ^ 49"
    by (simp only: rTop_d_def distanceTo_d_def f_sqrt_def fl_sqrt_164)
qed

lemma s164_sum: "f_add 2 (7209276982427392 / 2 ^ 49) = 8335176889270016 / 2 ^ 49"
  "f_add (7209276982427392 / 2 ^ 49) 2 = 8335176889270016 / 2 ^ 49"
  unfolding f_add_def using fl_dyadic [of 8335176889270016 49] by simp_all

lemma s164_diff: "f_sub 2 (7209276982427392 / 2 ^ 49) = - (6083377075584768 / 2 ^ 49)"
  "f_sub (7209276982427392 / 2 ^ 49) 2 = 6083377075584768 / 2 ^ 49"
  unfolding f_sub_def
  using fl_dyadic [of 6083377075584768 49] fl_dyadic [of "- 6083377075584768" 49] by simp_all

lemma s164_square: "f_mul (7209276982427392 / 2 ^ 49) (7209276982427392 / 2 ^ 49) = 164"
  unfolding f_mul_def
  using fl_eq_dyadic [of 5770237022568448 45 "7209276982427392 / 2 ^ 49 * (7209276982427392 / 2 ^ 49)"]
  by simp

lemma two_square: "f_mul 2 2 = 4"
  by (simp add: f_mul_def fl_small_consts)

lemma up_exists_d: "exists (intersectionCircle_d \<lparr>x = 0, y = 10, z = 0\<rparr>)"
  by (simp only: intersectionCircle_d_def circleResult_d_def up_r_d scene_d_12_d s164_sum
      s164_diff) simp

lemma far_exists_d: "exists (intersectionCircle_d \<lparr>x = - 10, y = 0, z = 0\<rparr>)"
  by (simp only: intersectionCircle_d_def circleResult_d_def far_r_d scene_d_12_d s164_sum
      s164_diff) simp

lemma up_num:
  "f_add (f_sub 4 164) (4503599627370497 / 2 ^ 45) = - (1125899906842623 / 2 ^ 45)"
proof -
  have "f_sub 4 164 = - 160"
    by (simp add: f_sub_def fl_minus fl_more_consts)
  moreover have "f_add (- 160) (4503599627370497 / 2 ^ 45) = - (1125899906842623 / 2 ^ 45)"
    unfolding f_add_def using fl_dyadic [of "- 1125899906842623" 45] by simp
  ultimately show ?thesis by simp
qed

lemma up_a_d:
  "circle_a_d TOP_POINT_POS LEFT_POINT_POS 2 (7209276982427392 / 2 ^ 49) \<le> - 1"
proof -
  have "circle_a_d TOP_POINT_POS LEFT_POINT_POS 2 (7209276982427392 / 2 ^ 49)
        = fl (- (1125899906842623 / 2 ^ 45) / (6369051672525773 / 2 ^ 48))"
    by (simp only: circle_a_d_def scene_d_12_d two_square s164_square tangent_dd up_num
        tangent_den f_div_def)
  moreover have "fl (- (1125899906842623 / 2 ^ 45) / (6369051672525773 / 2 ^ 48)) \<le> - 1"
    by (rule fl_le_representable) (simp_all add: fl_minus fl_small_consts)
  ultimately show ?thesis by simp
qed

lemma far_a_d:
  "12 \<le> circle_a_d TOP_POINT_POS LEFT_POINT_POS (7209276982427392 / 2 ^ 49) 2"
proof -
  have "f_sub 164 4 = 160"
    by (simp add: f_sub_def fl_more_consts)
  then have a: "circle_a_d TOP_POINT_POS LEFT_POINT_POS (7209276982427392 / 2 ^ 49) 2
        = fl (fl (160 + 4503599627370497 / 2 ^ 45) / (6369051672525773 / 2 ^ 48))"
    by (simp only: circle_a_d_def scene_d_12_d two_square s164_square tangent_dd
        tangent_den f_div_def f_add_def)
  have n: "288 \<le> fl (160 + 4503599627370497 / 2 ^ 45)"
    by (rule fl_ge_representable) (simp_all add: fl_more_consts)
  have "12 \<le> 288 / (6369051672525773 / 2 ^ 48 :: real)" by simp
  also have "\<dots> \<le> fl (160 + 4503599627370497 / 2 ^ 45) / (6369051672525773 / 2 ^ 48)"
    using n by (intro divide_right_mono) simp_all
  finally have "12 \<le> fl (fl (160 + 4503599627370497 / 2 ^ 45) / (6369051672525773 / 2 ^ 48))"
    by (rule fl_ge_representable) (simp add: fl_more_consts)
  with a show ?thesis by simp
qed

subsection \<open>The direction of the center line\<close>

lemma scene_inv_d: "f_div 1 (6369051672525773 / 2 ^ 49) = 6369051672525772 / 2 ^ 56"
  unfolding f_div_def
  using fl_eq_dyadic [of 6369051672525772 56 "1 / (6369051672525773 / 2 ^ 49)"]
  by simp

lemma scene_sub_d: "subVectors_d LEFT_POINT_POS TOP_POINT_POS = Vector3 (- 8) (- 8) 0"
  by (simp add: subVectors_d_def f_sub_def scene_defs fl_minus fl_small_consts fl_zero)

lemma scene_length_d: "length_d (Vector3 (- 8) (- 8) 0) = 6369051672525773 / 2 ^ 49"
proof -
  have "f_add (f_add (f_mul (- 8) (- 8)) (f_mul (- 8) (- 8))) (f_mul 0 0) = 128"
    by (simp add: f_add_def f_mul_def fl_small_consts fl_zero)
  then show ?thesis
    by (simp only: length_d_def Vector3.sel f_sqrt_def fl_sqrt_128)
qed

lemma scene_direction_d:
  "normalize_d (subVectors_d LEFT_POINT_POS TOP_POINT_POS)
     = Vector3 (- (6369051672525772 / 2 ^ 53)) (- (6369051672525772 / 2 ^ 53)) 0"
proof -
  have "f_mul (- 8) (6369051672525772 / 2 ^ 56) = - (6369051672525772 / 2 ^ 53)"
    unfolding f_mul_def using fl_dyadic [of "- 6369051672525772" 53] by simp
  moreover have "f_mul 0 (6369051672525772 / 2 ^ 56) = 0"
    by (simp add: f_mul_def fl_zero)
  moreover have "normalize_d (Vector3 (- 8) (- 8) 0)
      = multiplyScalar_d (Vector3 (- 8) (- 8) 0) (6369051672525772 / 2 ^ 56)"
  proof -
    have "normalize_d (Vector3 (- 8) (- 8) 0)
        = divideScalar_d (Vector3 (- 8) (- 8) 0) (6369051672525773 / 2 ^ 49)"
      by (simp add: normalize_d_def scene_length_d)
    also have "\<dots> = multiplyScalar_d (Vector3 (- 8) (- 8) 0) (6369051672525772 / 2 ^ 56)"
      by (simp only: divideScalar_d_def scene_inv_d)
    finally show ?thesis .
  qed
  ultimately show ?thesis
    by (simp only: scene_sub_d multiplyScalar_d_def Vector3.sel)
qed

subsection \<open>The circle at the origin\<close>

lemma eight_square: "f_mul 8 8 = 64"
  by (simp add: f_mul_def fl_small_consts)

lemma origin_num: "f_add (f_sub 64 64) (4503599627370497 / 2 ^ 45) = 4503599627370497 / 2 ^ 45"
  unfolding f_add_def f_sub_def using fl_dyadic [of 4503599627370497 45]
  by (simp add: fl_zero)

lemma origin_quot:
  "f_div (4503599627370497 / 2 ^ 45) (6369051672525773 / 2 ^ 48) = 6369051672525774 / 2 ^ 50"
  unfolding f_div_def
  using fl_eq_dyadic [of 6369051672525774 50
      "4503599627370497 / 2 ^ 45 / (6369051672525773 / 2 ^ 48)"]
  by simp

lemma origin_a:
  "circle_a_d TOP_POINT_POS LEFT_POINT_POS 8 8 = 6369051672525774 / 2 ^ 50"
  by (simp only: circle_a_d_def scene_d_12_d eight_square tangent_dd origin_num tangent_den
      origin_quot)

lemma origin_aa:
  "f_mul (6369051672525774 / 2 ^ 50) (6369051672525774 / 2 ^ 50) = 4503599627370498 / 2 ^ 47"
  unfolding f_mul_def
  using fl_eq_dyadic [of 4503599627370498 47 "6369051672525774 / 2 ^ 50 * (6369051672525774 / 2 ^ 50)"]
  by simp

lemma origin_sub: "f_sub 64 (4503599627370498 / 2 ^ 47) = 9007199254740988 / 2 ^ 48"
  unfolding f_sub_def using fl_dyadic [of 9007199254740988 48] by simp

lemma origin_sqrt: "f_sqrt (9007199254740988 / 2 ^ 48) = 6369051672525771 / 2 ^ 50"
proof -
  have "(6369051672525771 - 1 / 2) / 2 ^ 50 < sqrt (9007199254740988 / 2 ^ 48)"
    by (rule sqrt_gt) simp_all
  moreover have "sqrt (9007199254740988 / 2 ^ 48) < (6369051672525771 + 1 / 2) / 2 ^ 50"
    by (rule sqrt_lt) simp_all
  ultimately show ?thesis
    unfolding f_sqrt_def
    using fl_eq_dyadic [of 6369051672525771 50 "sqrt (9007199254740988 / 2 ^ 48)"] by simp
qed

lemma origin_h:
  "circle_h_d TOP_POINT_POS LEFT_POINT_POS 8 8 = 6369051672525771 / 2 ^ 50"
proof -
  have "max 0 (9007199254740988 / 2 ^ 48 :: real) = 9007199254740988 / 2 ^ 48" by simp
  then show ?thesis
    by (simp only: circle_h_d_def origin_a eight_square origin_aa origin_sub origin_sqrt)
qed

lemma origin_offset_d:
  "f_mul (- (6369051672525772 / 2 ^ 53)) (6369051672525774 / 2 ^ 50)
     = - (4503599627370497 / 2 ^ 50)"
proof -
  have "fl (6369051672525772 / 2 ^ 53 * (6369051672525774 / 2 ^ 50)) = 4503599627370497 / 2 ^ 50"
    using fl_eq_dyadic [of 4503599627370497 50
        "6369051672525772 / 2 ^ 53 * (6369051672525774 / 2 ^ 50)"]
    by simp
  then have "fl (- (6369051672525772 / 2 ^ 53 * (6369051672525774 / 2 ^ 50)))
      = - (4503599627370497 / 2 ^ 50)"
    by (simp only: fl_minus)
  then show ?thesis by (simp add: f_mul_def)
qed

lemma origin_center_sum:
  "f_add 0 (- (4503599627370497 / 2 ^ 50)) = - (4503599627370497 / 2 ^ 50)"
  "f_add 8 (- (4503599627370497 / 2 ^ 50)) = 9007199254740990 / 2 ^ 51"
  unfolding f_add_def
  using fl_dyadic [of "- 4503599627370497" 50] fl_dyadic [of 9007199254740990 51]
  by simp_all

lemma zero_ops: "f_mul 0 a = 0" "f_add 0 0 = 0"
  by (simp_all add: f_mul_def f_add_def fl_zero)

lemma origin_circle_d:
  "exists (intersectionCircle_d \<lparr>x = 0, y = 0, z = 0\<rparr>)"
  "radius (intersectionCircle_d \<lparr>x = 0, y = 0, z = 0\<rparr>) = 6369051672525771 / 2 ^ 50"
  "center (intersectionCircle_d \<lparr>x = 0, y = 0, z = 0\<rparr>)
     = Vector3 (- (4503599627370497 / 2 ^ 50)) (9007199254740990 / 2 ^ 51) 0"
proof -
  show e: "exists (intersectionCircle_d \<lparr>x = 0, y = 0, z = 0\<rparr>)"
    by (rule origin_exists_d)
  note f = circleResult_d_fields(1,2) [OF e [unfolded intersectionCircle_d_def]]
  show "radius (intersectionCircle_d \<lparr>x = 0, y = 0, z = 0\<rparr>) = 6369051672525771 / 2 ^ 50"
    using f(1) by (simp only: intersectionCircle_d_def origin_r_d origin_h)
  have "add_d TOP_POINT_POS
          (multiplyScalar_d (Vector3 (- (6369051672525772 / 2 ^ 53)) (- (6369051672525772 / 2 ^ 53)) 0)
             (6369051672525774 / 2 ^ 50))
        = Vector3 (- (4503599627370497 / 2 ^ 50)) (9007199254740990 / 2 ^ 51) 0"
    by (simp only: add_d_def multiplyScalar_d_def Vector3.sel TOP_POINT_POS_def origin_offset_d
        zero_ops origin_center_sum)
  then show "center (intersectionCircle_d \<lparr>x = 0, y = 0, z = 0\<rparr>)
     = Vector3 (- (4503599627370497 / 2 ^ 50)) (9007199254740990 / 2 ^ 51) 0"
    using f(2) by (simp only: intersectionCircle_d_def origin_r_d origin_a scene_direction_d)
qed

subsection \<open>The circle at \<open>(0, 10, 0)\<close>\<close>

lemma up_quot:
  "f_div (- (1125899906842623 / 2 ^ 45)) (6369051672525773 / 2 ^ 48)
     = - (6369051672525766 / 2 ^ 52)"
proof -
  have "fl (1125899906842623 / 2 ^ 45 / (6369051672525773 / 2 ^ 48)) = 6369051672525766 / 2 ^ 52"
    using fl_eq_dyadic [of 6369051672525766 52
        "1125899906842623 / 2 ^ 45 / (6369051672525773 / 2 ^ 48)"]
    by simp
  then have "fl (- (1125899906842623 / 2 ^ 45 / (6369051672525773 / 2 ^ 48)))
      = - (6369051672525766 / 2 ^ 52)"
    by (simp only: fl_minus)
  then show ?thesis by (simp add: f_div_def)
qed

lemma up_a:
  "circle_a_d TOP_POINT_POS LEFT_POINT_POS 2 (7209276982427392 / 2 ^ 49)
     = - (6369051672525766 / 2 ^ 52)"
  by (simp only: circle_a_d_def scene_d_12_d two_square s164_square tangent_dd up_num
      tangent_den up_quot)

lemma up_offset_d:
  "f_mul (- (6369051672525772 / 2 ^ 53)) (- (6369051672525766 / 2 ^ 52))
     = 9007199254740982 / 2 ^ 53"
  unfolding f_mul_def
  using fl_eq_dyadic [of 9007199254740982 53
      "6369051672525772 / 2 ^ 53 * (6369051672525766 / 2 ^ 52)"]
  by simp

lemma up_center_sum:
  "f_add 0 (9007199254740982 / 2 ^ 53) = 9007199254740982 / 2 ^ 53"
  "f_add 8 (9007199254740982 / 2 ^ 53) = 5066549580791807 / 2 ^ 49"
proof -
  show "f_add 0 (9007199254740982 / 2 ^ 53) = 9007199254740982 / 2 ^ 53"
    unfolding f_add_def using fl_dyadic [of 9007199254740982 53] by simp
  show "f_add 8 (9007199254740982 / 2 ^ 53) = 5066549580791807 / 2 ^ 49"
    unfolding f_add_def
    using fl_eq_dyadic [of 5066549580791807 49 "8 + 9007199254740982 / 2 ^ 53"] by simp
qed

lemma up_circle_d:
  "exists (intersectionCircle_d \<lparr>x = 0, y = 10, z = 0\<rparr>)"
  "center (intersectionCircle_d \<lparr>x = 0, y = 10, z = 0\<rparr>)
     = Vector3 (9007199254740982 / 2 ^ 53) (5066549580791807 / 2 ^ 49) 0"
proof -
  show e: "exists (intersectionCircle_d \<lparr>x = 0, y = 10, z = 0\<rparr>)"
    by (rule up_exists_d)
  note f = circleResult_d_fields(2) [OF e [unfolded intersectionCircle_d_def]]
  have "add_d TOP_POINT_POS
          (multiplyScalar_d (Vector3 (- (6369051672525772 / 2 ^ 53)) (- (6369051672525772 / 2 ^ 53)) 0)
             (- (6369051672525766 / 2 ^ 52)))
        = Vector3 (9007199254740982 / 2 ^ 53) (5066549580791807 / 2 ^ 49) 0"
    by (simp only: add_d_def multiplyScalar_d_def Vector3.sel TOP_POINT_POS_def up_offset_d
        zero_ops up_center_sum)
  then show "center (intersectionCircle_d \<lparr>x = 0, y = 10, z = 0\<rparr>)
     = Vector3 (9007199254740982 / 2 ^ 53) (5066549580791807 / 2 ^ 49) 0"
    using f by (simp only: intersectionCircle_d_def up_r_d up_a scene_direction_d)
qed

subsection \<open>Bounds on the offset along the center line\<close>

lemma scene_dd_over_d:
  "fl (4503599627370497 / 2 ^ 45 / (6369051672525773 / 2 ^ 49)) = 6369051672525774 / 2 ^ 49"
  using fl_eq_dyadic [of 6369051672525774 49
      "4503599627370497 / 2 ^ 45 / (6369051672525773 / 2 ^ 49)"]
  by simp

lemma scene_a_d_upper:
  assumes "0 \<le> r1" and "r1 \<le> d_12_d TOP_POINT_POS LEFT_POINT_POS"
  shows "circle_a_d TOP_POINT_POS LEFT_POINT_POS r1 r2
         \<le> d_12_d TOP_POINT_POS LEFT_POINT_POS + 1 / 2 ^ 49"
proof -
  let ?dd = "4503599627370497 / 2 ^ 45 :: real"
  let ?den = "6369051672525773 / 2 ^ 48 :: real"
  have dd: "fl ?dd = ?dd" using fl_dyadic [of 4503599627370497 45] by simp
  have dd2: "fl (?dd + ?dd) = ?dd + ?dd" using fl_dyadic [of 4503599627370497 44] by simp
  from assms have r1: "r1 \<le> 6369051672525773 / 2 ^ 49" by (simp only: scene_d_12_d)
  have "r1 * r1 \<le> 6369051672525773 / 2 ^ 49 * (6369051672525773 / 2 ^ 49)"
    using assms(1) r1 by (intro mult_mono) simp_all
  then have "fl (r1 * r1) \<le> fl (6369051672525773 / 2 ^ 49 * (6369051672525773 / 2 ^ 49))"
    by (rule fl_mono)
  then have a: "f_mul r1 r1 \<le> ?dd"
    using tangent_dd by (simp only: f_mul_def)
  have "0 \<le> f_mul r2 r2" by (simp add: f_mul_def fl_nonneg)
  with a have "f_mul r1 r1 - f_mul r2 r2 \<le> ?dd" by simp
  then have "f_sub (f_mul r1 r1) (f_mul r2 r2) \<le> ?dd"
    unfolding f_sub_def by (rule fl_le_representable) (rule dd)
  then have "f_sub (f_mul r1 r1) (f_mul r2 r2) + ?dd \<le> ?dd + ?dd" by simp
  then have n: "f_add (f_sub (f_mul r1 r1) (f_mul r2 r2)) ?dd \<le> ?dd + ?dd"
    unfolding f_add_def by (rule fl_le_representable) (rule dd2)
  have "f_add (f_sub (f_mul r1 r1) (f_mul r2 r2)) ?dd / ?den \<le> (?dd + ?dd) / ?den"
    using n by (intro divide_right_mono) simp_all
  also have "(?dd + ?dd) / ?den = ?dd / (6369051672525773 / 2 ^ 49)" by simp
  finally have "fl (f_add (f_sub (f_mul r1 r1) (f_mul r2 r2)) ?dd / ?den)
      \<le> fl (?dd / (6369051672525773 / 2 ^ 49))"
    by (rule fl_mono)
  then have "f_div (f_add (f_sub (f_mul r1 r1) (f_mul r2 r2)) ?dd) ?den \<le> 6369051672525774 / 2 ^ 49"
    by (simp only: f_div_def scene_dd_over_d)
  then have "circle_a_d TOP_POINT_POS LEFT_POINT_POS r1 r2 \<le> 6369051672525774 / 2 ^ 49"
    by (simp only: circle_a_d_def scene_d_12_d tangent_dd tangent_den)
  then show ?thesis
    by (simp only: scene_d_12_d)
qed

lemma scene_center_d:
  assumes "exists (intersectionCircle_d p)"
  shows "center (intersectionCircle_d p)
     = Vector3 (f_mul (- (6369051672525772 / 2 ^ 53))
                  (circle_a_d TOP_POINT_POS LEFT_POINT_POS (rTop_d p) (rLeft_d p)))
         (f_add 8 (f_mul (- (6369051672525772 / 2 ^ 53))
                  (circle_a_d TOP_POINT_POS LEFT_POINT_POS (rTop_d p) (rLeft_d p))))
         0"
proof -
  have i: "f_add 0 (f_mul b c) = f_mul b c" for b c
    by (simp add: f_add_def f_mul_def fl_idem)
  from circleResult_d_fields(2) [OF assms [unfolded intersectionCircle_d_def]]
  have "center (intersectionCircle_d p)
     = add_d TOP_POINT_POS
         (multiplyScalar_d (Vector3 (- (6369051672525772 / 2 ^ 53)) (- (6369051672525772 / 2 ^ 53)) 0)
            (circle_a_d TOP_POINT_POS LEFT_POINT_POS (rTop_d p) (rLeft_d p)))"
    by (simp only: intersectionCircle_d_def scene_direction_d)
  also have "\<dots> = Vector3 (f_mul (- (6369051672525772 / 2 ^ 53))
                  (circle_a_d TOP_POINT_POS LEFT_POINT_POS (rTop_d p) (rLeft_d p)))
         (f_add 8 (f_mul (- (6369051672525772 / 2 ^ 53))
                  (circle_a_d TOP_POINT_POS LEFT_POINT_POS (rTop_d p) (rLeft_d p))))
         0"
    by (simp add: add_d_def multiplyScalar_d_def TOP_POINT_POS_def zero_ops i)
  finally show ?thesis .
qed

section \<open>The claims about the circle\<close>

subsection \<open>Existence of the circle\<close>

text \<open>
  Claim C2, as stated: the circle is reported to exist exactly when
  \<open>|r1 - r2| < d_12 < r1 + r2\<close>, and at exact tangency it is reported not to exist. With the
  movable point at \<open>(-8.5, -0.5, 0)\<close>, a position of the sliders, the two spheres are
  internally tangent, \<open>r1 - r2 = d_12\<close> with \<open>r1 = 17 / \<surd>2\<close>, \<open>r2 = 1 / \<surd>2\<close> and
  \<open>d_12 = 16 / \<surd>2\<close>; the program computes the doubles \<open>r1 = 12.020815280171307\<close>,
  \<open>r2 = 0.7071067811865476\<close>, \<open>d_12 = 11.313708498984761\<close> and
  \<open>r1 - r2 = 11.31370849898476\<close>, one unit in the last place below \<open>d_12\<close>, so the test
  succeeds and the circle is reported to exist.
\<close>

theorem tangent_circle_reported_counterexample:
  "distanceTo TOP_POINT_POS (movablePointVec \<lparr>x = - 17 / 2, y = - 1 / 2, z = 0\<rparr>)
     - distanceTo LEFT_POINT_POS (movablePointVec \<lparr>x = - 17 / 2, y = - 1 / 2, z = 0\<rparr>)
     = distanceTo TOP_POINT_POS LEFT_POINT_POS
   \<and> rTop_d \<lparr>x = - 17 / 2, y = - 1 / 2, z = 0\<rparr> = 6767117402058633 / 2 ^ 49
   \<and> rLeft_d \<lparr>x = - 17 / 2, y = - 1 / 2, z = 0\<rparr> = 6369051672525773 / 2 ^ 53
   \<and> d_12_d TOP_POINT_POS LEFT_POINT_POS = 6369051672525773 / 2 ^ 49
   \<and> f_sub (rTop_d \<lparr>x = - 17 / 2, y = - 1 / 2, z = 0\<rparr>)
        (rLeft_d \<lparr>x = - 17 / 2, y = - 1 / 2, z = 0\<rparr>) = 6369051672525772 / 2 ^ 49
   \<and> exists (intersectionCircle_d \<lparr>x = - 17 / 2, y = - 1 / 2, z = 0\<rparr>)"
  using tangent_exact tangent_exists
  by (simp only: tangent_rTop tangent_rLeft scene_d_12_d tangent_sub)

text \<open>
  Claim C2, amended. The circle is reported to exist exactly when the test succeeds on the
  rounded values: \<open>d_12 < fl (r1 + r2)\<close> and \<open>|fl (r1 - r2)| < d_12\<close>, where \<open>r1\<close>, \<open>r2\<close> are
  the computed radii and \<open>d_12\<close> is the double nearest to \<open>\<surd>128\<close>. Whenever it is reported
  to exist the computed values satisfy \<open>|r1 - r2| < d_12 < r1 + r2\<close> strictly, so when the
  computed \<open>d_12\<close> equals \<open>r1 + r2\<close> or \<open>|r1 - r2|\<close> it is reported not to exist. Tangency of
  the spheres themselves does not make the computed values equal.
\<close>

theorem circle_exists_iff_rounded_test:
  "d_12_d TOP_POINT_POS LEFT_POINT_POS = fl (sqrt 128)
   \<and> (exists (intersectionCircle_d p) \<longleftrightarrow>
        d_12_d TOP_POINT_POS LEFT_POINT_POS < fl (rTop_d p + rLeft_d p)
        \<and> \<bar>fl (rTop_d p - rLeft_d p)\<bar> < d_12_d TOP_POINT_POS LEFT_POINT_POS)
   \<and> (exists (intersectionCircle_d p) \<longrightarrow>
        \<bar>rTop_d p - rLeft_d p\<bar> < d_12_d TOP_POINT_POS LEFT_POINT_POS
        \<and> d_12_d TOP_POINT_POS LEFT_POINT_POS < rTop_d p + rLeft_d p)
   \<and> (d_12_d TOP_POINT_POS LEFT_POINT_POS = rTop_d p + rLeft_d p
        \<or> d_12_d TOP_POINT_POS LEFT_POINT_POS = \<bar>rTop_d p - rLeft_d p\<bar>
      \<longrightarrow> \<not> exists (intersectionCircle_d p))"
proof -
  have d: "d_12_d TOP_POINT_POS LEFT_POINT_POS = fl (sqrt 128)"
    by (simp only: scene_d_12_d fl_sqrt_128)
  have t: "exists (intersectionCircle_d p) \<longleftrightarrow>
        d_12_d TOP_POINT_POS LEFT_POINT_POS < fl (rTop_d p + rLeft_d p)
        \<and> \<bar>fl (rTop_d p - rLeft_d p)\<bar> < d_12_d TOP_POINT_POS LEFT_POINT_POS"
    by (simp add: intersectionCircle_d_def circleResult_d_def f_add_def f_sub_def Let_def)
  have s: "\<bar>rTop_d p - rLeft_d p\<bar> < d_12_d TOP_POINT_POS LEFT_POINT_POS
        \<and> d_12_d TOP_POINT_POS LEFT_POINT_POS < rTop_d p + rLeft_d p"
    if "exists (intersectionCircle_d p)"
    using circle_exists_d_strict [OF that [unfolded intersectionCircle_d_def]] by simp
  from s have "\<not> exists (intersectionCircle_d p)"
    if "d_12_d TOP_POINT_POS LEFT_POINT_POS = rTop_d p + rLeft_d p
        \<or> d_12_d TOP_POINT_POS LEFT_POINT_POS = \<bar>rTop_d p - rLeft_d p\<bar>"
    using that by linarith
  with d t s show ?thesis by blast
qed

theorem circle_exists_iff_rounded_test_witness:
  "exists (intersectionCircle_d \<lparr>x = 0, y = 0, z = 0\<rparr>)
   \<and> rTop_d \<lparr>x = 0, y = 0, z = 0\<rparr> = 8 \<and> rLeft_d \<lparr>x = 0, y = 0, z = 0\<rparr> = 8
   \<and> d_12_d TOP_POINT_POS LEFT_POINT_POS = 6369051672525773 / 2 ^ 49
   \<and> \<bar>(8::real) - 8\<bar> < 6369051672525773 / 2 ^ 49 \<and> 6369051672525773 / 2 ^ 49 < (8::real) + 8
   \<and> rTop_d \<lparr>x = 0, y = 8, z = 0\<rparr> = 0
   \<and> rLeft_d \<lparr>x = 0, y = 8, z = 0\<rparr> = 6369051672525773 / 2 ^ 49
   \<and> \<not> exists (intersectionCircle_d \<lparr>x = 0, y = 8, z = 0\<rparr>)"
proof -
  have e: "exists (intersectionCircle_d \<lparr>x = 0, y = 0, z = 0\<rparr>)"
    by (rule origin_exists_d)
  have t: "d_12_d TOP_POINT_POS LEFT_POINT_POS
      = rTop_d \<lparr>x = 0, y = 8, z = 0\<rparr> + rLeft_d \<lparr>x = 0, y = 8, z = 0\<rparr>"
    by (simp only: top_r_d scene_d_12_d)
  from circle_exists_iff_rounded_test [of "\<lparr>x = 0, y = 0, z = 0\<rparr>"] e
  have "\<bar>rTop_d \<lparr>x = 0, y = 0, z = 0\<rparr> - rLeft_d \<lparr>x = 0, y = 0, z = 0\<rparr>\<bar>
          < d_12_d TOP_POINT_POS LEFT_POINT_POS
      \<and> d_12_d TOP_POINT_POS LEFT_POINT_POS
          < rTop_d \<lparr>x = 0, y = 0, z = 0\<rparr> + rLeft_d \<lparr>x = 0, y = 0, z = 0\<rparr>"
    by blast
  moreover from circle_exists_iff_rounded_test [of "\<lparr>x = 0, y = 8, z = 0\<rparr>"] t
  have "\<not> exists (intersectionCircle_d \<lparr>x = 0, y = 8, z = 0\<rparr>)"
    by blast
  ultimately show ?thesis
    using e by (simp only: origin_r_d top_r_d scene_d_12_d) simp
qed

subsection \<open>The reported circle\<close>

text \<open>
  Claim C4, as stated: when the circle is reported to exist its radius \<open>h\<close> is strictly
  positive. With the movable point at \<open>(-8.5, -0.5, 0)\<close> the circle is reported to exist,
  the computed offset \<open>a\<close> equals the computed \<open>r1\<close>, and the reported radius is \<open>0\<close>.
\<close>

theorem zero_radius_circle_counterexample:
  "exists (intersectionCircle_d \<lparr>x = - 17 / 2, y = - 1 / 2, z = 0\<rparr>)
   \<and> circle_a_d TOP_POINT_POS LEFT_POINT_POS (rTop_d \<lparr>x = - 17 / 2, y = - 1 / 2, z = 0\<rparr>)
        (rLeft_d \<lparr>x = - 17 / 2, y = - 1 / 2, z = 0\<rparr>)
      = rTop_d \<lparr>x = - 17 / 2, y = - 1 / 2, z = 0\<rparr>
   \<and> radius (intersectionCircle_d \<lparr>x = - 17 / 2, y = - 1 / 2, z = 0\<rparr>) = 0
   \<and> \<not> 0 < radius (intersectionCircle_d \<lparr>x = - 17 / 2, y = - 1 / 2, z = 0\<rparr>)"
  using tangent_exists
  by (simp only: tangent_radius tangent_rTop tangent_rLeft tangent_a) simp

text \<open>
  Claim C4, amended. When the circle is reported to exist, its radius is
  \<open>h = sqrt (max 0 (r1\<^sup>2 - a\<^sup>2))\<close> with every operation rounded, which is nonnegative and can
  be zero; its center is \<open>c1 + a * normalize (c2 - c1)\<close> with
  \<open>a = (r1\<^sup>2 - r2\<^sup>2 + d\<^sup>2) / (2 d)\<close>, every operation rounded; and in exact arithmetic the
  same formulas give a circle all of whose points \<open>center + h * u\<close>, for \<open>u\<close> a unit vector
  orthogonal to the plane normal, are at distance \<open>r1\<close> from \<open>c1\<close> and at distance \<open>r2\<close> from
  \<open>c2\<close>. How far rounding moves the computed center and radius from the exact ones is not
  bounded here.
\<close>

theorem circle_formula_rounded_and_exact:
  assumes "exists (intersectionCircle_d p)"
  shows "0 \<le> radius (intersectionCircle_d p)
    \<and> radius (intersectionCircle_d p)
        = f_sqrt (max 0 (f_sub (f_mul (rTop_d p) (rTop_d p))
            (f_mul (circle_a_d TOP_POINT_POS LEFT_POINT_POS (rTop_d p) (rLeft_d p))
               (circle_a_d TOP_POINT_POS LEFT_POINT_POS (rTop_d p) (rLeft_d p)))))
    \<and> center (intersectionCircle_d p)
        = add_d TOP_POINT_POS
            (multiplyScalar_d (normalize_d (subVectors_d LEFT_POINT_POS TOP_POINT_POS))
               (circle_a_d TOP_POINT_POS LEFT_POINT_POS (rTop_d p) (rLeft_d p)))
    \<and> circle_a_d TOP_POINT_POS LEFT_POINT_POS (rTop_d p) (rLeft_d p)
        = f_div (f_add (f_sub (f_mul (rTop_d p) (rTop_d p)) (f_mul (rLeft_d p) (rLeft_d p)))
                   (f_mul (d_12_d TOP_POINT_POS LEFT_POINT_POS)
                      (d_12_d TOP_POINT_POS LEFT_POINT_POS)))
            (f_mul 2 (d_12_d TOP_POINT_POS LEFT_POINT_POS))
    \<and> (\<forall>u. dot u u = 1 \<and> dot u (normalize_v (subVectors LEFT_POINT_POS TOP_POINT_POS)) = 0 \<longrightarrow>
          distanceTo
            (addScaledVector
               (add TOP_POINT_POS
                  (multiplyScalar (normalize_v (subVectors LEFT_POINT_POS TOP_POINT_POS))
                     (circle_a TOP_POINT_POS LEFT_POINT_POS
                        (distanceTo TOP_POINT_POS (movablePointVec p))
                        (distanceTo LEFT_POINT_POS (movablePointVec p)))))
               u (circle_h TOP_POINT_POS LEFT_POINT_POS
                    (distanceTo TOP_POINT_POS (movablePointVec p))
                    (distanceTo LEFT_POINT_POS (movablePointVec p))))
            TOP_POINT_POS = distanceTo TOP_POINT_POS (movablePointVec p)
        \<and> distanceTo
            (addScaledVector
               (add TOP_POINT_POS
                  (multiplyScalar (normalize_v (subVectors LEFT_POINT_POS TOP_POINT_POS))
                     (circle_a TOP_POINT_POS LEFT_POINT_POS
                        (distanceTo TOP_POINT_POS (movablePointVec p))
                        (distanceTo LEFT_POINT_POS (movablePointVec p)))))
               u (circle_h TOP_POINT_POS LEFT_POINT_POS
                    (distanceTo TOP_POINT_POS (movablePointVec p))
                    (distanceTo LEFT_POINT_POS (movablePointVec p))))
            LEFT_POINT_POS = distanceTo LEFT_POINT_POS (movablePointVec p))"
proof -
  note f = circleResult_d_fields(1,2) [OF assms [unfolded intersectionCircle_d_def]]
  have h: "radius (intersectionCircle_d p)
      = circle_h_d TOP_POINT_POS LEFT_POINT_POS (rTop_d p) (rLeft_d p)"
    using f(1) by (simp only: intersectionCircle_d_def)
  have c: "center (intersectionCircle_d p)
        = add_d TOP_POINT_POS
            (multiplyScalar_d (normalize_d (subVectors_d LEFT_POINT_POS TOP_POINT_POS))
               (circle_a_d TOP_POINT_POS LEFT_POINT_POS (rTop_d p) (rLeft_d p)))"
    using f(2) by (simp only: intersectionCircle_d_def)
  have n: "0 \<le> radius (intersectionCircle_d p)"
    unfolding h by (rule circle_h_d_nonneg)
  have hf: "radius (intersectionCircle_d p)
        = f_sqrt (max 0 (f_sub (f_mul (rTop_d p) (rTop_d p))
            (f_mul (circle_a_d TOP_POINT_POS LEFT_POINT_POS (rTop_d p) (rLeft_d p))
               (circle_a_d TOP_POINT_POS LEFT_POINT_POS (rTop_d p) (rLeft_d p)))))"
    unfolding h by (simp only: circle_h_d_def)
  have af: "circle_a_d TOP_POINT_POS LEFT_POINT_POS (rTop_d p) (rLeft_d p)
        = f_div (f_add (f_sub (f_mul (rTop_d p) (rTop_d p)) (f_mul (rLeft_d p) (rLeft_d p)))
                   (f_mul (d_12_d TOP_POINT_POS LEFT_POINT_POS)
                      (d_12_d TOP_POINT_POS LEFT_POINT_POS)))
            (f_mul 2 (d_12_d TOP_POINT_POS LEFT_POINT_POS))"
    by (simp only: circle_a_d_def)
  from n hf c af scene_circle_formula [of _ "movablePointVec p"] show ?thesis
    by blast
qed

theorem circle_formula_rounded_and_exact_witness:
  "exists (intersectionCircle_d \<lparr>x = 0, y = 0, z = 0\<rparr>)
   \<and> (0::real) \<le> 6369051672525771 / 2 ^ 50
   \<and> radius (intersectionCircle_d \<lparr>x = 0, y = 0, z = 0\<rparr>) = 6369051672525771 / 2 ^ 50
   \<and> center (intersectionCircle_d \<lparr>x = 0, y = 0, z = 0\<rparr>)
       = Vector3 (- (4503599627370497 / 2 ^ 50)) (9007199254740990 / 2 ^ 51) 0
   \<and> circle_a_d TOP_POINT_POS LEFT_POINT_POS 8 8 = 6369051672525774 / 2 ^ 50
   \<and> distanceTo (addScaledVector (Vector3 (- 4) 4 0) (Vector3 0 0 1) (sqrt 32)) TOP_POINT_POS = 8
   \<and> distanceTo (addScaledVector (Vector3 (- 4) 4 0) (Vector3 0 0 1) (sqrt 32)) LEFT_POINT_POS = 8"
proof -
  have u: "dot (Vector3 0 0 1) (Vector3 0 0 1) = 1
      \<and> dot (Vector3 0 0 1) (normalize_v (subVectors LEFT_POINT_POS TOP_POINT_POS)) = 0"
    by (simp add: vec_defs scene_defs)
  note t = circle_formula_rounded_and_exact [OF origin_circle_d(1)]
  from t have "0 \<le> radius (intersectionCircle_d \<lparr>x = 0, y = 0, z = 0\<rparr>)"
    by blast
  then have r: "(0::real) \<le> 6369051672525771 / 2 ^ 50"
    by (simp only: origin_circle_d(2))
  from t u have "distanceTo
            (addScaledVector
               (add TOP_POINT_POS
                  (multiplyScalar (normalize_v (subVectors LEFT_POINT_POS TOP_POINT_POS))
                     (circle_a TOP_POINT_POS LEFT_POINT_POS
                        (distanceTo TOP_POINT_POS (movablePointVec \<lparr>x = 0, y = 0, z = 0\<rparr>))
                        (distanceTo LEFT_POINT_POS (movablePointVec \<lparr>x = 0, y = 0, z = 0\<rparr>)))))
               (Vector3 0 0 1) (circle_h TOP_POINT_POS LEFT_POINT_POS
                    (distanceTo TOP_POINT_POS (movablePointVec \<lparr>x = 0, y = 0, z = 0\<rparr>))
                    (distanceTo LEFT_POINT_POS (movablePointVec \<lparr>x = 0, y = 0, z = 0\<rparr>))))
            TOP_POINT_POS = distanceTo TOP_POINT_POS (movablePointVec \<lparr>x = 0, y = 0, z = 0\<rparr>)
        \<and> distanceTo
            (addScaledVector
               (add TOP_POINT_POS
                  (multiplyScalar (normalize_v (subVectors LEFT_POINT_POS TOP_POINT_POS))
                     (circle_a TOP_POINT_POS LEFT_POINT_POS
                        (distanceTo TOP_POINT_POS (movablePointVec \<lparr>x = 0, y = 0, z = 0\<rparr>))
                        (distanceTo LEFT_POINT_POS (movablePointVec \<lparr>x = 0, y = 0, z = 0\<rparr>)))))
               (Vector3 0 0 1) (circle_h TOP_POINT_POS LEFT_POINT_POS
                    (distanceTo TOP_POINT_POS (movablePointVec \<lparr>x = 0, y = 0, z = 0\<rparr>))
                    (distanceTo LEFT_POINT_POS (movablePointVec \<lparr>x = 0, y = 0, z = 0\<rparr>))))
            LEFT_POINT_POS = distanceTo LEFT_POINT_POS (movablePointVec \<lparr>x = 0, y = 0, z = 0\<rparr>)"
    by blast
  then have "distanceTo (addScaledVector (Vector3 (- 4) 4 0) (Vector3 0 0 1) (sqrt 32)) TOP_POINT_POS = 8
      \<and> distanceTo (addScaledVector (Vector3 (- 4) 4 0) (Vector3 0 0 1) (sqrt 32)) LEFT_POINT_POS = 8"
    by (simp only: origin_exact)
  with r origin_circle_d origin_a show ?thesis
    by blast
qed

subsection \<open>Where the center lies\<close>

text \<open>
  Claim C5, as stated: when the circle exists its center lies on the segment between the
  two sphere centers, \<open>0 \<le> a \<le> d_12\<close>. With the movable point at \<open>(0, 10, 0)\<close> the circle is
  reported to exist, the computed offset \<open>a = -1.4142135623730936\<close> is negative and the
  reported center \<open>(0.9999999999999989, 8.999999999999998, 0)\<close> is not on the segment; with
  the movable point at \<open>(-10, 0, 0)\<close> the circle is reported to exist and the computed offset
  exceeds \<open>d_12\<close>. In exact arithmetic the circle for \<open>(0, 10, 0)\<close> exists as well, with
  \<open>a = - 16 / \<surd>128\<close> and center \<open>(1, 9, 0)\<close>.
\<close>

theorem circle_center_on_segment_counterexample:
  "exists (intersectionCircle_d \<lparr>x = 0, y = 10, z = 0\<rparr>)
   \<and> circle_a_d TOP_POINT_POS LEFT_POINT_POS (rTop_d \<lparr>x = 0, y = 10, z = 0\<rparr>)
        (rLeft_d \<lparr>x = 0, y = 10, z = 0\<rparr>) = - (6369051672525766 / 2 ^ 52)
   \<and> circle_a_d TOP_POINT_POS LEFT_POINT_POS (rTop_d \<lparr>x = 0, y = 10, z = 0\<rparr>)
        (rLeft_d \<lparr>x = 0, y = 10, z = 0\<rparr>) < 0
   \<and> center (intersectionCircle_d \<lparr>x = 0, y = 10, z = 0\<rparr>)
        = Vector3 (9007199254740982 / 2 ^ 53) (5066549580791807 / 2 ^ 49) 0
   \<and> \<not> (\<exists>s. 0 \<le> s \<and> s \<le> 1
          \<and> center (intersectionCircle_d \<lparr>x = 0, y = 10, z = 0\<rparr>)
              = add TOP_POINT_POS (multiplyScalar (subVectors LEFT_POINT_POS TOP_POINT_POS) s))
   \<and> exists (intersectionCircle_d \<lparr>x = - 10, y = 0, z = 0\<rparr>)
   \<and> d_12_d TOP_POINT_POS LEFT_POINT_POS
        < circle_a_d TOP_POINT_POS LEFT_POINT_POS (rTop_d \<lparr>x = - 10, y = 0, z = 0\<rparr>)
            (rLeft_d \<lparr>x = - 10, y = 0, z = 0\<rparr>)
   \<and> exists (intersectionCircle (computeGeometry \<lparr>x = 0, y = 10, z = 0\<rparr>))
   \<and> circle_a TOP_POINT_POS LEFT_POINT_POS (radiusTop (computeGeometry \<lparr>x = 0, y = 10, z = 0\<rparr>))
        (radiusLeft (computeGeometry \<lparr>x = 0, y = 10, z = 0\<rparr>)) < 0
   \<and> \<not> (\<exists>s. 0 \<le> s \<and> s \<le> 1
          \<and> center (intersectionCircle (computeGeometry \<lparr>x = 0, y = 10, z = 0\<rparr>))
              = add TOP_POINT_POS (multiplyScalar (subVectors LEFT_POINT_POS TOP_POINT_POS) s))"
proof -
  have "- 16 / sqrt 128 < 0" by simp
  moreover have "\<not> (\<exists>s::real. 0 \<le> s \<and> s \<le> 1
      \<and> Vector3 1 9 0 = add TOP_POINT_POS (multiplyScalar (subVectors LEFT_POINT_POS TOP_POINT_POS) s))"
    by (auto simp: vec_defs scene_defs)
  moreover have "\<not> (\<exists>s::real. 0 \<le> s \<and> s \<le> 1
      \<and> Vector3 (9007199254740982 / 2 ^ 53) (5066549580791807 / 2 ^ 49) 0
          = add TOP_POINT_POS (multiplyScalar (subVectors LEFT_POINT_POS TOP_POINT_POS) s))"
    by (auto simp: vec_defs scene_defs)
  moreover have "6369051672525773 / 2 ^ 49
      < circle_a_d TOP_POINT_POS LEFT_POINT_POS (7209276982427392 / 2 ^ 49) 2"
    using far_a_d by simp
  moreover have "- (6369051672525766 / 2 ^ 52) < (0::real)" by simp
  ultimately show ?thesis
    using up_circle up_circle_d(1) far_exists_d
    by (simp only: up_radii up_offset up_center up_circle_d(2) up_r_d up_a far_r_d scene_d_12_d)
      simp
qed

text \<open>
  Claim C5, amended. When the circle is reported to exist its center is
  \<open>c1 + a * normalize (c2 - c1)\<close>, every operation rounded: the point \<open>(t, 8 + t, 0)\<close> with
  \<open>t = - 0.7071067811865475 * a\<close>, on the line through the two sphere centers up to
  rounding, at the signed offset \<open>a\<close>, which the program does not clamp. The offset is
  nonnegative whenever the computed \<open>r2\<close> is at most \<open>d_12\<close>, and at most \<open>d_12\<close> plus one unit
  in the last place, \<open>2\<^sup>-\<^sup>4\<^sup>9\<close>, whenever the computed \<open>r1\<close> is at most \<open>d_12\<close>; otherwise the
  center can lie beyond either sphere center.
\<close>

theorem circle_center_on_center_line:
  assumes "exists (intersectionCircle_d p)"
  shows "center (intersectionCircle_d p)
        = add_d TOP_POINT_POS
            (multiplyScalar_d (normalize_d (subVectors_d LEFT_POINT_POS TOP_POINT_POS))
               (circle_a_d TOP_POINT_POS LEFT_POINT_POS (rTop_d p) (rLeft_d p)))
    \<and> center (intersectionCircle_d p)
        = Vector3 (f_mul (- (6369051672525772 / 2 ^ 53))
                     (circle_a_d TOP_POINT_POS LEFT_POINT_POS (rTop_d p) (rLeft_d p)))
            (f_add 8 (f_mul (- (6369051672525772 / 2 ^ 53))
                     (circle_a_d TOP_POINT_POS LEFT_POINT_POS (rTop_d p) (rLeft_d p))))
            0
    \<and> (rLeft_d p \<le> d_12_d TOP_POINT_POS LEFT_POINT_POS
         \<longrightarrow> 0 \<le> circle_a_d TOP_POINT_POS LEFT_POINT_POS (rTop_d p) (rLeft_d p))
    \<and> (rTop_d p \<le> d_12_d TOP_POINT_POS LEFT_POINT_POS
         \<longrightarrow> circle_a_d TOP_POINT_POS LEFT_POINT_POS (rTop_d p) (rLeft_d p)
              \<le> d_12_d TOP_POINT_POS LEFT_POINT_POS + 1 / 2 ^ 49)"
proof -
  have c: "center (intersectionCircle_d p)
        = add_d TOP_POINT_POS
            (multiplyScalar_d (normalize_d (subVectors_d LEFT_POINT_POS TOP_POINT_POS))
               (circle_a_d TOP_POINT_POS LEFT_POINT_POS (rTop_d p) (rLeft_d p)))"
    using circleResult_d_fields(2) [OF assms [unfolded intersectionCircle_d_def]]
    by (simp only: intersectionCircle_d_def)
  have r1: "0 \<le> rTop_d p" and r2: "0 \<le> rLeft_d p"
    by (simp_all add: rTop_d_def rLeft_d_def distanceTo_d_nonneg)
  have lo: "0 \<le> circle_a_d TOP_POINT_POS LEFT_POINT_POS (rTop_d p) (rLeft_d p)"
    if "rLeft_d p \<le> d_12_d TOP_POINT_POS LEFT_POINT_POS"
    using r2 that by (rule circle_a_d_nonneg)
  have hi: "circle_a_d TOP_POINT_POS LEFT_POINT_POS (rTop_d p) (rLeft_d p)
              \<le> d_12_d TOP_POINT_POS LEFT_POINT_POS + 1 / 2 ^ 49"
    if "rTop_d p \<le> d_12_d TOP_POINT_POS LEFT_POINT_POS"
    using r1 that by (rule scene_a_d_upper)
  from c scene_center_d [OF assms] lo hi show ?thesis
    by blast
qed

theorem circle_center_on_center_line_witness:
  "exists (intersectionCircle_d \<lparr>x = 0, y = 0, z = 0\<rparr>)
   \<and> rTop_d \<lparr>x = 0, y = 0, z = 0\<rparr> = 8 \<and> rLeft_d \<lparr>x = 0, y = 0, z = 0\<rparr> = 8
   \<and> (8::real) \<le> 6369051672525773 / 2 ^ 49
   \<and> center (intersectionCircle_d \<lparr>x = 0, y = 0, z = 0\<rparr>)
       = Vector3 (- (4503599627370497 / 2 ^ 50)) (9007199254740990 / 2 ^ 51) 0
   \<and> 0 \<le> circle_a_d TOP_POINT_POS LEFT_POINT_POS 8 8
   \<and> circle_a_d TOP_POINT_POS LEFT_POINT_POS 8 8 \<le> 6369051672525773 / 2 ^ 49 + 1 / 2 ^ 49"
proof -
  have b: "rLeft_d \<lparr>x = 0, y = 0, z = 0\<rparr> \<le> d_12_d TOP_POINT_POS LEFT_POINT_POS"
    "rTop_d \<lparr>x = 0, y = 0, z = 0\<rparr> \<le> d_12_d TOP_POINT_POS LEFT_POINT_POS"
    by (simp_all only: origin_r_d scene_d_12_d) simp_all
  from circle_center_on_center_line [OF origin_circle_d(1)] b
  have "0 \<le> circle_a_d TOP_POINT_POS LEFT_POINT_POS (rTop_d \<lparr>x = 0, y = 0, z = 0\<rparr>)
               (rLeft_d \<lparr>x = 0, y = 0, z = 0\<rparr>)
      \<and> circle_a_d TOP_POINT_POS LEFT_POINT_POS (rTop_d \<lparr>x = 0, y = 0, z = 0\<rparr>)
               (rLeft_d \<lparr>x = 0, y = 0, z = 0\<rparr>)
          \<le> d_12_d TOP_POINT_POS LEFT_POINT_POS + 1 / 2 ^ 49"
    by blast
  then have "0 \<le> circle_a_d TOP_POINT_POS LEFT_POINT_POS 8 8
      \<and> circle_a_d TOP_POINT_POS LEFT_POINT_POS 8 8 \<le> 6369051672525773 / 2 ^ 49 + 1 / 2 ^ 49"
    by (simp only: origin_r_d scene_d_12_d)
  moreover have "(8::real) \<le> 6369051672525773 / 2 ^ 49" by simp
  ultimately show ?thesis
    using origin_circle_d origin_r_d by blast
qed

section \<open>The three-sphere points of the scene\<close>

text \<open>
  With the three anchors fixed, every local of the block has a closed form in the movable
  point \<open>m\<close>; the quantity \<open>- vx m + vy m + vz m - 8\<close> vanishes exactly on the plane through
  the anchors.
\<close>

lemma scene_sq:
  "distanceTo TOP_POINT_POS m * distanceTo TOP_POINT_POS m = distanceToSquared TOP_POINT_POS m"
  "distanceTo LEFT_POINT_POS m * distanceTo LEFT_POINT_POS m = distanceToSquared LEFT_POINT_POS m"
  "distanceTo FRONT_POINT_POS m * distanceTo FRONT_POINT_POS m = distanceToSquared FRONT_POINT_POS m"
  by (simp_all add: distanceTo_def distanceToSquared_def Let_def)

lemma scene_L_dir: "L_dir TOP_POINT_POS LEFT_POINT_POS FRONT_POINT_POS = Vector3 (- 64) 64 64"
  by (simp add: L_dir_def n_A_def n_B_def vec_defs scene_defs)

lemma scene_L_dir_sq: "L_dir_sq TOP_POINT_POS LEFT_POINT_POS FRONT_POINT_POS = 12288"
  by (simp add: L_dir_sq_def scene_L_dir lengthSq_def)

lemma scene_d_A:
  "d_A TOP_POINT_POS LEFT_POINT_POS (distanceTo TOP_POINT_POS m) (distanceTo LEFT_POINT_POS m)
     = - 8 * vx m - 8 * vy m"
  by (simp add: d_A_def scene_sq) (simp add: distanceToSquared_def lengthSq_def scene_defs Let_def algebra_simps)

lemma scene_d_B:
  "d_B TOP_POINT_POS FRONT_POINT_POS (distanceTo TOP_POINT_POS m) (distanceTo FRONT_POINT_POS m)
     = 8 * vz m - 8 * vy m"
  by (simp add: d_B_def scene_sq) (simp add: distanceToSquared_def lengthSq_def scene_defs Let_def algebra_simps)

lemma scene_L_p0:
  "L_p0 TOP_POINT_POS LEFT_POINT_POS FRONT_POINT_POS (distanceTo TOP_POINT_POS m)
      (distanceTo LEFT_POINT_POS m) (distanceTo FRONT_POINT_POS m)
     = Vector3 ((2 * vx m + vy m + vz m) / 3) ((vx m + 2 * vy m - vz m) / 3)
         ((vx m - vy m + 2 * vz m) / 3)"
  by (simp add: L_p0_def Let_def scene_d_A scene_d_B scene_L_dir scene_L_dir_sq)
     (simp add: n_A_def n_B_def vec_defs scene_defs algebra_simps)

lemma scene_coeff_B:
  "coeff_B TOP_POINT_POS LEFT_POINT_POS FRONT_POINT_POS (distanceTo TOP_POINT_POS m)
      (distanceTo LEFT_POINT_POS m) (distanceTo FRONT_POINT_POS m) = - 1024"
  by (simp add: coeff_B_def delta_p_def scene_L_p0 scene_L_dir)
     (simp add: vec_defs scene_defs field_simps)

lemma scene_coeff_C:
  "coeff_C TOP_POINT_POS LEFT_POINT_POS FRONT_POINT_POS (distanceTo TOP_POINT_POS m)
      (distanceTo LEFT_POINT_POS m) (distanceTo FRONT_POINT_POS m)
   = 64 / 3 - (- vx m + vy m + vz m - 8) * (- vx m + vy m + vz m - 8) / 3"
  by (simp add: coeff_C_def delta_p_def scene_L_p0 scene_sq)
     (simp add: vec_defs scene_defs Let_def field_simps)

lemma scene_discriminant:
  "discriminant TOP_POINT_POS LEFT_POINT_POS FRONT_POINT_POS (distanceTo TOP_POINT_POS m)
      (distanceTo LEFT_POINT_POS m) (distanceTo FRONT_POINT_POS m)
   = 16384 * ((- vx m + vy m + vz m - 8) * (- vx m + vy m + vz m - 8))"
  by (simp add: discriminant_def scene_coeff_B scene_coeff_C coeff_A_def scene_L_dir_sq)

lemma scene_sqrt_disc:
  "sqrt_disc TOP_POINT_POS LEFT_POINT_POS FRONT_POINT_POS (distanceTo TOP_POINT_POS m)
      (distanceTo LEFT_POINT_POS m) (distanceTo FRONT_POINT_POS m)
   = 128 * \<bar>(- vx m + vy m + vz m - 8)\<bar>"
proof -
  have "sqrt (16384 * ((- vx m + vy m + vz m - 8) * (- vx m + vy m + vz m - 8))) = sqrt 16384 * sqrt ((- vx m + vy m + vz m - 8) * (- vx m + vy m + vz m - 8))"
    by (rule real_sqrt_mult)
  then show ?thesis
    by (simp add: sqrt_disc_def scene_discriminant)
qed

lemma scene_t1:
  "t1 TOP_POINT_POS LEFT_POINT_POS FRONT_POINT_POS (distanceTo TOP_POINT_POS m)
      (distanceTo LEFT_POINT_POS m) (distanceTo FRONT_POINT_POS m)
   = (8 + \<bar>- vx m + vy m + vz m - 8\<bar>) / 192"
  by (simp add: t1_def scene_coeff_B scene_sqrt_disc coeff_A_def scene_L_dir_sq)

lemma scene_t2:
  "t2 TOP_POINT_POS LEFT_POINT_POS FRONT_POINT_POS (distanceTo TOP_POINT_POS m)
      (distanceTo LEFT_POINT_POS m) (distanceTo FRONT_POINT_POS m)
   = (8 - \<bar>- vx m + vy m + vz m - 8\<bar>) / 192"
  by (simp add: t2_def scene_coeff_B scene_sqrt_disc coeff_A_def scene_L_dir_sq)

lemma scene_p1:
  "p1 TOP_POINT_POS LEFT_POINT_POS FRONT_POINT_POS (distanceTo TOP_POINT_POS m)
      (distanceTo LEFT_POINT_POS m) (distanceTo FRONT_POINT_POS m)
   = Vector3 ((2 * vx m + vy m + vz m - 8 - \<bar>- vx m + vy m + vz m - 8\<bar>) / 3)
       ((vx m + 2 * vy m - vz m + 8 + \<bar>- vx m + vy m + vz m - 8\<bar>) / 3)
       ((vx m - vy m + 2 * vz m + 8 + \<bar>- vx m + vy m + vz m - 8\<bar>) / 3)"
  by (simp add: p1_def scene_L_p0 scene_L_dir scene_t1 addScaledVector_def) argo

lemma scene_p2:
  "p2 TOP_POINT_POS LEFT_POINT_POS FRONT_POINT_POS (distanceTo TOP_POINT_POS m)
      (distanceTo LEFT_POINT_POS m) (distanceTo FRONT_POINT_POS m)
   = Vector3 ((2 * vx m + vy m + vz m - 8 + \<bar>- vx m + vy m + vz m - 8\<bar>) / 3)
       ((vx m + 2 * vy m - vz m + 8 - \<bar>- vx m + vy m + vz m - 8\<bar>) / 3)
       ((vx m - vy m + 2 * vz m + 8 - \<bar>- vx m + vy m + vz m - 8\<bar>) / 3)"
  by (simp add: p2_def scene_L_p0 scene_L_dir scene_t2 addScaledVector_def) argo

lemma scene_points:
  "pointsResult TOP_POINT_POS LEFT_POINT_POS FRONT_POINT_POS (distanceTo TOP_POINT_POS m)
      (distanceTo LEFT_POINT_POS m) (distanceTo FRONT_POINT_POS m)
   = p1 TOP_POINT_POS LEFT_POINT_POS FRONT_POINT_POS (distanceTo TOP_POINT_POS m)
      (distanceTo LEFT_POINT_POS m) (distanceTo FRONT_POINT_POS m)
     # (if 16384 * ((- vx m + vy m + vz m - 8) * (- vx m + vy m + vz m - 8)) > 1 / 10 ^ 6
        then [p2 TOP_POINT_POS LEFT_POINT_POS FRONT_POINT_POS (distanceTo TOP_POINT_POS m)
               (distanceTo LEFT_POINT_POS m) (distanceTo FRONT_POINT_POS m)]
        else [])"
  by (simp add: pointsResult_def scene_L_dir_sq scene_discriminant)

lemma addScaledVector_inj:
  assumes "addScaledVector u v s = addScaledVector u v t" and "lengthSq v \<noteq> 0"
  shows "s = t"
proof (rule ccontr)
  assume "s \<noteq> t"
  with assms(1) have "vx v = 0 \<and> vy v = 0 \<and> vz v = 0"
    by (simp add: addScaledVector_def)
  with assms(2) show False by (simp add: lengthSq_def)
qed

lemma p1_neq_p2:
  assumes "L_dir_sq c1 c2 c3 > 0" and "discriminant c1 c2 c3 r1 r2 r3 > 0"
  shows "p1 c1 c2 c3 r1 r2 r3 \<noteq> p2 c1 c2 c3 r1 r2 r3"
proof
  assume "p1 c1 c2 c3 r1 r2 r3 = p2 c1 c2 c3 r1 r2 r3"
  then have "t1 c1 c2 c3 r1 r2 r3 = t2 c1 c2 c3 r1 r2 r3"
    unfolding p1_def p2_def using assms(1)
    by (intro addScaledVector_inj [where v = "L_dir c1 c2 c3"]) (simp_all add: L_dir_sq_def)
  then have "sqrt_disc c1 c2 c3 r1 r2 r3 = 0"
    using assms(1) by (simp add: t1_def t2_def coeff_A_def)
  with assms(2) show False by (simp add: sqrt_disc_def)
qed

lemma pointsResult_length:
  "length (pointsResult c1 c2 c3 r1 r2 r3) \<le> 2"
  by (simp add: pointsResult_def)

lemma pointsResult_two:
  assumes "length (pointsResult c1 c2 c3 r1 r2 r3) = 2"
  shows "pointsResult c1 c2 c3 r1 r2 r3 = [p1 c1 c2 c3 r1 r2 r3, p2 c1 c2 c3 r1 r2 r3]"
    and "L_dir_sq c1 c2 c3 > 0" and "discriminant c1 c2 c3 r1 r2 r3 > 0"
  using assms by (auto simp: pointsResult_def split: if_splits intro: less_trans [of 0 "1 / 10 ^ 6"])

lemma anchor_points:
  assumes "- vx m + vy m + vz m - 8 = 0"
  shows "pointsResult TOP_POINT_POS LEFT_POINT_POS FRONT_POINT_POS (distanceTo TOP_POINT_POS m)
      (distanceTo LEFT_POINT_POS m) (distanceTo FRONT_POINT_POS m) = [m]"
proof (cases m)
  case (Vector3 a b c)
  with assms have e: "- a + b + c - 8 = 0" by simp
  then have "(2 * a + b + c - 8) / 3 = a" "(a + 2 * b - c + 8) / 3 = b" "(a - b + 2 * c + 8) / 3 = c"
    by argo+
  with e show ?thesis
    by (simp add: scene_points scene_p1 Vector3)
qed

lemma dist_anchor_simps:
  "distanceTo TOP_POINT_POS TOP_POINT_POS = 0"
  "distanceTo LEFT_POINT_POS LEFT_POINT_POS = 0"
  "distanceTo LEFT_POINT_POS TOP_POINT_POS = sqrt 128"
  "distanceTo TOP_POINT_POS LEFT_POINT_POS = sqrt 128"
  "distanceTo TOP_POINT_POS FRONT_POINT_POS = sqrt 128"
  "distanceTo LEFT_POINT_POS FRONT_POINT_POS = sqrt 128"
  by (simp_all add: vec_defs scene_defs)

lemma unit_radii_discriminant:
  "discriminant TOP_POINT_POS LEFT_POINT_POS FRONT_POINT_POS 1 1 1 = - 2048000"
  by (simp add: tri_defs vec_defs scene_defs)

lemma origin_discriminant:
  "discriminant TOP_POINT_POS LEFT_POINT_POS FRONT_POINT_POS 8 8 8 = 1048576"
  by (simp add: tri_defs vec_defs scene_defs)

lemma near_plane_offset:
  "- vx (movablePointVec \<lparr>x = 0, y = 8 + 1 / 256000, z = 0\<rparr>)
   + vy (movablePointVec \<lparr>x = 0, y = 8 + 1 / 256000, z = 0\<rparr>)
   + vz (movablePointVec \<lparr>x = 0, y = 8 + 1 / 256000, z = 0\<rparr>) - 8 = 1 / 256000"
  by (simp add: movablePointVec_def)

lemma near_plane_points:
  "intersectionPoints (computeGeometry \<lparr>x = 0, y = 8 + 1 / 256000, z = 0\<rparr>)
     = [Vector3 0 (8 + 1 / 256000) 0]"
  by (simp add: radius_simps scene_points scene_p1 near_plane_offset)
     (simp add: movablePointVec_def)

lemma near_plane_midpoint:
  "addScaledVector
     (L_p0 TOP_POINT_POS LEFT_POINT_POS FRONT_POINT_POS
        (radiusTop (computeGeometry \<lparr>x = 0, y = 8 + 1 / 256000, z = 0\<rparr>))
        (radiusLeft (computeGeometry \<lparr>x = 0, y = 8 + 1 / 256000, z = 0\<rparr>))
        (radiusFront (computeGeometry \<lparr>x = 0, y = 8 + 1 / 256000, z = 0\<rparr>)))
     (L_dir TOP_POINT_POS LEFT_POINT_POS FRONT_POINT_POS)
     (- coeff_B TOP_POINT_POS LEFT_POINT_POS FRONT_POINT_POS
          (radiusTop (computeGeometry \<lparr>x = 0, y = 8 + 1 / 256000, z = 0\<rparr>))
          (radiusLeft (computeGeometry \<lparr>x = 0, y = 8 + 1 / 256000, z = 0\<rparr>))
          (radiusFront (computeGeometry \<lparr>x = 0, y = 8 + 1 / 256000, z = 0\<rparr>))
        / (2 * coeff_A TOP_POINT_POS LEFT_POINT_POS FRONT_POINT_POS))
   = Vector3 (1 / 768000) (8 + 1 / 384000) (- 1 / 768000)"
  by (simp add: radius_simps scene_L_p0 scene_coeff_B scene_L_dir coeff_A_def scene_L_dir_sq)
     (simp add: movablePointVec_def addScaledVector_def)

subsection \<open>How many points\<close>

text \<open>
  Claim C7. The sequence of returned points has length at most 2, and when it has length 2
  the two points are distinct and both lie on all three sphere surfaces.
\<close>

theorem at_most_two_points_distinct:
  "length (intersectionPoints (computeGeometry p)) \<le> 2
   \<and> (length (intersectionPoints (computeGeometry p)) = 2 \<longrightarrow>
        intersectionPoints (computeGeometry p) ! 0 \<noteq> intersectionPoints (computeGeometry p) ! 1
        \<and> (\<forall>q \<in> set (intersectionPoints (computeGeometry p)).
              distanceTo q TOP_POINT_POS = radiusTop (computeGeometry p)
            \<and> distanceTo q LEFT_POINT_POS = radiusLeft (computeGeometry p)
            \<and> distanceTo q FRONT_POINT_POS = radiusFront (computeGeometry p)))"
proof -
  let ?ps = "pointsResult TOP_POINT_POS LEFT_POINT_POS FRONT_POINT_POS
       (distanceTo TOP_POINT_POS (movablePointVec p))
       (distanceTo LEFT_POINT_POS (movablePointVec p))
       (distanceTo FRONT_POINT_POS (movablePointVec p))"
  have "?ps ! 0 \<noteq> ?ps ! 1" if "length ?ps = 2"
    using pointsResult_two [OF that] p1_neq_p2 by simp
  moreover have "distanceTo q TOP_POINT_POS = distanceTo TOP_POINT_POS (movablePointVec p)
      \<and> distanceTo q LEFT_POINT_POS = distanceTo LEFT_POINT_POS (movablePointVec p)
      \<and> distanceTo q FRONT_POINT_POS = distanceTo FRONT_POINT_POS (movablePointVec p)"
    if "q \<in> set ?ps" for q
    using pointsResult_on_spheres [OF that]
    by (simp add: distanceTo_of_square distanceTo_nonneg)
  ultimately show ?thesis
    by (simp add: radius_simps pointsResult_length)
qed

theorem at_most_two_points_distinct_witness:
  "length (intersectionPoints (computeGeometry \<lparr>x = 0, y = 0, z = 0\<rparr>)) = 2
   \<and> intersectionPoints (computeGeometry \<lparr>x = 0, y = 0, z = 0\<rparr>) ! 0
      \<noteq> intersectionPoints (computeGeometry \<lparr>x = 0, y = 0, z = 0\<rparr>) ! 1"
proof -
  have "length (intersectionPoints (computeGeometry \<lparr>x = 0, y = 0, z = 0\<rparr>)) = 2"
    by (simp add: origin_points)
  with at_most_two_points_distinct [of "\<lparr>x = 0, y = 0, z = 0\<rparr>"] show ?thesis
    by blast
qed

subsection \<open>The anchors are never collinear\<close>

text \<open>
  Claim C10. With the anchors \<open>(0, 8, 0)\<close>, \<open>(-8, 0, 0)\<close>, \<open>(0, 0, 8)\<close> the direction \<open>L_dir\<close>
  is \<open>(-64, 64, 64)\<close> and \<open>L_dir_sq\<close> is 12288 whatever the movable point is, so the
  branch for \<open>L_dir_sq \<le> 1e-6\<close> is never taken: the returned points are those of the inner
  branch. The distance \<open>d_12\<close> of the circle test is \<open>sqrt 128\<close>.
\<close>

theorem anchors_never_collinear:
  "L_dir TOP_POINT_POS LEFT_POINT_POS FRONT_POINT_POS = Vector3 (- 64) 64 64
   \<and> L_dir_sq TOP_POINT_POS LEFT_POINT_POS FRONT_POINT_POS = 12288
   \<and> \<not> L_dir_sq TOP_POINT_POS LEFT_POINT_POS FRONT_POINT_POS \<le> 1 / 10 ^ 6
   \<and> d_12 TOP_POINT_POS LEFT_POINT_POS = sqrt 128
   \<and> intersectionPoints (computeGeometry p)
       = (if discriminant TOP_POINT_POS LEFT_POINT_POS FRONT_POINT_POS
               (radiusTop (computeGeometry p)) (radiusLeft (computeGeometry p))
               (radiusFront (computeGeometry p)) \<ge> 0
          then [p1 TOP_POINT_POS LEFT_POINT_POS FRONT_POINT_POS
               (radiusTop (computeGeometry p)) (radiusLeft (computeGeometry p))
               (radiusFront (computeGeometry p))]
             @ (if discriminant TOP_POINT_POS LEFT_POINT_POS FRONT_POINT_POS
               (radiusTop (computeGeometry p)) (radiusLeft (computeGeometry p))
               (radiusFront (computeGeometry p)) > 1 / 10 ^ 6
                then [p2 TOP_POINT_POS LEFT_POINT_POS FRONT_POINT_POS
               (radiusTop (computeGeometry p)) (radiusLeft (computeGeometry p))
               (radiusFront (computeGeometry p))] else [])
          else [])"
  by (simp add: scene_L_dir scene_L_dir_sq radius_simps pointsResult_def)
     (simp add: d_12_def vec_defs scene_defs)

subsection \<open>The movable point on an anchor\<close>

text \<open>
  Claim C9. When the movable point coincides with an anchor, so that one sphere has radius
  0, every divisor of the computation is nonzero: \<open>2 * d_12\<close>, the length \<open>normalize\<close>
  divides by, \<open>L_dir_sq\<close> and \<open>2 * A\<close>. Every point returned is the anchor itself, the
  single point of the sphere of radius 0, and the circle of spheres 1 and 2 is reported
  exactly when the sphere of radius 0 is the third one.
\<close>

theorem movable_on_anchor_no_zero_divisor:
  assumes "movablePointVec p \<in> {TOP_POINT_POS, LEFT_POINT_POS, FRONT_POINT_POS}"
  shows "2 * d_12 TOP_POINT_POS LEFT_POINT_POS \<noteq> 0
    \<and> length_v (subVectors LEFT_POINT_POS TOP_POINT_POS) \<noteq> 0
    \<and> L_dir_sq TOP_POINT_POS LEFT_POINT_POS FRONT_POINT_POS \<noteq> 0
    \<and> 2 * coeff_A TOP_POINT_POS LEFT_POINT_POS FRONT_POINT_POS \<noteq> 0
    \<and> (\<forall>q \<in> set (intersectionPoints (computeGeometry p)). q = movablePointVec p)
    \<and> (exists (intersectionCircle (computeGeometry p))
         \<longleftrightarrow> movablePointVec p = FRONT_POINT_POS)"
proof -
  have div: "2 * d_12 TOP_POINT_POS LEFT_POINT_POS \<noteq> 0
    \<and> length_v (subVectors LEFT_POINT_POS TOP_POINT_POS) \<noteq> 0
    \<and> L_dir_sq TOP_POINT_POS LEFT_POINT_POS FRONT_POINT_POS \<noteq> 0
    \<and> 2 * coeff_A TOP_POINT_POS LEFT_POINT_POS FRONT_POINT_POS \<noteq> 0"
    by (simp add: length_v_subVectors d_12_scene coeff_A_def scene_L_dir_sq)
  have on_plane: "- vx (movablePointVec p) + vy (movablePointVec p) + vz (movablePointVec p) - 8 = 0"
    using assms by (auto simp: scene_defs)
  have pts: "intersectionPoints (computeGeometry p) = [movablePointVec p]"
    by (simp add: radius_simps anchor_points [OF on_plane])
  have ne: "TOP_POINT_POS \<noteq> FRONT_POINT_POS" "LEFT_POINT_POS \<noteq> FRONT_POINT_POS"
    by (simp_all add: scene_defs)
  have "exists (intersectionCircle (computeGeometry p)) \<longleftrightarrow> movablePointVec p = FRONT_POINT_POS"
    using assms ne by (auto simp: radius_simps exists_iff d_12_def dist_anchor_simps)
  with div pts show ?thesis by simp
qed

theorem movable_on_anchor_no_zero_divisor_witness:
  "movablePointVec \<lparr>x = 0, y = 8, z = 0\<rparr> = TOP_POINT_POS
   \<and> radiusTop (computeGeometry \<lparr>x = 0, y = 8, z = 0\<rparr>) = 0
   \<and> intersectionPoints (computeGeometry \<lparr>x = 0, y = 8, z = 0\<rparr>) = [Vector3 0 8 0]
   \<and> \<not> exists (intersectionCircle (computeGeometry \<lparr>x = 0, y = 8, z = 0\<rparr>))
   \<and> 2 * d_12 TOP_POINT_POS LEFT_POINT_POS \<noteq> 0
   \<and> L_dir_sq TOP_POINT_POS LEFT_POINT_POS FRONT_POINT_POS \<noteq> 0"
proof -
  have m: "movablePointVec \<lparr>x = 0, y = 8, z = 0\<rparr> = TOP_POINT_POS"
    by (simp add: scene_defs)
  then have "movablePointVec \<lparr>x = 0, y = 8, z = 0\<rparr>
      \<in> {TOP_POINT_POS, LEFT_POINT_POS, FRONT_POINT_POS}"
    by simp
  from movable_on_anchor_no_zero_divisor [OF this]
  have "\<not> exists (intersectionCircle (computeGeometry \<lparr>x = 0, y = 8, z = 0\<rparr>))"
    and "2 * d_12 TOP_POINT_POS LEFT_POINT_POS \<noteq> 0"
    and "L_dir_sq TOP_POINT_POS LEFT_POINT_POS FRONT_POINT_POS \<noteq> 0"
    by (simp_all add: m scene_defs)
  moreover have "intersectionPoints (computeGeometry \<lparr>x = 0, y = 8, z = 0\<rparr>) = [Vector3 0 8 0]"
    using anchor_points [of TOP_POINT_POS] by (simp add: radius_simps m) (simp add: scene_defs)
  moreover have "radiusTop (computeGeometry \<lparr>x = 0, y = 8, z = 0\<rparr>) = 0"
    by (simp add: radius_simps m dist_anchor_simps)
  ultimately show ?thesis
    using m by simp
qed

subsection \<open>The point count and the discriminant\<close>

text \<open>
  Claim C6, as stated: a discriminant within \<open>1e-6\<close> of 0 yields exactly one point, at
  \<open>t = -B / (2 A)\<close>, and a positive discriminant yields two points. With the movable point at
  \<open>(0, 8 + 1/256000, 0)\<close> the discriminant is positive and at most \<open>1e-6\<close>; one point is
  returned, \<open>(0, 8 + 1/256000, 0)\<close>, and it is not the point at \<open>t = -B / (2 A)\<close>, which is
  \<open>(1/768000, 8 + 1/384000, -1/768000)\<close>.
\<close>

theorem tangent_point_parameter_counterexample:
  "0 < discriminant TOP_POINT_POS LEFT_POINT_POS FRONT_POINT_POS
         (radiusTop (computeGeometry \<lparr>x = 0, y = 8 + 1 / 256000, z = 0\<rparr>))
         (radiusLeft (computeGeometry \<lparr>x = 0, y = 8 + 1 / 256000, z = 0\<rparr>))
         (radiusFront (computeGeometry \<lparr>x = 0, y = 8 + 1 / 256000, z = 0\<rparr>))
   \<and> discriminant TOP_POINT_POS LEFT_POINT_POS FRONT_POINT_POS
         (radiusTop (computeGeometry \<lparr>x = 0, y = 8 + 1 / 256000, z = 0\<rparr>))
         (radiusLeft (computeGeometry \<lparr>x = 0, y = 8 + 1 / 256000, z = 0\<rparr>))
         (radiusFront (computeGeometry \<lparr>x = 0, y = 8 + 1 / 256000, z = 0\<rparr>)) \<le> 1 / 10 ^ 6
   \<and> length (intersectionPoints (computeGeometry \<lparr>x = 0, y = 8 + 1 / 256000, z = 0\<rparr>)) = 1
   \<and> intersectionPoints (computeGeometry \<lparr>x = 0, y = 8 + 1 / 256000, z = 0\<rparr>)
       = [Vector3 0 (8 + 1 / 256000) 0]
   \<and> intersectionPoints (computeGeometry \<lparr>x = 0, y = 8 + 1 / 256000, z = 0\<rparr>)
       \<noteq> [addScaledVector
            (L_p0 TOP_POINT_POS LEFT_POINT_POS FRONT_POINT_POS
               (radiusTop (computeGeometry \<lparr>x = 0, y = 8 + 1 / 256000, z = 0\<rparr>))
               (radiusLeft (computeGeometry \<lparr>x = 0, y = 8 + 1 / 256000, z = 0\<rparr>))
               (radiusFront (computeGeometry \<lparr>x = 0, y = 8 + 1 / 256000, z = 0\<rparr>)))
            (L_dir TOP_POINT_POS LEFT_POINT_POS FRONT_POINT_POS)
            (- coeff_B TOP_POINT_POS LEFT_POINT_POS FRONT_POINT_POS
                 (radiusTop (computeGeometry \<lparr>x = 0, y = 8 + 1 / 256000, z = 0\<rparr>))
                 (radiusLeft (computeGeometry \<lparr>x = 0, y = 8 + 1 / 256000, z = 0\<rparr>))
                 (radiusFront (computeGeometry \<lparr>x = 0, y = 8 + 1 / 256000, z = 0\<rparr>))
               / (2 * coeff_A TOP_POINT_POS LEFT_POINT_POS FRONT_POINT_POS))]"
proof -
  have "0 < discriminant TOP_POINT_POS LEFT_POINT_POS FRONT_POINT_POS
         (radiusTop (computeGeometry \<lparr>x = 0, y = 8 + 1 / 256000, z = 0\<rparr>))
         (radiusLeft (computeGeometry \<lparr>x = 0, y = 8 + 1 / 256000, z = 0\<rparr>))
         (radiusFront (computeGeometry \<lparr>x = 0, y = 8 + 1 / 256000, z = 0\<rparr>))
     \<and> discriminant TOP_POINT_POS LEFT_POINT_POS FRONT_POINT_POS
         (radiusTop (computeGeometry \<lparr>x = 0, y = 8 + 1 / 256000, z = 0\<rparr>))
         (radiusLeft (computeGeometry \<lparr>x = 0, y = 8 + 1 / 256000, z = 0\<rparr>))
         (radiusFront (computeGeometry \<lparr>x = 0, y = 8 + 1 / 256000, z = 0\<rparr>)) \<le> 1 / 10 ^ 6"
    by (simp add: radius_simps scene_discriminant) (simp add: movablePointVec_def)
  then show ?thesis
    by (simp only: near_plane_points near_plane_midpoint) simp
qed

text \<open>
  Claim C6, amended. When \<open>L_dir_sq\<close> exceeds \<open>1e-6\<close>: a negative discriminant yields no
  point; a discriminant from 0 to \<open>1e-6\<close> yields exactly one point, at
  \<open>t = (-B + sqrt \<Delta>) / (2 A)\<close>, which is \<open>-B / (2 A)\<close> when the discriminant is 0; a
  discriminant above \<open>1e-6\<close> yields exactly two points, at \<open>t = (-B + sqrt \<Delta>) / (2 A)\<close> and
  then at \<open>t = (-B - sqrt \<Delta>) / (2 A)\<close>.
\<close>

theorem point_count_follows_discriminant:
  assumes "L_dir_sq c1 c2 c3 > 1 / 10 ^ 6"
  shows "(discriminant c1 c2 c3 r1 r2 r3 < 0 \<longrightarrow> pointsResult c1 c2 c3 r1 r2 r3 = [])
    \<and> (0 \<le> discriminant c1 c2 c3 r1 r2 r3 \<and> discriminant c1 c2 c3 r1 r2 r3 \<le> 1 / 10 ^ 6 \<longrightarrow>
         pointsResult c1 c2 c3 r1 r2 r3
           = [addScaledVector (L_p0 c1 c2 c3 r1 r2 r3) (L_dir c1 c2 c3)
                ((- coeff_B c1 c2 c3 r1 r2 r3 + sqrt (discriminant c1 c2 c3 r1 r2 r3))
                   / (2 * coeff_A c1 c2 c3))])
    \<and> (discriminant c1 c2 c3 r1 r2 r3 = 0 \<longrightarrow>
         pointsResult c1 c2 c3 r1 r2 r3
           = [addScaledVector (L_p0 c1 c2 c3 r1 r2 r3) (L_dir c1 c2 c3)
                (- coeff_B c1 c2 c3 r1 r2 r3 / (2 * coeff_A c1 c2 c3))])
    \<and> (1 / 10 ^ 6 < discriminant c1 c2 c3 r1 r2 r3 \<longrightarrow>
         pointsResult c1 c2 c3 r1 r2 r3
           = [addScaledVector (L_p0 c1 c2 c3 r1 r2 r3) (L_dir c1 c2 c3)
                ((- coeff_B c1 c2 c3 r1 r2 r3 + sqrt (discriminant c1 c2 c3 r1 r2 r3))
                   / (2 * coeff_A c1 c2 c3)),
              addScaledVector (L_p0 c1 c2 c3 r1 r2 r3) (L_dir c1 c2 c3)
                ((- coeff_B c1 c2 c3 r1 r2 r3 - sqrt (discriminant c1 c2 c3 r1 r2 r3))
                   / (2 * coeff_A c1 c2 c3))])"
  using assms by (simp add: pointsResult_def p1_def p2_def t1_def t2_def sqrt_disc_def)

theorem point_count_follows_discriminant_witness:
  "discriminant TOP_POINT_POS LEFT_POINT_POS FRONT_POINT_POS 1 1 1 < 0
   \<and> pointsResult TOP_POINT_POS LEFT_POINT_POS FRONT_POINT_POS 1 1 1 = []
   \<and> discriminant TOP_POINT_POS LEFT_POINT_POS FRONT_POINT_POS 0 (sqrt 128) (sqrt 128) = 0
   \<and> pointsResult TOP_POINT_POS LEFT_POINT_POS FRONT_POINT_POS 0 (sqrt 128) (sqrt 128)
       = [Vector3 0 8 0]
   \<and> 1 / 10 ^ 6 < discriminant TOP_POINT_POS LEFT_POINT_POS FRONT_POINT_POS 8 8 8
   \<and> pointsResult TOP_POINT_POS LEFT_POINT_POS FRONT_POINT_POS 8 8 8
       = [Vector3 (- 16 / 3) (16 / 3) (16 / 3), Vector3 0 0 0]"
proof -
  have nd: "L_dir_sq TOP_POINT_POS LEFT_POINT_POS FRONT_POINT_POS > 1 / 10 ^ 6"
    by (simp add: scene_L_dir_sq)
  have d0: "discriminant TOP_POINT_POS LEFT_POINT_POS FRONT_POINT_POS 0 (sqrt 128) (sqrt 128) = 0"
    by (simp add: tri_defs vec_defs scene_defs)
  have a: "pointsResult TOP_POINT_POS LEFT_POINT_POS FRONT_POINT_POS 1 1 1 = []"
    using point_count_follows_discriminant [OF nd, of 1 1 1]
    by (simp add: unit_radii_discriminant)
  have "pointsResult TOP_POINT_POS LEFT_POINT_POS FRONT_POINT_POS 0 (sqrt 128) (sqrt 128)
       = [addScaledVector (L_p0 TOP_POINT_POS LEFT_POINT_POS FRONT_POINT_POS 0 (sqrt 128) (sqrt 128))
            (L_dir TOP_POINT_POS LEFT_POINT_POS FRONT_POINT_POS)
            (- coeff_B TOP_POINT_POS LEFT_POINT_POS FRONT_POINT_POS 0 (sqrt 128) (sqrt 128)
               / (2 * coeff_A TOP_POINT_POS LEFT_POINT_POS FRONT_POINT_POS))]"
    using point_count_follows_discriminant [OF nd, of 0 "sqrt 128" "sqrt 128"] d0 by blast
  then have b: "pointsResult TOP_POINT_POS LEFT_POINT_POS FRONT_POINT_POS 0 (sqrt 128) (sqrt 128)
       = [Vector3 0 8 0]"
    by (simp add: L_p0_def coeff_B_def coeff_A_def delta_p_def d_A_def d_B_def L_dir_def L_dir_sq_def
        n_A_def n_B_def Let_def vec_defs scene_defs)
  have "pointsResult TOP_POINT_POS LEFT_POINT_POS FRONT_POINT_POS 8 8 8
       = [addScaledVector (L_p0 TOP_POINT_POS LEFT_POINT_POS FRONT_POINT_POS 8 8 8)
            (L_dir TOP_POINT_POS LEFT_POINT_POS FRONT_POINT_POS)
            ((- coeff_B TOP_POINT_POS LEFT_POINT_POS FRONT_POINT_POS 8 8 8 + sqrt 1048576)
               / (2 * coeff_A TOP_POINT_POS LEFT_POINT_POS FRONT_POINT_POS)),
          addScaledVector (L_p0 TOP_POINT_POS LEFT_POINT_POS FRONT_POINT_POS 8 8 8)
            (L_dir TOP_POINT_POS LEFT_POINT_POS FRONT_POINT_POS)
            ((- coeff_B TOP_POINT_POS LEFT_POINT_POS FRONT_POINT_POS 8 8 8 - sqrt 1048576)
               / (2 * coeff_A TOP_POINT_POS LEFT_POINT_POS FRONT_POINT_POS))]"
    using point_count_follows_discriminant [OF nd, of 8 8 8]
    by (simp add: origin_discriminant)
  then have c: "pointsResult TOP_POINT_POS LEFT_POINT_POS FRONT_POINT_POS 8 8 8
       = [Vector3 (- 16 / 3) (16 / 3) (16 / 3), Vector3 0 0 0]"
    by (simp add: L_p0_def coeff_B_def coeff_A_def delta_p_def d_A_def d_B_def L_dir_def L_dir_sq_def
        n_A_def n_B_def Let_def vec_defs scene_defs)
  from a b c d0 show ?thesis
    by (simp add: unit_radii_discriminant origin_discriminant)
qed

section \<open>Runs of the scene on the store\<close>

lemma new_Vector3_simps:
  "fst (new_Vector3 a b c s) = fresh s"
  "fresh (snd (new_Vector3 a b c s)) = Suc (fresh s)"
  "vecs (snd (new_Vector3 a b c s)) q = (if q = fresh s then Vector3 a b c else vecs s q)"
  by (simp_all add: new_Vector3_def)

lemma set_vec_simps:
  "fresh (set_vec this v s) = fresh s"
  "vecs (set_vec this v s) q = (if q = this then v else vecs s q)"
  by (simp_all add: set_vec_def)

lemma method_fresh:
  "fresh (m_copy this v s) = fresh s"
  "fresh (m_subVectors this a b s) = fresh s"
  "fresh (m_addVectors this a b s) = fresh s"
  "fresh (m_crossVectors this a b s) = fresh s"
  "fresh (m_add this v s) = fresh s"
  "fresh (m_addScaledVector this v k s) = fresh s"
  "fresh (m_multiplyScalar this k s) = fresh s"
  "fresh (m_divideScalar this k s) = fresh s"
  "fresh (m_normalize this s) = fresh s"
  by (simp_all add: m_copy_def m_subVectors_def m_addVectors_def m_crossVectors_def m_add_def
      m_addScaledVector_def m_multiplyScalar_def m_divideScalar_def m_normalize_def set_vec_simps)

lemma method_vecs:
  "vecs (m_copy this v s) q = (if q = this then vecs s v else vecs s q)"
  "vecs (m_subVectors this a b s) q
     = (if q = this then subVectors (vecs s a) (vecs s b) else vecs s q)"
  "vecs (m_addVectors this a b s) q
     = (if q = this then addVectors (vecs s a) (vecs s b) else vecs s q)"
  "vecs (m_crossVectors this a b s) q
     = (if q = this then crossVectors (vecs s a) (vecs s b) else vecs s q)"
  "vecs (m_add this v s) q = (if q = this then add (vecs s this) (vecs s v) else vecs s q)"
  "vecs (m_addScaledVector this v k s) q
     = (if q = this then addScaledVector (vecs s this) (vecs s v) k else vecs s q)"
  "vecs (m_multiplyScalar this k s) q
     = (if q = this then multiplyScalar (vecs s this) k else vecs s q)"
  "vecs (m_divideScalar this k s) q
     = (if q = this then divideScalar (vecs s this) k else vecs s q)"
  "vecs (m_normalize this s) q = (if q = this then normalize_v (vecs s this) else vecs s q)"
  by (simp_all add: m_copy_def m_subVectors_def m_addVectors_def m_crossVectors_def m_add_def
      m_addScaledVector_def m_multiplyScalar_def m_divideScalar_def m_normalize_def set_vec_simps)

lemmas store_simps = new_Vector3_simps method_fresh method_vecs

lemma st_circle_refines:
  assumes "c1 < fresh s" and "c2 < fresh s"
  shows "exists_r (fst (st_circle c1 c2 r1 r2 s)) = exists (circleResult (vecs s c1) (vecs s c2) r1 r2)"
    and "vecs (snd (st_circle c1 c2 r1 r2 s)) (center_r (fst (st_circle c1 c2 r1 r2 s)))
         = center (circleResult (vecs s c1) (vecs s c2) r1 r2)"
    and "radius_r (fst (st_circle c1 c2 r1 r2 s)) = radius (circleResult (vecs s c1) (vecs s c2) r1 r2)"
    and "quaternion_r (fst (st_circle c1 c2 r1 r2 s))
         = quaternion (circleResult (vecs s c1) (vecs s c2) r1 r2)"
  using assms
  by (simp_all add: st_circle_def circleResult_def Let_def split_def store_simps d_12_def
      circle_a_def circle_h_def)

lemma st_circle_frame:
  shows "fresh s \<le> fresh (snd (st_circle c1 c2 r1 r2 s))"
    and "center_r (fst (st_circle c1 c2 r1 r2 s)) < fresh (snd (st_circle c1 c2 r1 r2 s))"
    and "fresh s \<le> center_r (fst (st_circle c1 c2 r1 r2 s))"
    and "r < fresh s \<Longrightarrow> vecs (snd (st_circle c1 c2 r1 r2 s)) r = vecs s r"
  by (simp_all add: st_circle_def Let_def split_def store_simps)

lemma st_roots_frame:
  shows "n \<le> fresh s \<Longrightarrow> n \<le> fresh (snd (st_roots lp ld A B C s))"
    and "r < fresh s \<Longrightarrow> vecs (snd (st_roots lp ld A B C s)) r = vecs s r"
  by (simp_all add: st_roots_def Let_def split_def store_simps)

lemma st_roots_refines:
  assumes "lp < fresh s" and "ld < fresh s"
  shows "map (vecs (snd (st_roots lp ld A B C s))) (fst (st_roots lp ld A B C s))
    = (if B * B - 4 * A * C \<ge> 0 then
         [addScaledVector (vecs s lp) (vecs s ld) ((- B + sqrt (B * B - 4 * A * C)) / (2 * A))]
           @ (if B * B - 4 * A * C > 1 / 10 ^ 6
              then [addScaledVector (vecs s lp) (vecs s ld)
                      ((- B - sqrt (B * B - 4 * A * C)) / (2 * A))]
              else [])
       else [])"
  using assms by (simp add: st_roots_def Let_def split_def store_simps)

lemma st_line_frame:
  shows "n \<le> fresh s \<Longrightarrow> n \<le> fresh (snd (st_line c1 na nb ld dA dB lsq r1 s))"
    and "r < fresh s \<Longrightarrow> vecs (snd (st_line c1 na nb ld dA dB lsq r1 s)) r = vecs s r"
  by (simp_all add: st_line_def Let_def split_def store_simps st_roots_frame)

lemma st_line_refines:
  assumes "c1 < fresh s" and "na < fresh s" and "nb < fresh s" and "ld < fresh s"
    and "vecs s c1 = c1v" and "vecs s na = n_A c1v c2v" and "vecs s nb = n_B c1v c3v"
    and "vecs s ld = L_dir c1v c2v c3v"
    and "dA = d_A c1v c2v r1 r2" and "dB = d_B c1v c3v r1 r3" and "lsq = L_dir_sq c1v c2v c3v"
  shows "map (vecs (snd (st_line c1 na nb ld dA dB lsq r1 s))) (fst (st_line c1 na nb ld dA dB lsq r1 s))
    = (if discriminant c1v c2v c3v r1 r2 r3 \<ge> 0 then
         [p1 c1v c2v c3v r1 r2 r3]
           @ (if discriminant c1v c2v c3v r1 r2 r3 > 1 / 10 ^ 6 then [p2 c1v c2v c3v r1 r2 r3] else [])
       else [])"
proof -
  have "map (vecs (snd (st_line c1 na nb ld dA dB lsq r1 s))) (fst (st_line c1 na nb ld dA dB lsq r1 s))
    = (let lp = divideScalar (addVectors (multiplyScalar (crossVectors (vecs s nb) (vecs s ld)) dA)
                  (multiplyScalar (crossVectors (vecs s ld) (vecs s na)) dB)) lsq;
           B = 2 * dot (subVectors lp (vecs s c1)) (vecs s ld);
           C = lengthSq (subVectors lp (vecs s c1)) - r1 * r1
       in if B * B - 4 * lsq * C \<ge> 0 then
         [addScaledVector lp (vecs s ld) ((- B + sqrt (B * B - 4 * lsq * C)) / (2 * lsq))]
           @ (if B * B - 4 * lsq * C > 1 / 10 ^ 6
              then [addScaledVector lp (vecs s ld) ((- B - sqrt (B * B - 4 * lsq * C)) / (2 * lsq))]
              else [])
       else [])"
    using assms(1-4)
    by (simp add: st_line_def Let_def split_def store_simps st_roots_refines)
  then show ?thesis
    using assms(5-)
    by (simp add: discriminant_def coeff_A_def coeff_B_def coeff_C_def delta_p_def L_p0_def
      Let_def p1_def p2_def t1_def t2_def sqrt_disc_def)
qed

lemma st_points_frame:
  shows "n \<le> fresh s \<Longrightarrow> n \<le> fresh (snd (st_points c1 c2 c3 r1 r2 r3 s))"
    and "r < fresh s \<Longrightarrow> vecs (snd (st_points c1 c2 c3 r1 r2 r3 s)) r = vecs s r"
  by (simp_all add: st_points_def Let_def split_def store_simps st_line_frame)

lemma st_points_refines:
  assumes "c1 < fresh s" and "c2 < fresh s" and "c3 < fresh s"
  shows "map (vecs (snd (st_points c1 c2 c3 r1 r2 r3 s))) (fst (st_points c1 c2 c3 r1 r2 r3 s))
         = pointsResult (vecs s c1) (vecs s c2) (vecs s c3) r1 r2 r3"
proof (cases "L_dir_sq (vecs s c1) (vecs s c2) (vecs s c3) > 1 / 10 ^ 6")
  case False
  with assms show ?thesis
    unfolding st_points_def Let_def split_def
    by (simp add: store_simps pointsResult_def L_dir_sq_def L_dir_def n_A_def n_B_def)
next
  case True
  let ?s6 = "m_crossVectors (Suc (Suc (fresh s))) (fresh s) (Suc (fresh s))
          (snd (new_Vector3 0 0 0 (m_subVectors (Suc (fresh s)) c3 c1
            (snd (new_Vector3 0 0 0 (m_subVectors (fresh s) c2 c1 (snd (new_Vector3 0 0 0 s))))))))"
  let ?line = "st_line c1 (fresh s) (Suc (fresh s)) (Suc (Suc (fresh s)))
        (d_A (vecs s c1) (vecs s c2) r1 r2) (d_B (vecs s c1) (vecs s c3) r1 r3)
        (L_dir_sq (vecs s c1) (vecs s c2) (vecs s c3)) r1 ?s6"
  from True assms have "st_points c1 c2 c3 r1 r2 r3 s = ?line"
    unfolding st_points_def Let_def split_def
    by (simp add: store_simps L_dir_sq_def L_dir_def n_A_def n_B_def d_A_def d_B_def)
  moreover have "map (vecs (snd ?line)) (fst ?line)
    = (if discriminant (vecs s c1) (vecs s c2) (vecs s c3) r1 r2 r3 \<ge> 0 then
         [p1 (vecs s c1) (vecs s c2) (vecs s c3) r1 r2 r3]
           @ (if discriminant (vecs s c1) (vecs s c2) (vecs s c3) r1 r2 r3 > 1 / 10 ^ 6
              then [p2 (vecs s c1) (vecs s c2) (vecs s c3) r1 r2 r3] else [])
       else [])"
    using assms
    by (intro st_line_refines) (simp_all add: store_simps L_dir_def n_A_def n_B_def)
  ultimately show ?thesis
    using True by (simp add: pointsResult_def)
qed

lemma module_loaded_refs:
  assumes "module_loaded s"
  shows "TOP_REF < fresh s" "LEFT_REF < fresh s" "FRONT_REF < fresh s"
    "vecs s TOP_REF = TOP_POINT_POS" "vecs s LEFT_REF = LEFT_POINT_POS"
    "vecs s FRONT_REF = FRONT_POINT_POS"
  using assms by (simp_all add: module_loaded_def TOP_REF_def LEFT_REF_def FRONT_REF_def)

lemma module_loaded_frame:
  assumes "module_loaded s" and "fresh s \<le> fresh s'" and "\<And>r. r < fresh s \<Longrightarrow> vecs s' r = vecs s r"
  shows "module_loaded s'"
  using assms module_loaded_refs(1-3) [OF assms(1)] by (simp add: module_loaded_def)

lemma module_store_loaded: "module_loaded module_store"
  by (simp add: module_loaded_def module_store_def new_Vector3_def TOP_REF_def LEFT_REF_def
      FRONT_REF_def scene_defs)

lemma st_circle_fresh: "n \<le> fresh s \<Longrightarrow> n \<le> fresh (snd (st_circle c1 c2 r1 r2 s))"
  using st_circle_frame(1) [of s c1 c2 r1 r2] by simp

lemma st_memo_frame:
  shows "n \<le> fresh s \<Longrightarrow> n \<le> fresh (snd (st_memo mv s))"
    and "r < fresh s \<Longrightarrow> vecs (snd (st_memo mv s)) r = vecs s r"
proof -
  show "n \<le> fresh s \<Longrightarrow> n \<le> fresh (snd (st_memo mv s))"
    by (simp add: st_memo_def Let_def split_def st_points_frame(1) st_circle_fresh)
  show "vecs (snd (st_memo mv s)) r = vecs s r" if "r < fresh s"
  proof -
    from that have "r < fresh (snd (st_circle TOP_REF LEFT_REF (distanceTo (vecs s TOP_REF) (vecs s mv))
        (distanceTo (vecs s LEFT_REF) (vecs s mv)) s))"
      by (rule less_le_trans [OF _ st_circle_frame(1)])
    then show ?thesis
      by (simp add: st_memo_def Let_def split_def st_points_frame(2) st_circle_frame(4) [OF that])
  qed
qed

lemma st_memo_refines:
  assumes "module_loaded s"
  shows "read_result (snd (st_memo mv s)) (fst (st_memo mv s))
    = \<lparr>radiusTop = distanceTo TOP_POINT_POS (vecs s mv),
       radiusLeft = distanceTo LEFT_POINT_POS (vecs s mv),
       radiusFront = distanceTo FRONT_POINT_POS (vecs s mv),
       intersectionCircle = circleResult TOP_POINT_POS LEFT_POINT_POS
         (distanceTo TOP_POINT_POS (vecs s mv)) (distanceTo LEFT_POINT_POS (vecs s mv)),
       intersectionPoints = pointsResult TOP_POINT_POS LEFT_POINT_POS FRONT_POINT_POS
         (distanceTo TOP_POINT_POS (vecs s mv)) (distanceTo LEFT_POINT_POS (vecs s mv))
         (distanceTo FRONT_POINT_POS (vecs s mv))\<rparr>"
proof -
  note m = module_loaded_refs [OF assms]
  let ?r1 = "distanceTo TOP_POINT_POS (vecs s mv)"
  let ?r2 = "distanceTo LEFT_POINT_POS (vecs s mv)"
  let ?r3 = "distanceTo FRONT_POINT_POS (vecs s mv)"
  let ?c = "st_circle TOP_REF LEFT_REF ?r1 ?r2 s"
  let ?p = "st_points TOP_REF LEFT_REF FRONT_REF ?r1 ?r2 ?r3 (snd ?c)"
  have memo: "st_memo mv s =
      (\<lparr>radiusTop_r = ?r1, radiusLeft_r = ?r2, radiusFront_r = ?r3,
        intersectionCircle_r = fst ?c, intersectionPoints_r = fst ?p\<rparr>, snd ?p)"
    by (simp add: st_memo_def Let_def split_def m)
  have c: "TOP_REF < fresh (snd ?c)" "LEFT_REF < fresh (snd ?c)" "FRONT_REF < fresh (snd ?c)"
    by (rule less_le_trans [OF _ st_circle_frame(1)], rule m)+
  have v: "vecs (snd ?c) TOP_REF = TOP_POINT_POS" "vecs (snd ?c) LEFT_REF = LEFT_POINT_POS"
    "vecs (snd ?c) FRONT_REF = FRONT_POINT_POS"
    using m by (simp_all add: st_circle_frame(4))
  have pts: "map (vecs (snd ?p)) (fst ?p)
      = pointsResult TOP_POINT_POS LEFT_POINT_POS FRONT_POINT_POS ?r1 ?r2 ?r3"
    using st_points_refines [OF c, of ?r1 ?r2 ?r3] by (simp add: v)
  have cen: "vecs (snd ?p) (center_r (fst ?c)) = center (circleResult TOP_POINT_POS LEFT_POINT_POS ?r1 ?r2)"
    using st_circle_refines(2) [OF m(1) m(2), of ?r1 ?r2]
    by (simp add: st_points_frame(2) st_circle_frame(2) m)
  have circ: "exists_r (fst ?c) = exists (circleResult TOP_POINT_POS LEFT_POINT_POS ?r1 ?r2)"
    "radius_r (fst ?c) = radius (circleResult TOP_POINT_POS LEFT_POINT_POS ?r1 ?r2)"
    "quaternion_r (fst ?c) = quaternion (circleResult TOP_POINT_POS LEFT_POINT_POS ?r1 ?r2)"
    using st_circle_refines(1,3,4) [OF m(1) m(2), of ?r1 ?r2] by (simp_all add: m)
  show ?thesis
    by (simp add: memo read_result_def pts cen circ)
qed

lemma st_Scene_refines:
  assumes "module_loaded s"
  shows "read_result (snd (st_Scene p s)) (fst (st_Scene p s)) = computeGeometry p"
    and "fresh s \<le> fresh (snd (st_Scene p s))"
    and "r < fresh s \<Longrightarrow> vecs (snd (st_Scene p s)) r = vecs s r"
proof -
  let ?s1 = "snd (new_Vector3 (x p) (y p) (z p) s)"
  have sc: "st_Scene p s = st_memo (fresh s) ?s1"
    by (simp add: st_Scene_def split_def new_Vector3_simps)
  have l1: "module_loaded ?s1"
    using assms by (rule module_loaded_frame) (simp_all add: new_Vector3_simps)
  have mv: "vecs ?s1 (fresh s) = movablePointVec p"
    by (simp add: new_Vector3_simps movablePointVec_def)
  show "read_result (snd (st_Scene p s)) (fst (st_Scene p s)) = computeGeometry p"
    by (simp add: sc st_memo_refines [OF l1] mv computeGeometry_def Let_def)
  show "fresh s \<le> fresh (snd (st_Scene p s))"
    by (simp add: sc st_memo_frame(1) new_Vector3_simps)
  show "vecs (snd (st_Scene p s)) r = vecs s r" if "r < fresh s"
    using that by (simp add: sc st_memo_frame(2) new_Vector3_simps)
qed

text \<open>
  Claim C8. The computation is deterministic and keeps no hidden state: two runs with the
  same movable point, from any two stores in which the module is loaded, return results
  that read the same, namely what the value-level computation gives; and a run leaves the
  anchors, and every object that existed before it, as they were, so the module is still
  loaded for the next run.
\<close>

theorem scene_runs_agree:
  assumes "module_loaded s" and "module_loaded s'"
  shows "read_result (snd (st_Scene p s)) (fst (st_Scene p s))
           = read_result (snd (st_Scene p s')) (fst (st_Scene p s'))
    \<and> read_result (snd (st_Scene p s)) (fst (st_Scene p s)) = computeGeometry p
    \<and> module_loaded (snd (st_Scene p s))
    \<and> (\<forall>r. r < fresh s \<longrightarrow> vecs (snd (st_Scene p s)) r = vecs s r)"
proof -
  have "module_loaded (snd (st_Scene p s))"
    using assms(1) by (rule module_loaded_frame) (simp_all add: st_Scene_refines(2,3) [OF assms(1)])
  then show ?thesis
    by (simp add: st_Scene_refines [OF assms(1)] st_Scene_refines(1) [OF assms(2)])
qed

theorem scene_runs_agree_witness:
  "module_loaded module_store
   \<and> module_loaded (snd (st_Scene \<lparr>x = 1, y = 2, z = 3\<rparr> module_store))
   \<and> read_result (snd (st_Scene \<lparr>x = 0, y = 0, z = 0\<rparr> module_store))
        (fst (st_Scene \<lparr>x = 0, y = 0, z = 0\<rparr> module_store))
      = read_result
          (snd (st_Scene \<lparr>x = 0, y = 0, z = 0\<rparr> (snd (st_Scene \<lparr>x = 1, y = 2, z = 3\<rparr> module_store))))
          (fst (st_Scene \<lparr>x = 0, y = 0, z = 0\<rparr> (snd (st_Scene \<lparr>x = 1, y = 2, z = 3\<rparr> module_store))))
   \<and> radiusTop (read_result (snd (st_Scene \<lparr>x = 0, y = 0, z = 0\<rparr> module_store))
        (fst (st_Scene \<lparr>x = 0, y = 0, z = 0\<rparr> module_store))) = 8"
proof -
  let ?a = "st_Scene \<lparr>x = 0, y = 0, z = 0\<rparr> module_store"
  let ?b = "st_Scene \<lparr>x = 0, y = 0, z = 0\<rparr> (snd (st_Scene \<lparr>x = 1, y = 2, z = 3\<rparr> module_store))"
  have l: "module_loaded (snd (st_Scene \<lparr>x = 1, y = 2, z = 3\<rparr> module_store))"
    using scene_runs_agree [OF module_store_loaded module_store_loaded] by blast
  from scene_runs_agree [OF module_store_loaded l, of "\<lparr>x = 0, y = 0, z = 0\<rparr>"]
  have e: "read_result (snd ?a) (fst ?a) = read_result (snd ?b) (fst ?b)"
    and c: "read_result (snd ?a) (fst ?a) = computeGeometry \<lparr>x = 0, y = 0, z = 0\<rparr>"
    by blast+
  have "radiusTop (read_result (snd ?a) (fst ?a)) = 8"
    by (simp only: c origin_radii)
  with e l module_store_loaded show ?thesis
    by blast
qed

end
